(* ===== verification/Prelude.thy ===== *)
theory Prelude
  imports Complex_Main "HOL-Library.Word" "HOL-Library.Sublist"
begin

text \<open>
  Shared vocabulary of the development: the byte type of the emitted artifacts, the
  little-endian integer layout that Python's \<open>struct.pack('<H')\<close> and
  \<open>struct.pack('<L')\<close> produce, Python's \<open>round\<close> on a real argument
  (round half to even), and the generic lemmas on lists and words that the component
  theories share. The collection \<open>py_simps\<close> gathers the evaluation equations of the
  modelled Python primitives, so that component proofs and witnesses say
  \<open>simp add: py_simps\<close>.
\<close>

named_theorems py_simps "evaluation equations of the modelled Python primitives"

type_synonym byte = "8 word"

section \<open>Little-endian fixed-width integers\<close>

text \<open>
  \<open>le_bytes n v\<close> is the \<open>n\<close>-byte little-endian image of the natural number
  \<open>v\<close> reduced modulo \<open>256 ^ n\<close>; \<open>le_nat\<close> reads such a byte string back.
  \<open>struct.pack('<H', v)\<close> is \<open>le_bytes 2 v\<close> and \<open>struct.pack('<L', v)\<close> is
  \<open>le_bytes 4 v\<close> once the range check of \<open>struct\<close> has passed.
\<close>

fun le_bytes :: "nat \<Rightarrow> nat \<Rightarrow> byte list" where
  "le_bytes 0 v = []"
| "le_bytes (Suc n) v = word_of_nat (v mod 256) # le_bytes n (v div 256)"

fun le_nat :: "byte list \<Rightarrow> nat" where
  "le_nat [] = 0"
| "le_nat (b # bs) = unat b + 256 * le_nat bs"

section \<open>Python's round on a real argument\<close>

text \<open>
  Python 3's \<open>round(x)\<close> returns the nearest integer and breaks ties towards the even
  neighbour. The argument is a real number here: the binary rounding of IEEE doubles
  is not modelled (see the header of the root theory).
\<close>

definition py_round :: "real \<Rightarrow> int" where
  "py_round x =
     (let f = \<lfloor>x\<rfloor>; d = x - of_int f in
      if d < 1/2 then f else if 1/2 < d then f + 1 else if even f then f else f + 1)"

section \<open>Generic lemmas\<close>

lemma length_le_bytes [simp]: "length (le_bytes n v) = n"
  by (induction n arbitrary: v) auto

lemma le_bytes_numeral [py_simps]:
  "le_bytes (numeral k) v = word_of_nat (v mod 256) # le_bytes (pred_numeral k) (v div 256)"
  by (simp only: numeral_eq_Suc [of k] le_bytes.simps)

lemma le_nat_le_bytes [simp]: "le_nat (le_bytes n v) = v mod 256 ^ n"
proof (induction n arbitrary: v)
  case 0
  then show ?case by simp
next
  case (Suc n)
  have "unat (word_of_nat (v mod 256) :: byte) = v mod 256"
    by (simp add: unat_of_nat)
  then have "le_nat (le_bytes (Suc n) v) = v mod 256 + 256 * (v div 256 mod 256 ^ n)"
    using Suc.IH by simp
  also have "\<dots> = v mod 256 ^ Suc n"
    by (simp add: mod_mult2_eq mult.commute)
  finally show ?case .
qed

lemma le_nat_le_bytes_id:
  "v < 256 ^ n \<Longrightarrow> le_nat (le_bytes n v) = v"
  by simp

lemma le_nat_bound: "le_nat bs < 256 ^ length bs"
proof (induction bs)
  case Nil
  then show ?case by simp
next
  case (Cons b bs)
  have "unat b < 256"
    using unsigned_less [of b] by simp
  with Cons.IH show ?case by simp
qed

lemma le_bytes_append:
  "le_bytes (m + n) v = le_bytes m v @ le_bytes n (v div 256 ^ m)"
  by (induction m arbitrary: v) (auto simp: div_mult2_eq)

lemma py_round_bounds:
  "of_int (py_round x) - 1/2 \<le> x \<and> x \<le> of_int (py_round x) + 1/2"
proof -
  have fl: "of_int \<lfloor>x\<rfloor> \<le> x" "x < of_int \<lfloor>x\<rfloor> + 1"
    by linarith+
  then show ?thesis
    unfolding py_round_def Let_def by (auto split: if_splits; linarith)
qed

lemma py_round_of_int [simp]: "py_round (of_int i) = i"
  by (simp add: py_round_def)

lemma py_round_numeral [simp]: "py_round (numeral n) = numeral n"
  using py_round_of_int [of "numeral n"] by simp

lemma py_round_floor_range: "\<lfloor>x\<rfloor> \<le> py_round x \<and> py_round x \<le> \<lfloor>x\<rfloor> + 1"
  by (simp add: py_round_def Let_def)

lemma py_round_mono: "x \<le> y \<Longrightarrow> py_round x \<le> py_round y"
proof -
  assume xy: "x \<le> y"
  then have fl: "\<lfloor>x\<rfloor> \<le> \<lfloor>y\<rfloor>"
    by (rule floor_mono)
  show ?thesis
  proof (cases "\<lfloor>x\<rfloor> = \<lfloor>y\<rfloor>")
    case True
    with xy have "x - of_int \<lfloor>x\<rfloor> \<le> y - of_int \<lfloor>y\<rfloor>"
      by simp
    with True show ?thesis
      by (auto simp: py_round_def Let_def)
  next
    case False
    with fl have "\<lfloor>x\<rfloor> + 1 \<le> \<lfloor>y\<rfloor>" by simp
    with py_round_floor_range [of x] py_round_floor_range [of y] show ?thesis
      by linarith
  qed
qed

lemma take_drop_concat_fixed:
  "\<forall>b\<in>set bs. length b = n \<Longrightarrow> k < length bs \<Longrightarrow> take n (drop (n * k) (concat bs @ rest)) = bs ! k"
proof (induction bs arbitrary: k)
  case Nil
  then show ?case by simp
next
  case (Cons b bs)
  show ?case
  proof (cases k)
    case 0
    with Cons.prems show ?thesis by simp
  next
    case (Suc j)
    with Cons.prems have "take n (drop (n * j) (concat bs @ rest)) = bs ! j" by (intro Cons.IH) auto
    with Cons.prems Suc show ?thesis by (simp add: add.commute)
  qed
qed

lemma length_concat_fixed: "\<forall>x\<in>set xs. length x = n \<Longrightarrow> length (concat xs) = n * length xs"
  by (induction xs) auto

lemma take_drop_take: "m + n \<le> p \<Longrightarrow> take n (drop m (take p xs)) = take n (drop m xs)"
  by (simp add: take_drop min_def)

section \<open>Searching lists and editing guarded by a test\<close>

lemma find_append_single: "find Q (xs @ ys) = (case find Q xs of None \<Rightarrow> find Q ys | Some x \<Rightarrow> Some x)"
  by (induction xs) auto

lemma find_SomeD: "find P xs = Some x \<Longrightarrow> x \<in> set xs \<and> P x"
  by (induction xs) (auto split: if_splits)

lemma find_upt_Suc_last: "find (\<lambda>i. i < n \<and> Q i) [p..<Suc n] = find Q [p..<n]"
proof (cases "p \<le> n")
  case True
  have "find (\<lambda>i. i < n \<and> Q i) [p..<n] = find Q [p..<n]"
    by (rule find_cong) auto
  then show ?thesis using True by (simp add: find_append_single split: option.split)
qed simp

text \<open>Removing the characters of class \<open>P\<close> from \<open>drop p s\<close> around the first of them.\<close>

lemma filter_drop_find_Some:
  assumes "find (\<lambda>i. P (s ! i)) [p..<length s] = Some i"
  shows "p \<le> i \<and> i < length s \<and> P (s ! i) \<and>
         filter (\<lambda>c. \<not> P c) (drop p s) = take (i - p) (drop p s) @ filter (\<lambda>c. \<not> P c) (drop (Suc i) s)"
proof -
  from assms obtain j where j: "j < length s - p" "i = p + j" "P (s ! i)" and before: "\<forall>k<j. \<not> P (s ! (p + k))"
    by (auto simp: find_Some_iff)
  have i: "i < length s" using j by simp
  have "drop p s = take j (drop p s) @ drop i s"
    using j by (metis append_take_drop_id drop_drop add.commute)
  also have "drop i s = s ! i # drop (Suc i) s" using i by (rule Cons_nth_drop_Suc [symmetric])
  finally have "filter (\<lambda>c. \<not> P c) (drop p s) =
      filter (\<lambda>c. \<not> P c) (take j (drop p s) @ s ! i # drop (Suc i) s)"
    by (rule arg_cong)
  then have split: "filter (\<lambda>c. \<not> P c) (drop p s) =
      filter (\<lambda>c. \<not> P c) (take j (drop p s)) @ filter (\<lambda>c. \<not> P c) (drop (Suc i) s)"
    using j by (simp only: filter_append filter.simps if_False simp_thms)
  have "filter (\<lambda>c. \<not> P c) (take j (drop p s)) = take j (drop p s)"
    using before j by (auto simp: filter_id_conv in_set_conv_nth)
  then show ?thesis using j split by simp
qed

lemma take_drop_Suc_nth:
  assumes "pos < length xs" and "pos < q"
  shows "take (q - pos) (drop pos xs) = xs ! pos # take (q - Suc pos) (drop (Suc pos) xs)"
proof -
  have "q - pos = Suc (q - Suc pos)" using \<open>pos < q\<close> by simp
  then show ?thesis using \<open>pos < length xs\<close> by (simp add: Cons_nth_drop_Suc [symmetric])
qed

text \<open>An edit that does nothing when a test holds, and otherwise either does nothing
  or produces a text that passes the test, is idempotent.\<close>

lemma guarded_edit_idempotent:
  assumes f: "\<And>x. f x = (if G x then x else h x)" and h: "\<And>x. h x = x \<or> G (h x)"
  shows "f (f x) = f x"
proof (cases "G x")
  case True
  then show ?thesis using f by simp
next
  case False
  from h [of x] show ?thesis
  proof
    assume "h x = x"
    then show ?thesis using f False by simp
  next
    assume "G (h x)"
    then show ?thesis using f False by simp
  qed
qed

end
