(* ===== verification/PyValue.thy ===== *)
theory PyValue
  imports Prelude
begin

text \<open>
  The Python runtime the converters run on, as far as they use it: the JSON values that
  \<open>json.load\<close> produces, the exceptions the code raises or catches, Python floats
  (finite reals, the two infinities and NaN), the builtins \<open>float()\<close>, \<open>int()\<close>,
  \<open>round()\<close> and \<open>str()\<close> on JSON values, dictionary access, truthiness, and the
  string methods \<open>strip\<close>, \<open>lower\<close>, \<open>split\<close>, \<open>replace\<close> and the operator
  \<open>in\<close>. A Python string is modelled as its UTF-8 byte sequence (\<open>string\<close>, one
  \<open>char\<close> per byte), which is what \<open>.encode('utf-8')\<close> writes into the heaps;
  the case mapping and the whitespace set are those of ASCII.
\<close>

section \<open>Exceptions, floats and JSON values\<close>

datatype pyexc =
    ValueError | TypeError | OverflowError | KeyError | IndexError | AttributeError
  | StructError   \<comment> \<open>\<open>struct.error\<close>: a value outside the range of its format code\<close>
  | FileNotFoundError
  | Die string    \<comment> \<open>\<open>die(msg)\<close>: message on stderr and \<open>sys.exit(1)\<close>\<close>

type_synonym 'a pyres = "pyexc + 'a"

datatype pyfloat = Fin real | PInf | NInf | NaN

text \<open>
  A real number whose magnitude reaches \<open>float_limit\<close> rounds to an infinity in IEEE
  binary64; below it the value is finite. \<open>to_float\<close> is that overflow rule; the
  rounding of finite values to 53 bits is not modelled.
\<close>

definition float_limit :: real where
  "float_limit = 2 ^ 1024 - 2 ^ 970"

definition to_float :: "real \<Rightarrow> pyfloat" where
  "to_float r = (if float_limit \<le> r then PInf else if r \<le> - float_limit then NInf else Fin r)"

text \<open>
  \<open>json.load\<close> returns \<open>None\<close>, booleans, ints (a number without fraction or
  exponent), floats (\<open>JNum m e\<close> is the literal \<open>m\<close>\<open>e\<close>\<open>e\<close>, of value
  \<open>m * 10 ^ e\<close>, and the non-standard tokens \<open>Infinity\<close>, \<open>-Infinity\<close>,
  \<open>NaN\<close> that Python accepts), strings, lists and objects. An object keeps its
  key/value pairs in document order, duplicates included.
\<close>

datatype jval =
    JNull
  | JBool bool
  | JInt int
  | JNum int int
  | JInf bool    \<comment> \<open>\<open>JInf True\<close> is \<open>-Infinity\<close>\<close>
  | JNaN
  | JStr string
  | JList "jval list"
  | JObj "(string \<times> jval) list"

type_synonym jdict = "(string \<times> jval) list"

section \<open>Dictionaries and truthiness\<close>

text \<open>\<open>json.load\<close> keeps the last of duplicate keys.\<close>

definition dict_get :: "jdict \<Rightarrow> string \<Rightarrow> jval option" where
  "dict_get d k = map_of (rev d) k"

text \<open>\<open>d.get(k, dflt)\<close>; \<open>d.get(k)\<close> is \<open>py_get d k JNull\<close>.\<close>

definition py_get :: "jdict \<Rightarrow> string \<Rightarrow> jval \<Rightarrow> jval" where
  "py_get d k dflt = (case dict_get d k of None \<Rightarrow> dflt | Some v \<Rightarrow> v)"

text \<open>\<open>d[k]\<close>.\<close>

definition py_index :: "jdict \<Rightarrow> string \<Rightarrow> jval pyres" where
  "py_index d k = (case dict_get d k of None \<Rightarrow> Inl KeyError | Some v \<Rightarrow> Inr v)"

fun py_truthy :: "jval \<Rightarrow> bool" where
  "py_truthy JNull = False"
| "py_truthy (JBool b) = b"
| "py_truthy (JInt i) = (i \<noteq> 0)"
| "py_truthy (JNum m e) = (m \<noteq> 0)"
| "py_truthy (JInf _) = True"
| "py_truthy JNaN = True"
| "py_truthy (JStr s) = (s \<noteq> [])"
| "py_truthy (JList xs) = (xs \<noteq> [])"
| "py_truthy (JObj d) = (d \<noteq> [])"

text \<open>\<open>a or b\<close>.\<close>

definition py_or :: "jval \<Rightarrow> jval \<Rightarrow> jval" where
  "py_or a b = (if py_truthy a then a else b)"

section \<open>String methods\<close>

definition is_py_space :: "char \<Rightarrow> bool" where
  "is_py_space c = (let n = of_char c :: nat in (9 \<le> n \<and> n \<le> 13) \<or> (28 \<le> n \<and> n \<le> 32))"

definition py_strip :: "string \<Rightarrow> string" where
  "py_strip s = rev (dropWhile is_py_space (rev (dropWhile is_py_space s)))"

definition py_lower_char :: "char \<Rightarrow> char" where
  "py_lower_char c =
     (case map_of (zip ''ABCDEFGHIJKLMNOPQRSTUVWXYZ'' ''abcdefghijklmnopqrstuvwxyz'') c of
        Some l \<Rightarrow> l | None \<Rightarrow> c)"

definition py_lower :: "string \<Rightarrow> string" where
  "py_lower s = map py_lower_char s"

text \<open>\<open>s.upper()\<close> on ASCII letters.\<close>

definition py_upper_char :: "char \<Rightarrow> char" where
  "py_upper_char c =
     (case map_of (zip ''abcdefghijklmnopqrstuvwxyz'' ''ABCDEFGHIJKLMNOPQRSTUVWXYZ'') c of
        Some u \<Rightarrow> u | None \<Rightarrow> c)"

definition py_upper :: "string \<Rightarrow> string" where
  "py_upper s = map py_upper_char s"

text \<open>\<open>p in s\<close> for strings: \<open>p\<close> occurs in \<open>s\<close> at some position.\<close>

fun py_in :: "string \<Rightarrow> string \<Rightarrow> bool" where
  "py_in p [] = (p = [])"
| "py_in p (c # s) = (prefix p (c # s) \<or> py_in p s)"

text \<open>\<open>s.split()\<close>: maximal runs of non-whitespace, left to right.\<close>

fun py_split_aux :: "string \<Rightarrow> string \<Rightarrow> string list" where
  "py_split_aux cur [] = (if cur = [] then [] else [rev cur])"
| "py_split_aux cur (c # s) =
     (if is_py_space c then (if cur = [] then py_split_aux [] s else rev cur # py_split_aux [] s)
      else py_split_aux (c # cur) s)"

definition py_split :: "string \<Rightarrow> string list" where
  "py_split s = py_split_aux [] s"

text \<open>\<open>s.replace(old, new)\<close> for a non-empty \<open>old\<close>: non-overlapping occurrences,
  left to right.\<close>

function py_replace :: "string \<Rightarrow> string \<Rightarrow> string \<Rightarrow> string" where
  "py_replace old new [] = []"
| "py_replace old new (c # s) =
     (if old \<noteq> [] \<and> prefix old (c # s) then new @ py_replace old new (drop (length old - 1) s)
      else c # py_replace old new s)"
  by pat_completeness auto
termination
  by (relation "measure (\<lambda>(old, new, s). length s)") auto

section \<open>Numbers from strings\<close>

definition is_digit :: "char \<Rightarrow> bool" where
  "is_digit c = (let n = of_char c :: nat in 48 \<le> n \<and> n \<le> 57)"

definition digits_val :: "string \<Rightarrow> nat" where
  "digits_val ds = foldl (\<lambda>acc c. 10 * acc + (of_char c - 48)) 0 ds"

text \<open>An optional leading sign: \<open>(negative, rest)\<close>.\<close>

definition sign_split :: "string \<Rightarrow> bool \<times> string" where
  "sign_split t = (case t of
       c # r \<Rightarrow> if c = CHR ''-'' then (True, r) else if c = CHR ''+'' then (False, r) else (False, t)
     | [] \<Rightarrow> (False, []))"

text \<open>\<open>int(s)\<close> on a string: surrounding whitespace, an optional sign, at least one
  decimal digit (digit-group underscores are not modelled).\<close>

definition py_int_str :: "string \<Rightarrow> int option" where
  "py_int_str s =
     (let (neg, ds) = sign_split (py_strip s)
      in if ds \<noteq> [] \<and> list_all is_digit ds
         then Some (if neg then - int (digits_val ds) else int (digits_val ds)) else None)"

definition scale10 :: "int \<Rightarrow> real \<Rightarrow> real" where
  "scale10 e r = (if 0 \<le> e then r * 10 ^ nat e else r / 10 ^ nat (- e))"

text \<open>The unsigned decimal literal of \<open>float(s)\<close>: digits, an optional fraction, an
  optional exponent; at least one mantissa digit.\<close>

definition parse_decimal :: "string \<Rightarrow> real option" where
  "parse_decimal b =
     (let ip = takeWhile is_digit b; r1 = drop (length ip) b;
          (fp, r2) = (case r1 of
                        c # r \<Rightarrow> if c = CHR ''.'' then (takeWhile is_digit r, dropWhile is_digit r)
                                 else ([], r1)
                      | [] \<Rightarrow> ([], []));
          ex = (case r2 of
                  [] \<Rightarrow> Some 0
                | c # r \<Rightarrow>
                    if c = CHR ''e'' \<or> c = CHR ''E'' then
                      (let (eneg, eds) = sign_split r in
                       if eds \<noteq> [] \<and> list_all is_digit eds
                       then Some (if eneg then - int (digits_val eds) else int (digits_val eds))
                       else None)
                    else None)
      in if ip @ fp = [] then None
         else map_option (\<lambda>x. scale10 (x - int (length fp)) (of_nat (digits_val (ip @ fp)))) ex)"

text \<open>\<open>float(s)\<close> on a string.\<close>

definition py_float_str :: "string \<Rightarrow> pyfloat option" where
  "py_float_str s =
     (let (neg, b) = sign_split (py_strip s); lb = py_lower b
      in if lb = ''inf'' \<or> lb = ''infinity'' then Some (if neg then NInf else PInf)
         else if lb = ''nan'' then Some NaN
         else map_option (\<lambda>r. to_float (if neg then - r else r)) (parse_decimal b))"

section \<open>The builtins float(), int() and round()\<close>

fun py_float :: "jval \<Rightarrow> pyfloat pyres" where
  "py_float JNull = Inl TypeError"
| "py_float (JBool b) = Inr (Fin (if b then 1 else 0))"
| "py_float (JInt i) = (if float_limit \<le> \<bar>of_int i\<bar> then Inl OverflowError else Inr (Fin (of_int i)))"
| "py_float (JNum m e) = Inr (to_float (scale10 e (of_int m)))"
| "py_float (JInf neg) = Inr (if neg then NInf else PInf)"
| "py_float JNaN = Inr NaN"
| "py_float (JStr s) = (case py_float_str s of None \<Rightarrow> Inl ValueError | Some f \<Rightarrow> Inr f)"
| "py_float (JList xs) = Inl TypeError"
| "py_float (JObj d) = Inl TypeError"

text \<open>\<open>int(x)\<close> truncates a float towards zero.\<close>

definition py_trunc :: "real \<Rightarrow> int" where
  "py_trunc r = (if 0 \<le> r then \<lfloor>r\<rfloor> else \<lceil>r\<rceil>)"

fun py_int :: "jval \<Rightarrow> int pyres" where
  "py_int JNull = Inl TypeError"
| "py_int (JBool b) = Inr (if b then 1 else 0)"
| "py_int (JInt i) = Inr i"
| "py_int (JNum m e) =
     (case to_float (scale10 e (of_int m)) of Fin r \<Rightarrow> Inr (py_trunc r) | _ \<Rightarrow> Inl OverflowError)"
| "py_int (JInf _) = Inl OverflowError"
| "py_int JNaN = Inl ValueError"
| "py_int (JStr s) = (case py_int_str s of None \<Rightarrow> Inl ValueError | Some i \<Rightarrow> Inr i)"
| "py_int (JList xs) = Inl TypeError"
| "py_int (JObj d) = Inl TypeError"

text \<open>\<open>x * c\<close> and \<open>x / c\<close> for a float \<open>x\<close> and a positive constant \<open>c\<close>.\<close>

fun py_fmul :: "pyfloat \<Rightarrow> real \<Rightarrow> pyfloat" where
  "py_fmul (Fin r) c = to_float (r * c)"
| "py_fmul PInf c = (if 0 < c then PInf else if c < 0 then NInf else NaN)"
| "py_fmul NInf c = (if 0 < c then NInf else if c < 0 then PInf else NaN)"
| "py_fmul NaN c = NaN"

definition py_fdiv :: "pyfloat \<Rightarrow> real \<Rightarrow> pyfloat" where
  "py_fdiv x c = py_fmul x (inverse c)"

text \<open>\<open>round(x)\<close>: an infinity raises \<open>OverflowError\<close>, NaN raises
  \<open>ValueError\<close>.\<close>

fun py_round_float :: "pyfloat \<Rightarrow> int pyres" where
  "py_round_float (Fin r) = Inr (py_round r)"
| "py_round_float PInf = Inl OverflowError"
| "py_round_float NInf = Inl OverflowError"
| "py_round_float NaN = Inl ValueError"

section \<open>The builtin str()\<close>

text \<open>
  \<open>str(x)\<close> is \<open>x\<close> itself for a string and \<open>repr(x)\<close> otherwise. The
  \<open>repr\<close> of a float literal \<open>JNum m e\<close> is Python's shortest round-trip form:
  positional when the decimal exponent lies in \<open>(-4, 16]\<close>, scientific otherwise.
  It is exact for literals of at most 15 significant digits, which a binary64 double
  reproduces; the sign of a negative zero is not kept by \<open>JNum\<close>. A string inside a
  container is quoted as Python quotes it; a dictionary prints each key once, at its
  first position, with its last value.
\<close>

fun py_join :: "string \<Rightarrow> string list \<Rightarrow> string" where
  "py_join sep [] = []"
| "py_join sep [x] = x"
| "py_join sep (x # xs) = x @ sep @ py_join sep xs"

text \<open>A newline, and the lines of a triple-quoted literal, each ended by a newline.\<close>

definition nl :: string where "nl = [CHR ''\<newline>'']"

text \<open>Lines of a triple-quoted literal, each ended by a newline.\<close>

definition lines :: "string list \<Rightarrow> string" where
  "lines ls = concat (map (\<lambda>l. l @ nl) ls)"

text \<open>\<open>s.split(c)\<close> for one separator character.\<close>

fun split_on :: "char \<Rightarrow> string \<Rightarrow> string list" where
  "split_on c [] = [[]]"
| "split_on c (x # s) = (let r = split_on c s in if x = c then [] # r else (x # hd r) # tl r)"

definition digit_char :: "nat \<Rightarrow> char" where
  "digit_char d = ''0123456789abcdef'' ! d"

fun nat_digits :: "nat \<Rightarrow> string" where
  "nat_digits n = (if n < 10 then [digit_char n] else nat_digits (n div 10) @ [digit_char (n mod 10)])"

definition int_repr :: "int \<Rightarrow> string" where
  "int_repr i = (if i < 0 then CHR ''-'' # nat_digits (nat (- i)) else nat_digits (nat i))"

fun strip_tz :: "nat \<Rightarrow> int \<Rightarrow> nat \<times> int" where
  "strip_tz a e = (if a \<noteq> 0 \<and> a mod 10 = 0 then strip_tz (a div 10) (e + 1) else (a, e))"

definition zeros :: "nat \<Rightarrow> string" where
  "zeros n = replicate n (CHR ''0'')"

definition dec_repr :: "int \<Rightarrow> int \<Rightarrow> string" where
  "dec_repr m e =
     (if m = 0 then ''0.0'' else
      (let (a, e') = strip_tz (nat \<bar>m\<bar>) e; ds = nat_digits a; n = int (length ds); dp = n + e';
           body =
             (if - 4 < dp \<and> dp \<le> 16 then
                (if dp \<le> 0 then ''0.'' @ zeros (nat (- dp)) @ ds
                 else if n \<le> dp then ds @ zeros (nat (dp - n)) @ ''.0''
                 else take (nat dp) ds @ ''.'' @ drop (nat dp) ds)
              else
                (let x = dp - 1; xd = nat_digits (nat \<bar>x\<bar>) in
                 hd ds # (if tl ds = [] then [] else CHR ''.'' # tl ds) @ ''e'' @
                 (if x < 0 then ''-'' else ''+'') @ (if length xd < 2 then CHR ''0'' # xd else xd)))
       in if m < 0 then CHR ''-'' # body else body))"

definition char_repr :: "char \<Rightarrow> char \<Rightarrow> string" where
  "char_repr q c =
     (let n = of_char c :: nat in
      if c = CHR 0x5C \<or> c = q then [CHR 0x5C, c]
      else if n = 9 then [CHR 0x5C, CHR ''t'']
      else if n = 10 then [CHR 0x5C, CHR ''n'']
      else if n = 13 then [CHR 0x5C, CHR ''r'']
      else if n < 32 \<or> n = 127 then [CHR 0x5C, CHR ''x'', digit_char (n div 16), digit_char (n mod 16)]
      else [c])"

definition str_repr :: "string \<Rightarrow> string" where
  "str_repr s =
     (let q = (if CHR 0x27 \<in> set s \<and> CHR 0x22 \<notin> set s then CHR 0x22 else CHR 0x27)
      in q # concat (map (char_repr q) s) @ [q])"

definition dict_ins :: "string \<times> jval \<Rightarrow> jdict \<Rightarrow> jdict" where
  "dict_ins kv acc =
     (if fst kv \<in> fst ` set acc then map (\<lambda>(k', v'). if k' = fst kv then (k', snd kv) else (k', v')) acc
      else acc @ [kv])"

definition dict_items :: "jdict \<Rightarrow> jdict" where
  "dict_items d = foldl (\<lambda>acc kv. dict_ins kv acc) [] d"

function py_repr :: "jval \<Rightarrow> string" where
  "py_repr JNull = ''None''"
| "py_repr (JBool b) = (if b then ''True'' else ''False'')"
| "py_repr (JInt i) = int_repr i"
| "py_repr (JNum m e) =
     (case to_float (scale10 e (of_int m)) of PInf \<Rightarrow> ''inf'' | NInf \<Rightarrow> ''-inf'' | _ \<Rightarrow> dec_repr m e)"
| "py_repr (JInf neg) = (if neg then ''-inf'' else ''inf'')"
| "py_repr JNaN = ''nan''"
| "py_repr (JStr s) = str_repr s"
| "py_repr (JList xs) = ''['' @ py_join '', '' (map py_repr xs) @ '']''"
| "py_repr (JObj d) =
     ''{'' @ py_join '', '' (map (\<lambda>kv. str_repr (fst kv) @ '': '' @ py_repr (snd kv)) (dict_items d)) @ ''}''"
  by pat_completeness auto
termination
proof (relation "measure size")
  show "wf (measure size)" by simp
next
  fix xs :: "jval list" and x assume "x \<in> set xs"
  then show "(x, JList xs) \<in> measure size" by (induction xs) auto
next
  fix d :: jdict and kv assume kv: "kv \<in> set (dict_items d)"
  have ins: "set (dict_ins p acc) \<subseteq> insert p (set acc)" for p acc
    by (auto simp: dict_ins_def)
  have "set (foldl (\<lambda>acc kv. dict_ins kv acc) acc d) \<subseteq> set acc \<union> set d" for acc
  proof (induction d arbitrary: acc)
    case Nil
    then show ?case by simp
  next
    case (Cons a d)
    from Cons.IH [of "dict_ins a acc"] ins [of a acc] show ?case
      by auto
  qed
  from this [of "[]"] kv have "kv \<in> set d"
    by (auto simp: dict_items_def)
  then show "(snd kv, JObj d) \<in> measure size"
    by (induction d) auto
qed

definition py_str :: "jval \<Rightarrow> string" where
  "py_str v = (case v of JStr s \<Rightarrow> s | _ \<Rightarrow> py_repr v)"

section \<open>struct.pack and file writes\<close>

text \<open>
  \<open>struct.pack('<B')\<close>, \<open>('<H')\<close> and \<open>('<L')\<close> of an int: the little-endian
  bytes when the value fits the unsigned width, \<open>struct.error\<close> otherwise. A
  boolean packs as 0 or 1; any other non-int raises \<open>struct.error\<close> as well.
\<close>

definition struct_uint :: "nat \<Rightarrow> int \<Rightarrow> byte list pyres" where
  "struct_uint n v = (if 0 \<le> v \<and> v < 2 ^ (8 * n) then Inr (le_bytes n (nat v)) else Inl StructError)"

definition struct_jval :: "nat \<Rightarrow> jval \<Rightarrow> byte list pyres" where
  "struct_jval n v =
     (case v of JInt i \<Rightarrow> struct_uint n i | JBool b \<Rightarrow> struct_uint n (if b then 1 else 0)
      | _ \<Rightarrow> Inl StructError)"

text \<open>
  A file opened with \<open>open(path, 'wb')\<close> and written chunk by chunk: the chunks are
  computed in order, and the first one whose computation raises ends the script with the
  file holding the chunks before it. The result is the file's content and the error.
\<close>

fun write_chunks :: "byte list pyres list \<Rightarrow> byte list \<times> pyexc option" where
  "write_chunks [] = ([], None)"
| "write_chunks (Inl e # cs) = ([], Some e)"
| "write_chunks (Inr b # cs) = (case write_chunks cs of (w, err) \<Rightarrow> (b @ w, err))"

section \<open>Sequencing and iteration\<close>

text \<open>Statements run in order and the first exception ends the block: \<open>pybind\<close>.\<close>

definition pybind :: "'a pyres \<Rightarrow> ('a \<Rightarrow> 'b pyres) \<Rightarrow> 'b pyres" where
  "pybind m f = (case m of Inl e \<Rightarrow> Inl e | Inr a \<Rightarrow> f a)"

text \<open>The arguments of a call, evaluated left to right.\<close>

fun py_seq :: "'a pyres list \<Rightarrow> 'a list pyres" where
  "py_seq [] = Inr []"
| "py_seq (m # ms) = pybind m (\<lambda>a. pybind (py_seq ms) (\<lambda>as. Inr (a # as)))"

text \<open>\<open>for x in v\<close> over a JSON value: a list yields its items, a dict its keys (each key
  once), a string its characters; anything else is not iterable.\<close>

fun py_iter :: "jval \<Rightarrow> jval list pyres" where
  "py_iter (JList xs) = Inr xs"
| "py_iter (JObj d) = Inr (map (\<lambda>kv. JStr (fst kv)) (dict_items d))"
| "py_iter (JStr s) = Inr (map (\<lambda>c. JStr [c]) s)"
| "py_iter _ = Inl TypeError"

section \<open>Objects: attribute access, subscripts, len, min, hashing, formatting\<close>

text \<open>\<open>v.get(k, default)\<close>: only a dict has \<open>get\<close>.\<close>

definition jget :: "jval \<Rightarrow> string \<Rightarrow> jval \<Rightarrow> jval pyres" where
  "jget v k dflt = (case v of JObj d \<Rightarrow> Inr (py_get d k dflt) | _ \<Rightarrow> Inl AttributeError)"

text \<open>\<open>v[k]\<close> with a string key: a dict looks it up, a list or a string rejects a
  string index, the other values are not subscriptable; all of these are
  \<open>TypeError\<close> but the missing key.\<close>

definition jindex :: "jval \<Rightarrow> string \<Rightarrow> jval pyres" where
  "jindex v k = (case v of JObj d \<Rightarrow> py_index d k | _ \<Rightarrow> Inl TypeError)"

text \<open>The code points of a UTF-8 string: a lead byte with its continuation bytes
  (\<open>0x80\<close>--\<open>0xBF\<close>).\<close>

definition is_cont :: "char \<Rightarrow> bool" where
  "is_cont c = (let n = of_char c :: nat in 128 \<le> n \<and> n < 192)"

function py_chars :: "string \<Rightarrow> string list" where
  "py_chars [] = []"
| "py_chars (c # s) = (c # takeWhile is_cont s) # py_chars (dropWhile is_cont s)"
  by pat_completeness auto
termination
  by (relation "measure length") (auto simp: le_imp_less_Suc length_dropWhile_le)

text \<open>\<open>len(v)\<close>.\<close>

fun py_len :: "jval \<Rightarrow> nat pyres" where
  "py_len (JList xs) = Inr (length xs)"
| "py_len (JStr s) = Inr (length (py_chars s))"
| "py_len (JObj d) = Inr (length (dict_items d))"
| "py_len _ = Inl TypeError"

text \<open>\<open>v[i]\<close> with a non-negative int \<open>i\<close>: a list or a string past its end raises
  \<open>IndexError\<close>; a dict from JSON has string keys only, so an int key is missing.\<close>

fun py_item :: "jval \<Rightarrow> nat \<Rightarrow> jval pyres" where
  "py_item (JList xs) i = (if i < length xs then Inr (xs ! i) else Inl IndexError)"
| "py_item (JStr s) i = (if i < length (py_chars s) then Inr (JStr (py_chars s ! i)) else Inl IndexError)"
| "py_item (JObj d) i = Inl KeyError"
| "py_item _ i = Inl TypeError"

text \<open>\<open>min(c, v)\<close> for an int constant \<open>c\<close>: \<open>v\<close> when \<open>v < c\<close>, else
  \<open>c\<close> (so \<open>min(c, nan)\<close> is \<open>c\<close>); comparing an int with \<open>None\<close>, a string, a
  list or a dict raises \<open>TypeError\<close>.\<close>

fun py_min_const :: "int \<Rightarrow> jval \<Rightarrow> jval pyres" where
  "py_min_const c (JInt i) = Inr (if i < c then JInt i else JInt c)"
| "py_min_const c (JBool b) = Inr (if (if b then 1 else 0) < c then JBool b else JInt c)"
| "py_min_const c (JNum m e) =
     Inr (case to_float (scale10 e (of_int m)) of
            Fin r \<Rightarrow> if r < of_int c then JNum m e else JInt c
          | NInf \<Rightarrow> JNum m e
          | _ \<Rightarrow> JInt c)"
| "py_min_const c (JInf neg) = Inr (if neg then JInf True else JInt c)"
| "py_min_const c JNaN = Inr (JInt c)"
| "py_min_const c _ = Inl TypeError"

text \<open>Dict keys as Python compares them: \<open>True == 1\<close>, \<open>2.0 == 2\<close>; lists and
  dicts are unhashable. (NaN keys, which Python tells apart by identity, are one key
  here.)\<close>

datatype pykey = KInt int | KFloat real | KInf bool | KNaN | KStr string | KNone

fun py_key :: "jval \<Rightarrow> pykey pyres" where
  "py_key JNull = Inr KNone"
| "py_key (JBool b) = Inr (KInt (if b then 1 else 0))"
| "py_key (JInt i) = Inr (KInt i)"
| "py_key (JNum m e) =
     Inr (case to_float (scale10 e (of_int m)) of
            Fin r \<Rightarrow> if r = of_int \<lfloor>r\<rfloor> then KInt \<lfloor>r\<rfloor> else KFloat r
          | PInf \<Rightarrow> KInf False | NInf \<Rightarrow> KInf True | NaN \<Rightarrow> KNaN)"
| "py_key (JInf neg) = Inr (KInf neg)"
| "py_key JNaN = Inr KNaN"
| "py_key (JStr s) = Inr (KStr s)"
| "py_key (JList _) = Inl TypeError"
| "py_key (JObj _) = Inl TypeError"

text \<open>\<open>f"{v:03d}"\<close>: an int (or bool) zero-padded to width 3 after its sign; a float
  or a string has no format code \<open>d\<close> (\<open>ValueError\<close>), the other values reject
  the format spec (\<open>TypeError\<close>).\<close>

definition zero_pad :: "nat \<Rightarrow> string \<Rightarrow> string" where
  "zero_pad w s = replicate (w - length s) CHR ''0'' @ s"

fun fmt03d :: "jval \<Rightarrow> string pyres" where
  "fmt03d (JInt i) = Inr (if i < 0 then CHR ''-'' # zero_pad 2 (nat_digits (nat (- i))) else zero_pad 3 (nat_digits (nat i)))"
| "fmt03d (JBool b) = Inr (if b then ''001'' else ''000'')"
| "fmt03d (JNum _ _) = Inl ValueError"
| "fmt03d (JInf _) = Inl ValueError"
| "fmt03d JNaN = Inl ValueError"
| "fmt03d (JStr _) = Inl ValueError"
| "fmt03d _ = Inl TypeError"

section \<open>Lemmas\<close>

lemma set_dict_ins: "set (dict_ins kv acc) \<subseteq> insert kv (set acc)"
  by (auto simp: dict_ins_def)

lemma set_dict_items: "set (dict_items d) \<subseteq> set d"
proof -
  have "set (foldl (\<lambda>acc kv. dict_ins kv acc) acc d) \<subseteq> set acc \<union> set d" for acc
  proof (induction d arbitrary: acc)
    case Nil
    then show ?case by simp
  next
    case (Cons a d)
    from Cons.IH [of "dict_ins a acc"] set_dict_ins [of a acc] show ?case
      by auto
  qed
  from this [of "[]"] show ?thesis by (simp add: dict_items_def)
qed


lemma py_in_sublist: "py_in p s = sublist p s"
proof (induction s)
  case Nil
  then show ?case by simp
next
  case (Cons c s)
  then show ?case
    by (auto simp: sublist_Cons_right)
qed

lemma py_in_prefix [intro]: "prefix p s \<Longrightarrow> py_in p s"
  by (simp add: py_in_sublist prefix_imp_sublist)

lemma py_in_append_right [intro]: "py_in p s \<Longrightarrow> py_in p (t @ s)"
  by (auto simp: py_in_sublist sublist_append)

lemma to_float_finite [simp]:
  "\<bar>r\<bar> < float_limit \<Longrightarrow> to_float r = Fin r"
  by (auto simp: to_float_def)

lemma to_float_cases: "to_float r = Fin r \<or> to_float r = PInf \<or> to_float r = NInf"
  by (simp add: to_float_def)

lemma to_float_Fin_iff: "to_float r = Fin x \<longleftrightarrow> \<bar>r\<bar> < float_limit \<and> x = r"
  by (auto simp: to_float_def)

lemma float_limit_pos: "(0::real) < float_limit"
  by (simp add: float_limit_def)

lemma float_limit_big: "(10 :: real) ^ 300 < float_limit"
  by (simp add: float_limit_def)

lemma write_chunks_ok: "list_all (\<lambda>c. \<not> isl c) cs \<Longrightarrow> write_chunks cs = (concat (map projr cs), None)"
  by (induction cs rule: write_chunks.induct) auto

lemma length_struct_uint: "struct_uint n v = Inr bs \<Longrightarrow> length bs = n"
  by (auto simp: struct_uint_def split: if_splits)

lemma le_nat_struct_uint: "struct_uint n v = Inr bs \<Longrightarrow> int (le_nat bs) = v"
proof -
  assume a: "struct_uint n v = Inr bs"
  then have v: "0 \<le> v" "v < 2 ^ (8 * n)" and bs: "bs = le_bytes n (nat v)"
    by (auto simp: struct_uint_def split: if_splits)
  have "(2::int) ^ (8 * n) = 256 ^ n"
    by (simp only: power_mult) simp
  with v have "v < 256 ^ n" by simp
  with v have "nat v < 256 ^ n"
    by (metis nat_less_iff of_nat_numeral of_nat_power)
  with v bs show ?thesis by simp
qed

lemma pybind_Inl [simp]: "pybind (Inl e) f = Inl e"
  by (simp add: pybind_def)

lemma pybind_Inr [simp]: "pybind (Inr a) f = f a"
  by (simp add: pybind_def)

lemma pybind_eq_Inr: "pybind m f = Inr b \<longleftrightarrow> (\<exists>a. m = Inr a \<and> f a = Inr b)"
  by (cases m) auto

lemma pybind_eq_Inl: "pybind m f = Inl e \<longleftrightarrow> m = Inl e \<or> (\<exists>a. m = Inr a \<and> f a = Inl e)"
  by (cases m) auto

declare struct_uint_def [py_simps] struct_jval_def [py_simps]

declare dict_get_def [py_simps] py_get_def [py_simps] py_index_def [py_simps]
  py_or_def [py_simps] is_py_space_def [py_simps] py_strip_def [py_simps]
  py_lower_char_def [py_simps] py_lower_def [py_simps] py_split_def [py_simps]
  is_digit_def [py_simps] digits_val_def [py_simps] sign_split_def [py_simps]
  py_int_str_def [py_simps] scale10_def [py_simps] parse_decimal_def [py_simps]
  py_float_str_def [py_simps] py_trunc_def [py_simps] py_fdiv_def [py_simps]
  to_float_def [py_simps] float_limit_def [py_simps] py_round_def [py_simps]

lemma write_chunks_None:
  "write_chunks cs = (w, None) \<Longrightarrow> list_all (\<lambda>c. \<not> isl c) cs \<and> w = concat (map projr cs)"
proof (induction cs arbitrary: w rule: write_chunks.induct)
  case (3 b cs)
  then obtain w' where "write_chunks cs = (w', None)" "w = b @ w'" by (auto split: prod.splits)
  with "3.IH" show ?case by simp
qed simp_all

lemma write_chunks_Some:
  "write_chunks cs = (w, Some e) \<Longrightarrow>
   \<exists>k<length cs. cs ! k = Inl e \<and> list_all (\<lambda>c. \<not> isl c) (take k cs) \<and> w = concat (map projr (take k cs))"
proof (induction cs arbitrary: w rule: write_chunks.induct)
  case 1
  then show ?case by simp
next
  case (2 e' cs)
  then show ?case by (intro exI [of _ 0]) auto
next
  case (3 b cs)
  then obtain w' where w': "write_chunks cs = (w', Some e)" "w = b @ w'" by (auto split: prod.splits)
  from "3.IH" [OF w'(1)] obtain k where "k < length cs" "cs ! k = Inl e"
    "list_all (\<lambda>c. \<not> isl c) (take k cs)" "w' = concat (map projr (take k cs))" by blast
  with w'(2) show ?case by (intro exI [of _ "Suc k"]) auto
qed

lemma length_struct_jval: "struct_jval n v = Inr bs \<Longrightarrow> length bs = n"
  by (auto simp: struct_jval_def split: jval.splits dest: length_struct_uint)

lemma py_seq_Inr:
  "py_seq ms = Inr xs \<Longrightarrow> length xs = length ms \<and> (\<forall>i<length ms. ms ! i = Inr (xs ! i))"
proof (induction ms arbitrary: xs)
  case Nil
  then show ?case by simp
next
  case (Cons m ms)
  then obtain a as where "m = Inr a" "py_seq ms = Inr as" "xs = a # as" by (auto simp: pybind_eq_Inr)
  moreover have "(m # ms) ! i = Inr (xs ! i)" if "i < length (m # ms)" for i
    using Cons.IH [of as] calculation that by (cases i) auto
  ultimately show ?case using Cons.IH [of as] by simp
qed

lemma struct_u32_chunks:
  "list_all (\<lambda>c. \<not> isl c) (map (\<lambda>q. struct_uint 4 (int q)) offs) \<Longrightarrow>
   map projr (map (\<lambda>q. struct_uint 4 (int q)) offs) = map (le_bytes 4) offs \<and> (\<forall>q\<in>set offs. q < 2 ^ 32)"
  by (induction offs) (auto simp: struct_uint_def split: if_splits)

lemma py_in_middle: "py_in p (xs @ p @ ys)"
  unfolding py_in_sublist sublist_def by blast

lemma py_in_trans: "py_in p q \<Longrightarrow> py_in q s \<Longrightarrow> py_in p s"
  unfolding py_in_sublist by (rule sublist_order.order.trans)

lemma py_in_around: "py_in p t \<Longrightarrow> py_in p (xs @ t @ ys)"
  by (auto simp: py_in_sublist intro: sublist_appendI sublist_order.order.trans)


lemma digit_char_of: "d < 10 \<Longrightarrow> of_char (digit_char d) = 48 + d"
proof -
  assume "d < 10"
  then have "d \<in> set [0..<10]" by simp
  then show ?thesis by (auto simp: digit_char_def upt_rec)
qed

lemma digits_val_snoc: "digits_val (xs @ [c]) = 10 * digits_val xs + (of_char c - 48)"
  by (simp add: digits_val_def)

text \<open>\<open>int(str(n)) == n\<close> for the digits \<open>str\<close> prints.\<close>

lemma digits_val_nat_digits: "digits_val (nat_digits n) = n"
proof (induction n rule: nat_digits.induct)
  case (1 n)
  show ?case
  proof (cases "n < 10")
    case True
    then show ?thesis
      by (subst nat_digits.simps) (simp add: digits_val_def digit_char_of del: nat_digits.simps)
  next
    case False
    then have "digits_val (nat_digits n) = 10 * (n div 10) + n mod 10"
      using 1 by (subst nat_digits.simps) (simp add: digits_val_snoc digit_char_of del: nat_digits.simps)
    then show ?thesis by simp
  qed
qed

lemma digit_char_not_comma: "d < 10 \<Longrightarrow> digit_char d \<noteq> CHR '',''"
proof
  assume "d < 10" "digit_char d = CHR '',''"
  then have "48 + d = (44::nat)" using digit_char_of [of d] by simp
  then show False by simp
qed

lemma comma_notin_nat_digits: "CHR '','' \<notin> set (nat_digits n)"
proof (induction n rule: nat_digits.induct)
  case (1 n)
  have "nat_digits n = (if n < 10 then [digit_char n] else nat_digits (n div 10) @ [digit_char (n mod 10)])"
    by (rule nat_digits.simps)
  moreover have "digit_char (n mod 10) \<noteq> CHR '',''" by (rule digit_char_not_comma) simp
  ultimately show ?case using 1 digit_char_not_comma [of n] by (auto simp del: nat_digits.simps)
qed

lemma split_on_free: "c \<notin> set x \<Longrightarrow> split_on c x = [x]"
  by (induction x) auto

lemma split_on_append: "c \<notin> set x \<Longrightarrow> split_on c (x @ c # s) = x # split_on c s"
  by (induction x) (auto simp: Let_def)

text \<open>\<open>sep.join(xs).split(sep)\<close> gives \<open>xs\<close> back when no item contains the separator.\<close>

lemma split_on_py_join:
  "xs \<noteq> [] \<Longrightarrow> \<forall>x\<in>set xs. c \<notin> set x \<Longrightarrow> split_on c (py_join [c] xs) = xs"
proof (induction xs)
  case (Cons x xs)
  show ?case
  proof (cases xs)
    case Nil
    then show ?thesis using Cons.prems by (simp add: split_on_free)
  next
    case (Cons y ys)
    then have "py_join [c] (x # xs) = x @ c # py_join [c] xs" by simp
    moreover have "split_on c (py_join [c] xs) = xs" using Cons Cons.IH Cons.prems by simp
    ultimately show ?thesis using Cons.prems by (simp add: split_on_append)
  qed
qed simp

end
