(* ===== verification/NumericEncoder.thy ===== *)
theory NumericEncoder
  imports PyValue
begin

text \<open>
  The Numeric Encoder: a physical quantity read from the dataset is scaled to a
  fixed-point integer. Two implementations exist in the repository:
  \<^item> \<open>scale_or\<close> of \<open>pack_periodic.py\<close>: a missing value gives the sentinel
    \<open>none\<close>, a value \<open>float()\<close> rejects gives the sentinel too, otherwise
    \<open>round(x * scale)\<close> clamped into \<open>int16\<close> (\<open>is_signed\<close>) or \<open>uint16\<close>;
  \<^item> \<open>scale_value\<close> of \<open>gen_elements.py\<close>: the same without clamping, whose
    callers clamp with \<open>max(lo, min(hi, _))\<close> (\<open>clamp\<close>).
  The spec's contract (spec \<section>4.1) is \<open>encode\<close>: a sentinel for an absent value,
  otherwise the rounded, clamped product. \<open>scale_or\<close> refines it on finite
  values; on an infinite or NaN input it raises instead of returning.
\<close>

section \<open>Widths and the abstract encoder\<close>

datatype width = I16 | U16

fun wmin :: "width \<Rightarrow> int" where
  "wmin I16 = -32768"
| "wmin U16 = 0"

fun wmax :: "width \<Rightarrow> int" where
  "wmax I16 = 32767"
| "wmax U16 = 65535"

text \<open>\<open>max(lo, min(hi, v))\<close> as written inline in \<open>emit_tables\<close>.\<close>

definition clamp :: "int \<Rightarrow> int \<Rightarrow> int \<Rightarrow> int" where
  "clamp lo hi v = max lo (min hi v)"

text \<open>The spec's \<open>encode(value, scale, width, missingSentinel)\<close>.\<close>

definition encode :: "real option \<Rightarrow> real \<Rightarrow> width \<Rightarrow> int \<Rightarrow> int" where
  "encode val scale w sentinel =
     (case val of None \<Rightarrow> sentinel | Some r \<Rightarrow> clamp (wmin w) (wmax w) (py_round (r * scale)))"

section \<open>pack_periodic.scale_or\<close>

text \<open>Lines 94--102, after \<open>float(val)\<close> has produced \<open>x\<close>; \<open>round\<close> of an
  infinity or NaN raises, outside the \<open>try\<close>.\<close>

definition scale_or_float :: "pyfloat \<Rightarrow> real \<Rightarrow> bool \<Rightarrow> int pyres" where
  "scale_or_float x scale is_signed =
     (case py_round_float (py_fmul x scale) of
        Inl e \<Rightarrow> Inl e
      | Inr v \<Rightarrow>
          Inr (if is_signed then
                 (let v1 = (if v < -32768 then -32768 else v) in if 32767 < v1 then 32767 else v1)
               else
                 (let v1 = (if v < 0 then 0 else v) in if 65535 < v1 then 65535 else v1)))"

text \<open>\<open>scale_or(val, scale, none, is_signed)\<close> on a dataset value; the bare
  \<open>except\<close> around \<open>float(val)\<close> turns every conversion error into \<open>none\<close>.\<close>

definition scale_or :: "jval \<Rightarrow> real \<Rightarrow> int \<Rightarrow> bool \<Rightarrow> int pyres" where
  "scale_or val scale none is_signed =
     (if val = JNull then Inr none
      else case py_float val of
             Inl _ \<Rightarrow> Inr none
           | Inr x \<Rightarrow> scale_or_float x scale is_signed)"

text \<open>\<open>scale_or\<close> on the result of a helper that returns a float or \<open>None\<close>
  (\<open>first_ionization_eV\<close>, \<open>electron_affinity_eV\<close>): \<open>float(x)\<close> of a float is
  \<open>x\<close>.\<close>

definition scale_or_opt :: "pyfloat option \<Rightarrow> real \<Rightarrow> int \<Rightarrow> bool \<Rightarrow> int pyres" where
  "scale_or_opt val scale none is_signed =
     (case val of None \<Rightarrow> Inr none | Some x \<Rightarrow> scale_or_float x scale is_signed)"

section \<open>gen_elements.scale_value\<close>

text \<open>Only \<open>ValueError\<close> and \<open>TypeError\<close> are caught; an \<open>OverflowError\<close> (from
  \<open>round\<close> of an infinity, or \<open>float()\<close> of a huge int) propagates.\<close>

definition caught_value_type :: "int \<Rightarrow> pyexc \<Rightarrow> int pyres" where
  "caught_value_type missing e = (if e = ValueError \<or> e = TypeError then Inr missing else Inl e)"

definition scale_value :: "jval \<Rightarrow> real \<Rightarrow> int \<Rightarrow> int pyres" where
  "scale_value val scale missing =
     (if val = JNull \<or> val = JStr [] then Inr missing
      else case py_float val of
             Inl e \<Rightarrow> caught_value_type missing e
           | Inr x \<Rightarrow> (case py_round_float (py_fmul x scale) of
                        Inl e \<Rightarrow> caught_value_type missing e
                      | Inr v \<Rightarrow> Inr v))"

section \<open>Abstraction of a dataset value\<close>

definition width_of :: "bool \<Rightarrow> width" where
  "width_of is_signed = (if is_signed then I16 else U16)"

text \<open>The number a dataset value denotes, when \<open>scale_or\<close> treats it as present.\<close>

definition jnum :: "jval \<Rightarrow> real option" where
  "jnum v = (if v = JNull then None else case py_float v of Inr (Fin r) \<Rightarrow> Some r | _ \<Rightarrow> None)"

section \<open>Lemmas\<close>

lemma clamp_bounds: "lo \<le> hi \<Longrightarrow> lo \<le> clamp lo hi v \<and> clamp lo hi v \<le> hi"
  by (simp add: clamp_def)

lemma clamp_id: "lo \<le> v \<Longrightarrow> v \<le> hi \<Longrightarrow> clamp lo hi v = v"
  by (simp add: clamp_def)

lemma wmin_le_wmax [simp]: "wmin w \<le> wmax w"
  by (cases w) auto

lemma scale_or_float_Fin:
  "\<bar>r * scale\<bar> < float_limit \<Longrightarrow>
   scale_or_float (Fin r) scale is_signed =
     Inr (clamp (wmin (if is_signed then I16 else U16)) (wmax (if is_signed then I16 else U16))
                (py_round (r * scale)))"
  by (simp add: scale_or_float_def clamp_def Let_def)

lemma scale_or_float_range:
  "scale_or_float x scale is_signed = Inr k \<Longrightarrow>
   wmin (if is_signed then I16 else U16) \<le> k \<and> k \<le> wmax (if is_signed then I16 else U16)"
  by (auto simp: scale_or_float_def Let_def split: sum.splits if_splits)

lemma py_fmul_inf [simp]: "0 < c \<Longrightarrow> py_fmul PInf c = PInf" "0 < c \<Longrightarrow> py_fmul NInf c = NInf"
  by simp_all

lemma round_error_scaled:
  assumes "0 < s"
  shows "\<bar>of_int (py_round (r * s)) / s - r\<bar> \<le> 1 / (2 * s)"
proof -
  let ?a = "of_int (py_round (r * s)) :: real"
  from py_round_bounds [of "r * s"]
  have "\<bar>?a - r * s\<bar> \<le> 1/2" by linarith
  then have le: "\<bar>?a - r * s\<bar> / s \<le> (1/2) / s"
    using assms by (rule divide_right_mono [OF _ less_imp_le])
  have "(?a - r * s) / s = ?a / s - r"
    using assms by (simp add: field_simps)
  then have "\<bar>?a - r * s\<bar> / s = \<bar>?a / s - r\<bar>"
    using abs_div_pos [OF assms, of "?a - r * s"] by simp
  with le show ?thesis by simp
qed

lemma py_round_in_range:
  "of_int lo \<le> x \<Longrightarrow> x \<le> of_int hi \<Longrightarrow> lo \<le> py_round x \<and> py_round x \<le> hi"
  using py_round_mono [of "of_int lo" x] py_round_mono [of x "of_int hi"] by simp

lemma scale_or_Fin:
  "v \<noteq> JNull \<Longrightarrow> py_float v = Inr (Fin r) \<Longrightarrow> \<bar>r * s\<bar> < float_limit \<Longrightarrow>
   scale_or v s none is_signed =
     Inr (clamp (wmin (width_of is_signed)) (wmax (width_of is_signed)) (py_round (r * s)))"
  by (simp add: scale_or_def scale_or_float_Fin width_of_def)

lemmas numeric_simps = scale_or_def scale_or_float_def scale_or_opt_def scale_value_def
  caught_value_type_def clamp_def encode_def width_of_def Let_def

section \<open>Properties\<close>

text \<open>
  C1. Refinement: on every value that \<open>float()\<close> turns into a finite float whose
  scaled magnitude stays below the overflow limit, and on every missing or
  unconvertible value, \<open>scale_or\<close> returns exactly the spec's \<open>encode\<close> of the
  value the dataset denotes: the sentinel when absent, else the rounded product
  clamped into the width.
\<close>

theorem scale_or_refines_encode:
  assumes fin: "\<forall>x. py_float v = Inr x \<longrightarrow> (\<exists>r. x = Fin r \<and> \<bar>r * s\<bar> < float_limit)"
  shows "scale_or v s none is_signed = Inr (encode (jnum v) s (width_of is_signed) none)"
proof (cases "v = JNull")
  case True
  then show ?thesis by (simp add: scale_or_def jnum_def encode_def)
next
  case False
  show ?thesis
  proof (cases "py_float v")
    case (Inl e)
    with False show ?thesis by (simp add: scale_or_def jnum_def encode_def)
  next
    case (Inr x)
    with fin obtain r where x: "x = Fin r" and lim: "\<bar>r * s\<bar> < float_limit" by blast
    from False Inr x lim show ?thesis
      by (simp add: jnum_def encode_def scale_or_Fin)
  qed
qed

theorem scale_or_refines_encode_witness:
  "scale_or (JNum 1401 (-2)) 100 (-1) True = Inr (encode (jnum (JNum 1401 (-2))) 100 I16 (-1))"
proof -
  have pf: "py_float (JNum 1401 (-2)) = Inr (Fin (1401 / 100))"
    by (simp add: py_simps)
  have lim: "\<bar>1401 / 100 * 100\<bar> < (float_limit :: real)"
    by (simp add: float_limit_def)
  have h: "\<forall>x. py_float (JNum 1401 (-2)) = Inr x \<longrightarrow> (\<exists>r. x = Fin r \<and> \<bar>r * 100\<bar> < float_limit)"
  proof (intro allI impI)
    fix x assume "py_float (JNum 1401 (-2)) = Inr x"
    with pf have "x = Fin (1401 / 100)" by simp
    with lim show "\<exists>r. x = Fin r \<and> \<bar>r * 100\<bar> < float_limit" by blast
  qed
  show ?thesis
    using h scale_or_refines_encode [OF h, of "-1" True] by (simp add: width_of_def)
qed

text \<open>
  C2. Error path: an infinite or NaN dataset value (\<open>Infinity\<close>, \<open>NaN\<close>, which
  \<open>json.load\<close> accepts) makes \<open>scale_or\<close> raise \<open>OverflowError\<close> or
  \<open>ValueError\<close> from \<open>round()\<close>, outside its \<open>try\<close>: the build aborts,
  where the spec asks for the sentinel without raising.
\<close>

theorem scale_or_nonfinite_raises:
  "0 < s \<Longrightarrow>
   scale_or (JInf neg) s none is_signed = Inl OverflowError \<and> scale_or JNaN s none is_signed = Inl ValueError"
  by (simp add: scale_or_def scale_or_float_def)

theorem scale_or_nonfinite_raises_witness:
  "(0::real) < 100 \<and> scale_or (JInf False) 100 (-1) True = Inl OverflowError
   \<and> scale_or JNaN 100 (-1) True = Inl ValueError"
  using scale_or_nonfinite_raises [of 100 False "-1" True] by simp

text \<open>
  C3. Bounds: whatever \<open>scale_or\<close> returns is the sentinel or lies in the range
  of the declared width: it never wraps.
\<close>

theorem scale_or_range:
  "scale_or v s none is_signed = Inr k \<Longrightarrow>
   k = none \<or> (wmin (width_of is_signed) \<le> k \<and> k \<le> wmax (width_of is_signed))"
  by (auto simp: scale_or_def width_of_def dest: scale_or_float_range split: if_splits sum.splits)

theorem scale_or_range_witness:
  "scale_or (JNum 1 9) 100 (-1) True = Inr 32767 \<and>
   (32767 = (-1::int) \<or> (wmin (width_of True) \<le> 32767 \<and> (32767::int) \<le> wmax (width_of True)))"
proof -
  have h: "scale_or (JNum 1 9) 100 (-1) True = Inr 32767"
    by (simp add: numeric_simps py_simps)
  show ?thesis using h scale_or_range [OF h] by simp
qed

text \<open>
  C4. Precision (decode after encode): for a finite value whose scaled magnitude lies
  inside the width, \<open>scale_or\<close> returns a \<open>k\<close> with
  \<open>|k / scale - v| \<le> 1 / (2 * scale)\<close>.
\<close>

theorem scale_or_precision:
  assumes "0 < s" "v \<noteq> JNull" "py_float v = Inr (Fin r)" "\<bar>r * s\<bar> < float_limit"
    and "of_int (wmin (width_of is_signed)) \<le> r * s" "r * s \<le> of_int (wmax (width_of is_signed))"
  shows "\<exists>k. scale_or v s none is_signed = Inr k \<and> \<bar>of_int k / s - r\<bar> \<le> 1 / (2 * s)"
proof -
  let ?w = "width_of is_signed"
  have k: "scale_or v s none is_signed = Inr (clamp (wmin ?w) (wmax ?w) (py_round (r * s)))"
    using assms(2-4) by (rule scale_or_Fin)
  have "clamp (wmin ?w) (wmax ?w) (py_round (r * s)) = py_round (r * s)"
    using py_round_in_range [OF assms(5,6)] by (simp add: clamp_id)
  with k round_error_scaled [OF assms(1), of r] show ?thesis by auto
qed

theorem scale_or_precision_witness:
  "\<exists>k. scale_or (JNum 1401 (-2)) 100 (-1) True = Inr k \<and> \<bar>of_int k / 100 - 1401 / 100\<bar> \<le> 1 / (2 * (100::real))"
proof -
  have h: "(0::real) < 100" "JNum 1401 (-2) \<noteq> JNull" "py_float (JNum 1401 (-2)) = Inr (Fin (1401 / 100))"
    "\<bar>1401 / 100 * 100\<bar> < (float_limit :: real)"
    "of_int (wmin (width_of True)) \<le> (1401 / 100) * (100::real)"
    "(1401 / 100) * (100::real) \<le> of_int (wmax (width_of True))"
    by (simp_all add: py_simps width_of_def)
  show ?thesis using scale_or_precision [OF h, of "-1"] .
qed

text \<open>
  C5. Saturation: every finite value whose scaled magnitude reaches the width's
  maximum encodes as that maximum. With \<open>scale = 1000\<close> and the \<open>uint16\<close> clamp
  that \<open>main\<close> applies to \<open>atomic_mass\<close>, every element heavier than 65.535 u
  gets \<open>mass_milli = 65535\<close>; with \<open>scale = 100\<close> and \<open>int16\<close>, every melting
  or boiling point from 327.67 K up gets 32767.
\<close>

theorem scale_or_saturates:
  assumes "v \<noteq> JNull" "py_float v = Inr (Fin r)" "of_int (wmax (width_of is_signed)) \<le> r * s"
    and "\<bar>r * s\<bar> < float_limit"
  shows "scale_or v s none is_signed = Inr (wmax (width_of is_signed))"
proof -
  have "wmax (width_of is_signed) \<le> py_round (r * s)"
    using py_round_mono [OF assms(3)] by simp
  with scale_or_Fin [OF assms(1,2,4)] show ?thesis
    by (simp add: clamp_def)
qed

theorem scale_or_saturates_witness:
  "scale_or (JNum 196967 (-3)) 1000 0 False = Inr 65535"
proof -
  have h: "JNum 196967 (-3) \<noteq> JNull" "py_float (JNum 196967 (-3)) = Inr (Fin (196967 / 1000))"
    "of_int (wmax (width_of False)) \<le> (196967 / 1000) * (1000::real)"
    "\<bar>196967 / 1000 * 1000\<bar> < (float_limit :: real)"
    by (simp_all add: py_simps width_of_def)
  show ?thesis using scale_or_saturates [OF h, of 0] by (simp add: width_of_def)
qed

end
