(* ===== verification/EnumMapper.thy ===== *)
theory EnumMapper
  imports PyValue
begin

text \<open>
  The Enum Mapper: free-text categorical fields become small enumeration codes.
  \<^item> \<open>pack_periodic.py\<close>: \<open>map_category\<close> is an ordered chain of substring tests
    on the stripped, lower-cased text, \<open>map_block\<close> and \<open>map_phase\<close> exact tests;
    a falsy field gives \<open>Unknown\<close>, a truthy non-string raises
    \<open>AttributeError\<close> at \<open>.strip()\<close>.
  \<^item> \<open>gen_elements.py\<close>: dictionary lookups of the lower-cased text (no strip),
    default 9 for a category and 0 (the code of block \<open>s\<close>) for a block.
  \<^item> \<open>pokemon_data_converter.py\<close>: the dictionary \<open>type_map\<close> from type names to
    codes 1..18.
  The spec's design (spec \<section>4.2, \<section>9) is \<open>map_enum\<close>: an ordered list of
  (predicate, code) pairs, first match wins, a reserved code otherwise.
\<close>

section \<open>Enumerations\<close>

datatype elem_category =
    AlkaliMetal | AlkalineEarth | Transition | PostTransition | Metalloid | NobleGas
  | Lanthanoid | Actinoid | ReactiveNonmetal | CatUnknown

datatype elem_block = BlockS | BlockP | BlockD | BlockF | BlockUnknown

datatype elem_phase = Solid | Liquid | Gas | PhaseUnknown

section \<open>The abstract mapper\<close>

definition map_enum :: "(('a \<Rightarrow> bool) \<times> 'c) list \<Rightarrow> 'c \<Rightarrow> 'a \<Rightarrow> 'c" where
  "map_enum table unknown x = (case find (\<lambda>pc. fst pc x) table of Some pc \<Rightarrow> snd pc | None \<Rightarrow> unknown)"

section \<open>pack_periodic.py\<close>

text \<open>Lines 34--45, on the normalised text \<open>c\<close>.\<close>

definition category_chain :: "string \<Rightarrow> elem_category" where
  "category_chain c =
     (if py_in ''alkali metal'' c then AlkaliMetal
      else if py_in ''alkaline earth metal'' c then AlkalineEarth
      else if py_in ''transition metal'' c then Transition
      else if py_in ''post-transition metal'' c then PostTransition
      else if py_in ''metalloid'' c then Metalloid
      else if py_in ''noble gas'' c then NobleGas
      else if py_in ''lanthan'' c then Lanthanoid
      else if py_in ''actin'' c then Actinoid
      else if py_in ''nonmetal'' c then ReactiveNonmetal
      else CatUnknown)"

definition map_category :: "jval \<Rightarrow> elem_category pyres" where
  "map_category cat =
     (if \<not> py_truthy cat then Inr CatUnknown
      else case cat of JStr s \<Rightarrow> Inr (category_chain (py_lower (py_strip s))) | _ \<Rightarrow> Inl AttributeError)"

definition map_block :: "jval \<Rightarrow> elem_block pyres" where
  "map_block b =
     (if \<not> py_truthy b then Inr BlockUnknown
      else case b of
        JStr s \<Rightarrow>
          (let t = py_lower (py_strip s) in
           Inr (if t = ''s'' then BlockS else if t = ''p'' then BlockP
                else if t = ''d'' then BlockD else if t = ''f'' then BlockF else BlockUnknown))
      | _ \<Rightarrow> Inl AttributeError)"

definition map_phase :: "jval \<Rightarrow> elem_phase pyres" where
  "map_phase p =
     (if \<not> py_truthy p then Inr PhaseUnknown
      else case p of
        JStr s \<Rightarrow>
          (let t = py_lower (py_strip s) in
           Inr (if t = ''solid'' then Solid else if t = ''liquid'' then Liquid
                else if t = ''gas'' then Gas else PhaseUnknown))
      | _ \<Rightarrow> Inl AttributeError)"

text \<open>The chain as the spec's ordered table.\<close>

definition category_table :: "((string \<Rightarrow> bool) \<times> elem_category) list" where
  "category_table =
     [(py_in ''alkali metal'', AlkaliMetal), (py_in ''alkaline earth metal'', AlkalineEarth),
      (py_in ''transition metal'', Transition), (py_in ''post-transition metal'', PostTransition),
      (py_in ''metalloid'', Metalloid), (py_in ''noble gas'', NobleGas),
      (py_in ''lanthan'', Lanthanoid), (py_in ''actin'', Actinoid),
      (py_in ''nonmetal'', ReactiveNonmetal)]"

section \<open>gen_elements.py\<close>

definition gen_category_table :: "(string \<times> nat) list" where
  "gen_category_table =
     [(''alkali metal'', 0), (''alkaline earth metal'', 1), (''transition metal'', 2),
      (''post-transition metal'', 3), (''metalloid'', 4), (''reactive nonmetal'', 5),
      (''noble gas'', 6), (''lanthanoid'', 7), (''actinoid'', 8)]"

definition gen_map_category :: "jval \<Rightarrow> nat pyres" where
  "gen_map_category v =
     (case v of
        JStr s \<Rightarrow> Inr (case map_of gen_category_table (py_lower s) of Some k \<Rightarrow> k | None \<Rightarrow> 9)
      | _ \<Rightarrow> Inl AttributeError)"

definition gen_map_block :: "jval \<Rightarrow> nat pyres" where
  "gen_map_block v =
     (case v of
        JStr s \<Rightarrow>
          Inr (case map_of [(''s'', 0), (''p'', 1), (''d'', 2), (''f'', 3)] (py_lower s) of
                 Some k \<Rightarrow> k | None \<Rightarrow> 0)
      | _ \<Rightarrow> Inl AttributeError)"

text \<open>
  The category a code of \<open>gen_elements.py\<close> denotes, read from the names of its
  dictionary (code 9 is its \<open>Unknown\<close>); that \<open>static_cast<ElemCategory>(k)\<close>
  gives the enumerator of that name is the contract with \<open>periodic_data.h\<close>.
\<close>

definition category_of_gen_code :: "nat \<Rightarrow> elem_category" where
  "category_of_gen_code k =
     (if k < 9 then [AlkaliMetal, AlkalineEarth, Transition, PostTransition, Metalloid,
                     ReactiveNonmetal, NobleGas, Lanthanoid, Actinoid] ! k
      else CatUnknown)"

section \<open>pokemon_data_converter.py\<close>

definition type_map :: "(string \<times> nat) list" where
  "type_map =
     [(''normal'', 1), (''fire'', 2), (''water'', 3), (''electric'', 4), (''grass'', 5),
      (''ice'', 6), (''fighting'', 7), (''poison'', 8), (''ground'', 9), (''flying'', 10),
      (''psychic'', 11), (''bug'', 12), (''rock'', 13), (''ghost'', 14), (''dragon'', 15),
      (''dark'', 16), (''steel'', 17), (''fairy'', 18)]"

section \<open>Lemmas\<close>

lemma category_chain_table: "category_chain c = map_enum category_table CatUnknown c"
  by (simp add: category_chain_def map_enum_def category_table_def)

lemma post_transition_in_transition:
  "py_in ''post-transition metal'' c \<Longrightarrow> py_in ''transition metal'' c"
proof -
  assume "py_in ''post-transition metal'' c"
  moreover have "sublist ''transition metal'' ''post-transition metal''"
    by (simp add: sublist_def) (rule exI [of _ "''post-''"], rule exI [of _ "[]"], simp)
  ultimately show ?thesis
    by (auto simp: py_in_sublist intro: sublist_order.order.trans)
qed

lemma category_chain_not_post: "category_chain c \<noteq> PostTransition"
  using post_transition_in_transition [of c] by (simp add: category_chain_def)

lemma map_category_JStr:
  "s \<noteq> [] \<Longrightarrow> map_category (JStr s) = Inr (category_chain (py_lower (py_strip s)))"
  by (simp add: map_category_def)

lemma gen_category_agree_all:
  "list_all (\<lambda>(n, k). n \<noteq> ''post-transition metal'' \<longrightarrow>
     map_category (JStr n) = Inr (category_of_gen_code k) \<and> gen_map_category (JStr n) = Inr k)
   gen_category_table"
  by code_simp

lemmas enum_simps = map_category_def category_chain_def map_block_def map_phase_def
  gen_map_category_def gen_map_block_def gen_category_table_def category_of_gen_code_def
  type_map_def Let_def

section \<open>Properties\<close>

text \<open>
  C6. The category \<open>PostTransition\<close> is unreachable in \<open>pack_periodic.py\<close>: every
  text containing \<open>"post-transition metal"\<close> also contains \<open>"transition metal"\<close>,
  which the chain tests first, so post-transition metals (Al, Ga, In, Sn, ...) are
  packed as transition metals.
\<close>

theorem map_category_never_post_transition: "map_category v \<noteq> Inr PostTransition"
  by (cases v) (simp_all add: map_category_def category_chain_not_post)

text \<open>
  C7. Failure of the category mapper: \<open>map_category\<close> raises exactly on a truthy
  value that is not a string (\<open>.strip()\<close> of a number or a list), where the spec
  requires the mapper never to fail the build; on every string, empty or not, it
  returns a category, \<open>Unknown\<close> when no test matches.
\<close>

theorem map_category_fails_iff:
  "isl (map_category v) \<longleftrightarrow> py_truthy v \<and> (\<forall>s. v \<noteq> JStr s)"
  by (cases v) (auto simp: map_category_def)

text \<open>
  \<open>map_block\<close> of \<open>pack_periodic.py\<close> reports \<open>Unknown\<close> for a string
  exactly when its stripped, lower-cased form is none of \<open>s\<close>, \<open>p\<close>, \<open>d\<close>,
  \<open>f\<close>.
\<close>

theorem map_block_unknown_iff:
  "map_block (JStr s) = Inr BlockUnknown \<longleftrightarrow> py_lower (py_strip s) \<notin> {''s'', ''p'', ''d'', ''f''}"
  by (auto simp: map_block_def Let_def py_strip_def py_lower_def)

text \<open>
  \<open>map_block\<close> of \<open>gen_elements.py\<close> has no unknown code: every block text other
  than \<open>p\<close>, \<open>d\<close>, \<open>f\<close> (in any case) maps to 0, the code of block \<open>s\<close>, so
  a missing or misspelt block is indistinguishable from an s-block.
\<close>

theorem gen_map_block_zero_iff:
  "gen_map_block (JStr s) = Inr 0 \<longleftrightarrow> py_lower s \<notin> {''p'', ''d'', ''f''}"
  by (auto simp: gen_map_block_def)

end
