(* ===== verification/StringHeap.thy ===== *)
theory StringHeap
  imports PyValue
begin

text \<open>
  The String/Blob Heap Builder: an append-only byte arena. Interning a string appends
  its UTF-8 bytes and a NUL terminator and returns the arena's length before the append
  (its offset). The repository builds heaps in three ways:
  \<^item> \<open>add_str\<close> of \<open>pack_periodic.py\<close> and \<open>add_string_to_table\<close> of
    \<open>gen_elements.py\<close>, one string at a time into a \<open>bytearray\<close>;
  \<^item> the loop of \<open>create_string_table\<close> in \<open>pokemon_data_converter.py\<close>, which
    records \<open>len(string_data)\<close> before each append (\<open>append_strs\<close>);
  \<^item> the genus and flavour tables of \<open>create_pokemon_records\<close>, which compute the
    same offsets with a running counter (\<open>running_offsets\<close>).
  A string table file is \<open>[count: u16][offset: u16]* [payload]\<close> (spec \<section>6);
  \<open>decode_table\<close> is the consumer's reading of it, the inverse the layout promises.
\<close>

section \<open>Bytes of a string, reading a terminated string\<close>

definition utf8 :: "string \<Rightarrow> byte list" where
  "utf8 s = map (\<lambda>c. word_of_nat (of_char c)) s"

definition read_cstr :: "byte list \<Rightarrow> nat \<Rightarrow> byte list" where
  "read_cstr h off = takeWhile (\<lambda>b. b \<noteq> 0) (drop off h)"

text \<open>A heap built only by interning is empty or ends with a terminator.\<close>

definition heap_wf :: "byte list \<Rightarrow> bool" where
  "heap_wf h \<longleftrightarrow> h = [] \<or> last h = 0"

section \<open>Interning one string\<close>

text \<open>\<open>pack_periodic.add_str(blob, s)\<close> (lines 148--149): \<open>s.encode\<close> of a
  non-string raises \<open>AttributeError\<close>.\<close>

definition add_str :: "byte list \<Rightarrow> jval \<Rightarrow> (byte list \<times> nat) pyres" where
  "add_str blob s =
     (case s of JStr t \<Rightarrow> Inr (blob @ utf8 t @ [0], length blob) | _ \<Rightarrow> Inl AttributeError)"

text \<open>\<open>gen_elements.add_string_to_table(blob, string)\<close> (lines 12--19): a falsy
  value is replaced by the empty string first.\<close>

definition add_string_to_table :: "byte list \<Rightarrow> jval \<Rightarrow> (byte list \<times> nat) pyres" where
  "add_string_to_table blob string =
     (let s = (if py_truthy string then string else JStr []) in
      case s of JStr t \<Rightarrow> Inr (blob @ utf8 t @ [0], length blob) | _ \<Rightarrow> Inl AttributeError)"

section \<open>Interning a sequence\<close>

text \<open>The loop body of \<open>create_string_table\<close> (lines 38--41): record the current
  length, append the bytes and the terminator.\<close>

fun append_strs :: "byte list \<Rightarrow> string list \<Rightarrow> byte list \<times> nat list" where
  "append_strs data [] = (data, [])"
| "append_strs data (s # ss) =
     (case append_strs (data @ utf8 s @ [0]) ss of (d, offs) \<Rightarrow> (d, length data # offs))"

text \<open>The offset loop of the genus and flavour files (lines 130--133 and 142--144):
  \<open>offset += len(s.encode('utf-8')) + 1\<close>.\<close>

fun running_offsets :: "nat \<Rightarrow> string list \<Rightarrow> nat list" where
  "running_offsets off [] = []"
| "running_offsets off (s # ss) = off # running_offsets (off + length (utf8 s) + 1) ss"

section \<open>The table file\<close>

text \<open>The writes of a table file: the count, each offset as \<open>'<H'\<close>, the payload.\<close>

definition table_chunks :: "nat \<Rightarrow> nat list \<Rightarrow> byte list \<Rightarrow> byte list pyres list" where
  "table_chunks count offs payload =
     struct_uint 2 (int count) # map (\<lambda>q. struct_uint 2 (int q)) offs @ [Inr payload]"

text \<open>The consumer's reading of a table file: the count, the offset table, and the
  terminated string at each offset of the payload.\<close>

definition decode_table :: "byte list \<Rightarrow> byte list list option" where
  "decode_table f =
     (let n = le_nat (take 2 f); hdr = 2 + 2 * n in
      if length f < hdr then None
      else
        (let offs = map (\<lambda>i. le_nat (take 2 (drop (2 + 2 * i) f))) [0..<n]; data = drop hdr f in
         if list_all (\<lambda>q. q < length data) offs then Some (map (read_cstr data) offs) else None))"

section \<open>Lemmas\<close>

lemma length_utf8 [simp]: "length (utf8 s) = length s"
  by (simp add: utf8_def)

lemma read_cstr_append:
  assumes "0 \<notin> set s"
  shows "read_cstr (h @ s @ 0 # t) (length h) = s"
proof -
  from assms have "takeWhile (\<lambda>b. b \<noteq> 0) (s @ 0 # t) = s @ takeWhile (\<lambda>b. b \<noteq> 0) (0 # t)"
    by (intro takeWhile_append2) auto
  then show ?thesis by (simp add: read_cstr_def)
qed

lemma read_cstr_stable:
  assumes "off < length h" "0 \<in> set (drop off h)"
  shows "read_cstr (h @ t) off = read_cstr h off"
proof -
  from assms(2) obtain b where b: "b \<in> set (drop off h)" "\<not> b \<noteq> 0" by auto
  then show ?thesis
    using assms(1) by (simp add: read_cstr_def takeWhile_append1)
qed

lemma heap_wf_zero: "heap_wf h \<Longrightarrow> off < length h \<Longrightarrow> 0 \<in> set (drop off h)"
proof -
  assume "heap_wf h" "off < length h"
  then have "h \<noteq> []" "last h = 0" by (auto simp: heap_wf_def)
  with \<open>off < length h\<close> have "last (drop off h) = 0" "drop off h \<noteq> []"
    by simp_all
  then show ?thesis using last_in_set by metis
qed

lemma read_cstr_append_any: "read_cstr (h @ s @ 0 # t) (length h) = takeWhile (\<lambda>b. b \<noteq> 0) s"
  by (induction s) (simp_all add: read_cstr_def)

lemma read_cstr_extend: "heap_wf h \<Longrightarrow> off < length h \<Longrightarrow> read_cstr (h @ t) off = read_cstr h off"
  by (rule read_cstr_stable) (auto dest: heap_wf_zero)

lemma heap_wf_append [intro]: "heap_wf (h @ s @ [0])"
  by (simp add: heap_wf_def)

lemma append_strs_eq:
  "append_strs d ss = (d @ concat (map (\<lambda>s. utf8 s @ [0]) ss), running_offsets (length d) ss)"
  by (induction ss arbitrary: d) simp_all

lemma length_running_offsets [simp]: "length (running_offsets off ss) = length ss"
  by (induction ss arbitrary: off) auto

lemma running_offsets_ge: "q \<in> set (running_offsets off ss) \<Longrightarrow> off \<le> q"
proof (induction ss arbitrary: off)
  case Nil
  then show ?case by simp
next
  case (Cons s ss)
  then show ?case by (auto dest: Cons.IH)
qed

lemma running_offsets_sorted: "sorted_wrt (<) (running_offsets off ss)"
proof (induction ss arbitrary: off)
  case Nil
  then show ?case by simp
next
  case (Cons s ss)
  have "\<forall>q \<in> set (running_offsets (off + length (utf8 s) + 1) ss). off < q"
    using running_offsets_ge by fastforce
  with Cons.IH show ?case by simp
qed

lemma running_offsets_bound:
  "q \<in> set (running_offsets (length d) ss) \<Longrightarrow> q < length (d @ concat (map (\<lambda>s. utf8 s @ [0]) ss))"
proof (induction ss arbitrary: d)
  case Nil
  then show ?case by simp
next
  case (Cons s ss)
  show ?case
  proof (cases "q = length d")
    case True
    then show ?thesis by simp
  next
    case False
    with Cons.prems have "q \<in> set (running_offsets (length (d @ utf8 s @ [0])) ss)"
      by simp
    from Cons.IH [OF this] show ?thesis by simp
  qed
qed

lemma running_offsets_read:
  "i < length ss \<Longrightarrow> 0 \<notin> set (utf8 (ss ! i)) \<Longrightarrow>
   read_cstr (d @ concat (map (\<lambda>s. utf8 s @ [0]) ss)) (running_offsets (length d) ss ! i) = utf8 (ss ! i)"
proof (induction ss arbitrary: d i)
  case Nil
  then show ?case by simp
next
  case (Cons s ss)
  show ?case
  proof (cases i)
    case 0
    with Cons.prems show ?thesis
      using read_cstr_append [of "utf8 s" d] by simp
  next
    case (Suc j)
    with Cons.prems have "read_cstr ((d @ utf8 s @ [0]) @ concat (map (\<lambda>s. utf8 s @ [0]) ss))
        (running_offsets (length (d @ utf8 s @ [0])) ss ! j) = utf8 (ss ! j)"
      by (intro Cons.IH) auto
    with Suc show ?thesis by simp
  qed
qed

lemma take_drop_concat_le16:
  "i < length xs \<Longrightarrow> take 2 (drop (2 * i) (concat (map (le_bytes 2) xs) @ rest)) = le_bytes 2 (xs ! i)"
proof (induction xs arbitrary: i)
  case Nil
  then show ?case by simp
next
  case (Cons x xs)
  then show ?case by (cases i) auto
qed

lemma length_concat_le16 [simp]: "length (concat (map (le_bytes 2) xs)) = 2 * length xs"
  by (induction xs) auto

lemma table_chunks_ok:
  assumes "count < 65536" "list_all (\<lambda>q. q < 65536) offs"
  shows "write_chunks (table_chunks count offs payload) =
    (le_bytes 2 count @ concat (map (le_bytes 2) offs) @ payload, None)"
proof -
  have "list_all (\<lambda>c. \<not> isl c) (table_chunks count offs payload)"
    using assms by (auto simp: table_chunks_def struct_uint_def list_all_iff)
  then show ?thesis
    using assms by (auto simp: write_chunks_ok table_chunks_def struct_uint_def list_all_iff comp_def
      intro!: arg_cong [where f = concat] map_cong)
qed


lemma decode_table_layout:
  assumes "count = length offs" "count < 65536" "list_all (\<lambda>q. q < length payload) offs"
    and "list_all (\<lambda>q. q < 65536) offs"
  shows "decode_table (le_bytes 2 count @ concat (map (le_bytes 2) offs) @ payload) = Some (map (read_cstr payload) offs)"
proof -
  let ?f = "le_bytes 2 count @ concat (map (le_bytes 2) offs) @ payload"
  have n: "le_nat (take 2 ?f) = count"
    using assms(2) by simp
  have o: "map (\<lambda>i. le_nat (take 2 (drop (2 + 2 * i) ?f))) [0..<count] = offs"
  proof (rule nth_equalityI)
    fix i assume "i < length (map (\<lambda>i. le_nat (take 2 (drop (2 + 2 * i) ?f))) [0..<count])"
    then have i: "i < length offs" using assms(1) by simp
    have "take 2 (drop (2 + 2 * i) ?f) = le_bytes 2 (offs ! i)"
      using take_drop_concat_le16 [OF i, of payload] by simp
    then show "map (\<lambda>i. le_nat (take 2 (drop (2 + 2 * i) ?f))) [0..<count] ! i = offs ! i"
      using i assms(1,4) by (simp add: list_all_length)
  qed (simp add: assms(1))
  have d: "drop (2 + 2 * count) ?f = payload"
    using assms(1) by simp
  show ?thesis
    unfolding decode_table_def Let_def n o d using assms(1,3) by simp
qed


lemma write_chunks_offsets_fail:
  "\<not> list_all (\<lambda>q. q < 65536) offs \<Longrightarrow>
   \<exists>w. write_chunks (map (\<lambda>q. struct_uint 2 (int q)) offs @ rest) = (w, Some StructError)"
proof (induction offs)
  case Nil
  then show ?case by simp
next
  case (Cons q offs)
  show ?case
  proof (cases "q < 65536")
    case True
    with Cons.prems obtain w where "write_chunks (map (\<lambda>q. struct_uint 2 (int q)) offs @ rest) = (w, Some StructError)"
      using Cons.IH by auto
    with True show ?thesis by (simp add: struct_uint_def)
  next
    case False
    then show ?thesis by (simp add: struct_uint_def)
  qed
qed


lemmas heap_simps = add_str_def add_string_to_table_def utf8_def read_cstr_def Let_def

section \<open>Properties\<close>

text \<open>
  C8. Interning round trip and append-only heap: interning a NUL-free string into a
  well-formed heap returns the old length as its offset, reading from that offset up to
  the terminator gives the string's bytes back, the heap stays well formed, and every
  string readable at an older offset reads the same.
\<close>

theorem add_str_roundtrip:
  assumes "heap_wf h" "0 \<notin> set (utf8 s)" "add_str h (JStr s) = Inr (h', off)"
  shows "off = length h \<and> read_cstr h' off = utf8 s \<and> heap_wf h' \<and> (\<forall>p < length h. read_cstr h' p = read_cstr h p)"
proof -
  from assms(3) have h': "h' = h @ utf8 s @ [0]" and off: "off = length h"
    by (auto simp: add_str_def)
  have "read_cstr h' off = utf8 s"
    using read_cstr_append [OF assms(2), of h "[]"] h' off by simp
  moreover have "read_cstr h' p = read_cstr h p" if "p < length h" for p
    using read_cstr_stable [OF that heap_wf_zero [OF assms(1) that]] h' by simp
  ultimately show ?thesis using h' off by auto
qed


theorem add_str_roundtrip_witness:
  "read_cstr (utf8 ''H'' @ [0] @ utf8 ''He'' @ [0]) 2 = utf8 ''He''
   \<and> read_cstr (utf8 ''H'' @ [0] @ utf8 ''He'' @ [0]) 0 = read_cstr (utf8 ''H'' @ [0]) 0"
proof -
  have h: "heap_wf (utf8 ''H'' @ [0])" "0 \<notin> set (utf8 ''He'')"
    "add_str (utf8 ''H'' @ [0]) (JStr ''He'') = Inr ((utf8 ''H'' @ [0]) @ utf8 ''He'' @ [0], 2)"
    by (simp_all add: heap_wf_def add_str_def utf8_def)
  from add_str_roundtrip [OF h] show ?thesis by simp
qed

text \<open>
  C9. Offsets of a sequence of interned strings (the name table loop): they are
  strictly increasing, one per string, all at or after the starting length and inside
  the final heap, and each reads back its NUL-free string.
\<close>

theorem append_strs_offsets:
  assumes "append_strs d ss = (h, offs)"
  shows "sorted_wrt (<) offs \<and> length offs = length ss \<and> list_all (\<lambda>q. length d \<le> q \<and> q < length h) offs
    \<and> (\<forall>i < length ss. 0 \<notin> set (utf8 (ss ! i)) \<longrightarrow> read_cstr h (offs ! i) = utf8 (ss ! i))"
proof -
  from assms have h: "h = d @ concat (map (\<lambda>s. utf8 s @ [0]) ss)" and offs: "offs = running_offsets (length d) ss"
    by (simp_all add: append_strs_eq)
  show ?thesis
    using running_offsets_sorted running_offsets_ge running_offsets_bound running_offsets_read
    by (auto simp: h offs list_all_iff)
qed


theorem append_strs_offsets_witness:
  "sorted_wrt (<) [0, 10::nat] \<and> read_cstr (utf8 ''Bulbasaur'' @ [0] @ utf8 ''Ivysaur'' @ [0]) 10 = utf8 ''Ivysaur''"
proof -
  have h: "append_strs [] [''Bulbasaur'', ''Ivysaur''] = (utf8 ''Bulbasaur'' @ [0] @ utf8 ''Ivysaur'' @ [0], [0, 10])"
    by (simp add: append_strs_eq)
  have r: "0 \<notin> set (utf8 ([''Bulbasaur'', ''Ivysaur''] ! 1))"
    by (simp add: utf8_def)
  from append_strs_offsets [OF h] r show ?thesis by auto
qed

text \<open>
  The spec's round trip ("reading from an offset until its terminator reproduces
  the original string") fails for a string with an embedded NUL: the read stops at it.
  No generator rejects such a string.
\<close>

theorem embedded_nul_truncates:
  "read_cstr (fst (append_strs [] [''a'' @ [CHR 0x00] @ ''b''])) 0 = utf8 ''a''"
  by (simp add: append_strs_eq read_cstr_def utf8_def)


text \<open>
  C10. Table file round trip: when the count and every offset fit \<open>uint16\<close>, writing
  \<open>[count][offsets][payload]\<close> succeeds and the consumer's reading of the file gives
  back every NUL-free string.
\<close>

theorem string_table_roundtrip:
  assumes "length ss < 65536" "list_all (\<lambda>s. 0 \<notin> set (utf8 s)) ss"
    and "list_all (\<lambda>q. q < 65536) (running_offsets 0 ss)"
  shows "\<exists>f. write_chunks (table_chunks (length ss) (running_offsets 0 ss) (concat (map (\<lambda>s. utf8 s @ [0]) ss)))
               = (f, None) \<and> decode_table f = Some (map utf8 ss)"
proof -
  let ?p = "concat (map (\<lambda>s. utf8 s @ [0]) ss)" and ?o = "running_offsets 0 ss"
  have bound: "list_all (\<lambda>q. q < length ?p) ?o"
    using running_offsets_bound [of _ "[]" ss] by (simp add: list_all_iff)
  have rd: "map (read_cstr ?p) ?o = map utf8 ss"
  proof (rule nth_equalityI)
    fix i assume "i < length (map (read_cstr ?p) ?o)"
    then have i: "i < length ss" by simp
    with assms(2) have "0 \<notin> set (utf8 (ss ! i))" by (simp add: list_all_length)
    with running_offsets_read [OF i, of "[]"] i show "map (read_cstr ?p) ?o ! i = map utf8 ss ! i"
      by simp
  qed simp
  show ?thesis
    using table_chunks_ok [OF assms(1,3)] decode_table_layout [OF _ assms(1) bound assms(3)] rd by simp
qed


theorem string_table_roundtrip_witness:
  "\<exists>f. write_chunks (table_chunks (length [''Bulbasaur'', ''Ivysaur'']) (running_offsets 0 [''Bulbasaur'', ''Ivysaur''])
        (concat (map (\<lambda>s. utf8 s @ [0]) [''Bulbasaur'', ''Ivysaur'']))) = (f, None)
     \<and> decode_table f = Some (map utf8 [''Bulbasaur'', ''Ivysaur''])"
proof -
  have h: "length [''Bulbasaur'', ''Ivysaur''] < 65536"
    "list_all (\<lambda>s. 0 \<notin> set (utf8 s)) [''Bulbasaur'', ''Ivysaur'']"
    "list_all (\<lambda>q. q < 65536) (running_offsets 0 [''Bulbasaur'', ''Ivysaur''])"
    by (simp_all add: utf8_def)
  show ?thesis by (rule string_table_roundtrip [OF h])
qed

text \<open>
  C11. Partial artifact: when an offset exceeds 65535, \<open>struct.pack('<H')\<close> raises
  while the table is being written, after the count (and the offsets before it) are
  already in the file: the file is left truncated, where the spec requires that a
  structural failure writes no output.
\<close>

theorem table_partial_write:
  assumes "length ss < 65536" "\<not> list_all (\<lambda>q. q < 65536) (running_offsets 0 ss)"
  shows "\<exists>w. write_chunks (table_chunks (length ss) (running_offsets 0 ss) payload) = (w, Some StructError)
           \<and> 2 \<le> length w"
proof -
  obtain w where "write_chunks (map (\<lambda>q. struct_uint 2 (int q)) (running_offsets 0 ss) @ [Inr payload])
      = (w, Some StructError)"
    using write_chunks_offsets_fail [OF assms(2)] by blast
  with assms(1) show ?thesis
    by (simp add: table_chunks_def struct_uint_def)
qed


theorem table_partial_write_witness:
  "\<exists>w. write_chunks (table_chunks (length [replicate 70000 CHR ''a'', ''b''])
        (running_offsets 0 [replicate 70000 CHR ''a'', ''b'']) []) = (w, Some StructError) \<and> 2 \<le> length w"
proof -
  have h: "length [replicate 70000 CHR ''a'', ''b''] < 65536"
    "\<not> list_all (\<lambda>q. q < 65536) (running_offsets 0 [replicate 70000 CHR ''a'', ''b''])"
    by simp_all
  show ?thesis by (rule table_partial_write [OF h])
qed


end
