(* ===== verification/Bitmap.thy ===== *)
theory Bitmap
  imports StringHeap
begin

unbundle bit_operations_syntax

text \<open>
  The Bitmap Encoder of \<open>pokemon_data_converter.py\<close>: \<open>convert_sprite_to_bitmap\<close>
  (lines 170--198) turns a sprite into a 1-bit bitmap. PIL opens the file, converts it to
  grayscale, resizes it and dithers it (Floyd--Steinberg) to mode \<open>'1'\<close>; those
  library steps are not modelled: the model's input is \<open>list(img.getdata())\<close>, the
  dithered pixels (0 black, 255 white), or \<open>None\<close> when any of these steps raised.
  The packing loop is modelled as written: rows top to bottom, bytes left to right over
  \<open>range(0, target_width, 8)\<close>, bit \<open>7 - bit\<close> set for a black pixel, pixels
  past the row end or past the list left as zero bits. The fallback of the
  \<open>except\<close> branch is \<open>target_width * target_height // 8\<close> zero bytes.
\<close>

section \<open>Packing\<close>

text \<open>The innermost loop (lines 186--192): one output byte.\<close>

definition pack_byte :: "nat list \<Rightarrow> nat \<Rightarrow> nat \<Rightarrow> nat \<Rightarrow> byte" where
  "pack_byte pixels tw y x =
     foldl (\<lambda>acc bit.
              if x + bit < tw \<and> y * tw + x + bit < length pixels \<and> pixels ! (y * tw + x + bit) = 0
              then acc OR push_bit (7 - bit) 1 else acc)
           0 [0..<8]"

text \<open>\<open>range(0, tw, 8)\<close> is \<open>8 * k\<close> for \<open>k < (tw + 7) div 8\<close>.\<close>

definition row_bytes :: "nat \<Rightarrow> nat" where
  "row_bytes tw = (tw + 7) div 8"

definition pack_rows :: "nat list \<Rightarrow> nat \<Rightarrow> nat \<Rightarrow> byte list" where
  "pack_rows pixels tw th =
     concat (map (\<lambda>y. map (\<lambda>k. pack_byte pixels tw y (8 * k)) [0..<row_bytes tw]) [0..<th])"

definition convert_sprite_to_bitmap :: "nat list option \<Rightarrow> nat \<Rightarrow> nat \<Rightarrow> byte list" where
  "convert_sprite_to_bitmap img tw th =
     (case img of None \<Rightarrow> replicate (tw * th div 8) 0 | Some pixels \<Rightarrow> pack_rows pixels tw th)"

text \<open>The consumer's reading of pixel \<open>(x, y)\<close> of a packed bitmap.\<close>

definition bm_pixel :: "byte list \<Rightarrow> nat \<Rightarrow> nat \<Rightarrow> nat \<Rightarrow> bool" where
  "bm_pixel bm tw y x = bit (bm ! (y * row_bytes tw + x div 8)) (7 - x mod 8)"

section \<open>Lemmas\<close>

lemma bit_push_bit_one_byte [simp]:
  "bit (push_bit n (1::byte)) m \<longleftrightarrow> m = n \<and> n < 8"
  by (auto simp: bit_push_bit_iff bit_1_iff bit_exp_iff)

lemma bit_foldl_or:
  "list_all (\<lambda>b. b < 8) bs \<Longrightarrow>
   bit (foldl (\<lambda>acc b. if P b then acc OR push_bit (7 - b) 1 else acc) (a::byte) bs) j \<longleftrightarrow>
   bit a j \<or> (\<exists>b \<in> set bs. P b \<and> j = 7 - b)"
proof (induction bs arbitrary: a)
  case Nil
  then show ?case by simp
next
  case (Cons b bs)
  then show ?case by (auto simp: bit_or_iff bit_exp_iff)
qed

lemma ex_bit_index:
  "(\<exists>b \<in> set [0..<8]. Q b \<and> j = 7 - b) \<longleftrightarrow> j < 8 \<and> Q (7 - j)"
proof
  assume "\<exists>b \<in> set [0..<8]. Q b \<and> j = 7 - b"
  then obtain b where "b < 8" "Q b" "j = 7 - b" by auto
  then show "j < 8 \<and> Q (7 - j)" by (simp add: diff_diff_cancel)
next
  assume "j < 8 \<and> Q (7 - j)"
  then show "\<exists>b \<in> set [0..<8]. Q b \<and> j = 7 - b"
    by (intro bexI [of _ "7 - j"]) auto
qed

lemma bit_pack_byte:
  "bit (pack_byte px tw y x) j \<longleftrightarrow>
   j < 8 \<and> x + (7 - j) < tw \<and> y * tw + x + (7 - j) < length px \<and> px ! (y * tw + x + (7 - j)) = 0"
proof -
  have "list_all (\<lambda>b. b < 8) [0..<8]" by (simp add: list_all_iff)
  from bit_foldl_or [OF this] show ?thesis
    unfolding pack_byte_def by (simp only: ex_bit_index) simp
qed

lemma length_pack_rows [simp]: "length (pack_rows px tw th) = row_bytes tw * th"
  by (simp add: pack_rows_def length_concat comp_def sum_list_triv)

lemma nth_concat_rows:
  "y < n \<Longrightarrow> k < m \<Longrightarrow> concat (map (\<lambda>y. map (f y) [0..<m]) [0..<n]) ! (y * m + k) = f y k"
proof (induction n)
  case 0
  then show ?case by simp
next
  case (Suc n)
  show ?case
  proof (cases "y < n")
    case True
    have "length (concat (map (\<lambda>y. map (f y) [0..<m]) [0..<n])) = n * m"
      by (simp add: length_concat comp_def sum_list_triv)
    moreover have "y * m + k < n * m"
    proof -
      have "y * m + k < Suc y * m" using Suc.prems(2) by simp
      also have "\<dots> \<le> n * m" using True by (intro mult_le_mono1) simp
      finally show ?thesis .
    qed
    ultimately show ?thesis
      using Suc.IH [OF True Suc.prems(2)] by (simp add: nth_append)
  next
    case False
    with Suc.prems have y: "y = n" by simp
    have "length (concat (map (\<lambda>y. map (f y) [0..<m]) [0..<n])) = n * m"
      by (simp add: length_concat comp_def sum_list_triv)
    with y Suc.prems(2) show ?thesis by (simp add: nth_append mult.commute)
  qed
qed

lemma pack_rows_nth:
  "y < th \<Longrightarrow> k < row_bytes tw \<Longrightarrow> pack_rows px tw th ! (y * row_bytes tw + k) = pack_byte px tw y (8 * k)"
  unfolding pack_rows_def by (rule nth_concat_rows)

lemmas bitmap_simps = convert_sprite_to_bitmap_def pack_rows_def pack_byte_def row_bytes_def bm_pixel_def

section \<open>Properties\<close>

text \<open>
  C12. Pixel round trip: for a full image (\<open>width * height\<close> pixels), the consumer's
  reading of pixel \<open>(x, y)\<close> of the packed bitmap (MSB first, row-major, rows of
  \<open>ceil(width / 8)\<close> bytes) is set exactly when the dithered pixel is black.
\<close>

theorem bitmap_pixel_roundtrip:
  assumes "length px = tw * th" "x < tw" "y < th"
  shows "bm_pixel (convert_sprite_to_bitmap (Some px) tw th) tw y x \<longleftrightarrow> px ! (y * tw + x) = 0"
proof -
  have k: "x div 8 < row_bytes tw"
    using assms(2) by (simp add: row_bytes_def)
  have x: "8 * (x div 8) + x mod 8 = x" by simp
  have idx: "y * tw + x < length px"
  proof -
    have "y * tw + x < y * tw + tw" using assms(2) by simp
    also have "\<dots> = Suc y * tw" by simp
    also have "\<dots> \<le> th * tw" using assms(3) by (intro mult_le_mono1) simp
    finally show ?thesis using assms(1) by (simp add: mult.commute)
  qed
  have j: "7 - x mod 8 < 8" and c: "x + y * tw = y * tw + x" by simp_all
  show ?thesis
    using pack_rows_nth [OF assms(3) k, of px] bit_pack_byte [of px tw y "8 * (x div 8)" "7 - x mod 8"]
      assms(2) idx j c
    by (simp add: bm_pixel_def convert_sprite_to_bitmap_def x)
qed

theorem bitmap_pixel_roundtrip_witness:
  "bm_pixel (convert_sprite_to_bitmap (Some [0, 255]) 2 1) 2 0 0"
proof -
  have h: "length [0, 255::nat] = 2 * 1" "(0::nat) < 2" "(0::nat) < 1" by simp_all
  from bitmap_pixel_roundtrip [OF h] show ?thesis by simp
qed

text \<open>
  C13. Padding: when the width is not a multiple of 8, the unused low bits of the last
  byte of every row are zero.
\<close>

theorem bitmap_padding_zero:
  assumes "y < th" "tw \<le> x" "x < 8 * row_bytes tw"
  shows "\<not> bm_pixel (convert_sprite_to_bitmap (Some px) tw th) tw y x"
proof -
  have k: "x div 8 < row_bytes tw" using assms(3) by simp
  have x: "8 * (x div 8) + x mod 8 = x" by simp
  show ?thesis
    using pack_rows_nth [OF assms(1) k, of px] bit_pack_byte [of px tw y "8 * (x div 8)" "7 - x mod 8"] assms(2)
    by (simp add: bm_pixel_def convert_sprite_to_bitmap_def x)
qed

theorem bitmap_padding_zero_witness:
  "\<not> bm_pixel (convert_sprite_to_bitmap (Some [0, 0]) 2 1) 2 0 5"
proof -
  have h: "(0::nat) < 1" "(2::nat) \<le> 5" "(5::nat) < 8 * row_bytes 2" by (simp_all add: row_bytes_def)
  from bitmap_padding_zero [OF h] show ?thesis .
qed

text \<open>
  C14. The fallback bitmap of a failed sprite (\<open>width * height // 8\<close> zero bytes) has
  the length of a packed bitmap (\<open>ceil(width / 8) * height\<close>) exactly when the width
  is a multiple of 8 or the height is 0: for the converter's 64 x 64 sprites it does,
  for other sizes the spec's length invariant fails on the fallback path.
\<close>

theorem fallback_length_iff:
  "length (convert_sprite_to_bitmap None tw th) = length (convert_sprite_to_bitmap (Some px) tw th)
   \<longleftrightarrow> tw mod 8 = 0 \<or> th = 0"
proof -
  obtain a r where tw: "tw = 8 * a + r" and r: "r < 8"
    using div_mult_mod_eq [of tw 8] by (metis mod_less_divisor zero_less_numeral mult.commute)
  have "tw * th div 8 = a * th + r * th div 8"
    using tw by (simp add: algebra_simps)
  moreover have "row_bytes tw = (if r = 0 then a else a + 1)"
    using tw r by (auto simp: row_bytes_def)
  moreover have "r * th div 8 < th \<or> th = 0"
    using r by (cases "th = 0") (auto simp: div_less_iff_less_mult)
  ultimately show ?thesis
    using tw r by (auto simp: convert_sprite_to_bitmap_def algebra_simps)
qed
end
