(* ===== verification/PeriodicPack.thy ===== *)
theory PeriodicPack
  imports NumericEncoder EnumMapper StringHeap
begin

text \<open>
  The record packer of \<open>pack_periodic.py\<close>: the per-element field helpers
  (\<open>valence_from_shells\<close>, \<open>oxid_range\<close>, \<open>year_from_element\<close>,
  \<open>first_ionization_eV\<close>, \<open>electron_affinity_eV\<close>, lines 65--138) and the loop of
  \<open>main\<close> (lines 140--226) that fills three string heaps and the 119-slot array
  \<open>packed\<close> indexed by atomic number. The state of the loop is the record
  \<open>pack_state\<close>; one iteration is \<open>pack_element\<close>, the loop is \<open>pack_loop\<close>, and
  \<open>pack_main\<close> is \<open>main\<close> up to the header emission, applied to the parsed JSON
  document. \<open>die\<close> is the exception \<open>Die msg\<close>. The lemmas show the slot
  invariant (slot \<open>k\<close> holds the record of element \<open>k\<close>), the duplicate-key abort,
  the silent skip of out-of-range numbers, the heap references of every record and the
  ranges of its scaled fields.
\<close>

section \<open>Element field helpers\<close>

text \<open>\<open>valence_from_shells(shells)\<close>: \<open>int(shells[-1])\<close> of a non-empty list or
  string; every exception (\<open>len\<close> of a number, \<open>d[-1]\<close> of a dict, a failed
  \<open>int\<close>) is caught and gives 0.\<close>

definition valence_from_shells :: "jval \<Rightarrow> int" where
  "valence_from_shells shells =
     (if \<not> py_truthy shells then 0
      else case shells of
        JList xs \<Rightarrow> (case py_int (last xs) of Inr i \<Rightarrow> i | Inl _ \<Rightarrow> 0)
      | JStr s \<Rightarrow> (case py_int (JStr [last s]) of Inr i \<Rightarrow> i | Inl _ \<Rightarrow> 0)
      | _ \<Rightarrow> 0)"

text \<open>The UTF-8 encodings of U+2212 (minus sign), U+2014 (em dash), U+2013 (en dash).\<close>

definition minus_sign :: string where
  "minus_sign = [CHR 0xE2, CHR 0x88, CHR 0x92]"

definition em_dash :: string where
  "em_dash = [CHR 0xE2, CHR 0x80, CHR 0x94]"

definition en_dash :: string where
  "en_dash = [CHR 0xE2, CHR 0x80, CHR 0x93]"

definition oxid_tokens :: "string \<Rightarrow> string list" where
  "oxid_tokens s =
     py_split (py_replace '','' '' '' (py_replace ''+'' '' +''
       (py_replace en_dash ''-'' (py_replace em_dash ''-'' (py_replace minus_sign ''-'' s)))))"

text \<open>The token loop: \<open>+\<close> and \<open>-\<close> are skipped, a token \<open>int()\<close> rejects is
  dropped by the bare \<open>except\<close>.\<close>

definition oxid_vals :: "string list \<Rightarrow> int list" where
  "oxid_vals toks =
     concat (map (\<lambda>t. if t \<in> {''+'', ''-''} then []
                       else case py_int_str t of Some i \<Rightarrow> [i] | None \<Rightarrow> []) toks)"

definition oxid_range :: "jval \<Rightarrow> (int \<times> int) option" where
  "oxid_range ox_field =
     (if \<not> py_truthy ox_field then None
      else let vals = oxid_vals (oxid_tokens (py_str ox_field))
           in if vals = [] then None else Some (Min (set vals), Max (set vals)))"

text \<open>Lines 191--198: the sentinel 127 for unknown, otherwise the value clamped to
  \<open>[-64, 63]\<close> and biased by 64.\<close>

definition oxid_bias :: "(int \<times> int) option \<Rightarrow> int \<times> int" where
  "oxid_bias r = (case r of None \<Rightarrow> (127, 127)
                  | Some (lo, hi) \<Rightarrow> (clamp (-64) 63 lo + 64, clamp (-64) 63 hi + 64))"

definition year_from_element :: "jdict \<Rightarrow> int" where
  "year_from_element e =
     (let y = py_get e ''year_discovered'' JNull in
      if y = JNull then 0
      else let ys = py_strip (py_str y) in
           if ys = [] then 0 else case py_int_str ys of Some i \<Rightarrow> i | None \<Rightarrow> 0)"

text \<open>kJ/mol to eV: division by 96.485.\<close>

definition first_ionization_eV :: "jdict \<Rightarrow> pyfloat option" where
  "first_ionization_eV e =
     (case py_get e ''ionization_energies'' JNull of
        JList (a # _) \<Rightarrow> (case py_float a of Inr x \<Rightarrow> Some (py_fdiv x (96485 / 1000)) | Inl _ \<Rightarrow> None)
      | _ \<Rightarrow> None)"

definition electron_affinity_eV :: "jdict \<Rightarrow> pyfloat option" where
  "electron_affinity_eV e =
     (let ea = py_get e ''electron_affinity'' JNull in
      if ea = JNull then None
      else case py_float ea of Inr x \<Rightarrow> Some (py_fdiv x (96485 / 1000)) | Inl _ \<Rightarrow> None)"

section \<open>Records and the loop state\<close>

text \<open>The dict stored in \<open>packed[z]\<close> (lines 205--226), field by field.\<close>

record packed_element =
  pe_z :: int
  mass_milli :: int
  mp_kx100 :: int
  bp_kx100 :: int
  density_x1000 :: int
  ion_eVx1000 :: int
  en_paulingx100 :: int
  electron_aff_x100 :: int
  pe_group :: int
  pe_period :: int
  valence_e :: int
  oxid_min_biased :: int
  oxid_max_biased :: int
  pe_flags :: int
  pe_category :: elem_category
  pe_block :: elem_block
  sym_off :: nat
  name_off :: nat
  discoverer_off :: nat
  discovery_year :: int

text \<open>The local state of \<open>main\<close> (lines 144--153).\<close>

record pack_state =
  sym_blob :: "byte list"
  name_blob :: "byte list"
  disc_blob :: "byte list"
  packed :: "packed_element option list"
  seen_z :: "int set"

definition init_pack :: pack_state where
  "init_pack = \<lparr>sym_blob = [], name_blob = [], disc_blob = [], packed = replicate 119 None, seen_z = {}\<rparr>"

section \<open>The loop of main\<close>

text \<open>\<open>int(e["number"])\<close>: subscripting anything but a dict is a \<open>TypeError\<close>.\<close>

definition element_number :: "jval \<Rightarrow> int pyres" where
  "element_number e = (case e of JObj d \<Rightarrow> pybind (py_index d ''number'') py_int | _ \<Rightarrow> Inl TypeError)"

text \<open>Lines 167--226 for an element \<open>e\<close> with number \<open>z\<close> whose strings are at
  \<open>sym_off\<close>, \<open>name_off\<close>, \<open>discoverer_off\<close>: the scalar fields in the order the
  statements run, and the dict of line 205.\<close>

definition element_fields :: "jdict \<Rightarrow> int \<Rightarrow> nat \<Rightarrow> nat \<Rightarrow> nat \<Rightarrow> packed_element pyres" where
  "element_fields e z so no dso =
     pybind (scale_or (py_get e ''atomic_mass'' JNull) 1000 0 False) (\<lambda>mass.
     pybind (scale_or (py_get e ''melt'' JNull) 100 (-1) True) (\<lambda>mp.
     pybind (scale_or (py_get e ''boil'' JNull) 100 (-1) True) (\<lambda>bp.
     pybind (scale_or (py_get e ''density'' JNull) 1000 0 False) (\<lambda>dens.
     pybind (scale_or (py_get e ''electronegativity_pauling'' JNull) 100 0 False) (\<lambda>en.
     pybind (scale_or_opt (first_ionization_eV e) 1000 0 False) (\<lambda>ion.
     pybind (scale_or_opt (electron_affinity_eV e) 100 0 False) (\<lambda>ea.
     pybind (py_int (py_or (py_get e ''group'' JNull) (JInt 0))) (\<lambda>grp.
     pybind (py_int (py_or (py_get e ''period'' JNull) (JInt 0))) (\<lambda>per.
     pybind (map_block (py_get e ''block'' JNull)) (\<lambda>blk.
     pybind (map_category (py_get e ''category'' JNull)) (\<lambda>cat.
       let val = valence_from_shells (py_or (py_get e ''shells'' JNull) (JList []));
           ox = oxid_bias (oxid_range (py_get e ''oxidation_states'' JNull))
       in Inr \<lparr>pe_z = z, mass_milli = mass, mp_kx100 = mp, bp_kx100 = bp, density_x1000 = dens,
                ion_eVx1000 = ion, en_paulingx100 = en, electron_aff_x100 = ea, pe_group = grp,
                pe_period = per, valence_e = val, oxid_min_biased = fst ox,
                oxid_max_biased = snd ox, pe_flags = 0, pe_category = cat, pe_block = blk,
                sym_off = so, name_off = no, discoverer_off = dso,
                discovery_year = year_from_element e\<rparr>)))))))))))"

text \<open>Lines 161--226: the three strings are interned first (lines 161--164), then the
  fields are computed and the record is stored in slot \<open>z\<close>.\<close>

definition pack_fields :: "pack_state \<Rightarrow> jdict \<Rightarrow> int \<Rightarrow> pack_state pyres" where
  "pack_fields st e z =
     pybind (add_str (sym_blob st) (py_get e ''symbol'' (JStr []))) (\<lambda>(sb, so).
     pybind (add_str (name_blob st) (py_get e ''name'' (JStr []))) (\<lambda>(nb, no).
     pybind (add_str (disc_blob st) (py_or (py_get e ''discovered_by'' JNull) (JStr []))) (\<lambda>(db, dso).
     pybind (element_fields e z so no dso) (\<lambda>r.
       Inr (st\<lparr>sym_blob := sb, name_blob := nb, disc_blob := db,
               packed := (packed st)[nat z := Some r]\<rparr>)))))"

text \<open>One iteration of \<open>for e in elements\<close> (lines 155--159).\<close>

definition pack_element :: "pack_state \<Rightarrow> jval \<Rightarrow> pack_state pyres" where
  "pack_element st e =
     (case e of
        JObj d \<Rightarrow>
          pybind (pybind (py_index d ''number'') py_int) (\<lambda>z.
            if z < 1 \<or> z > 118 then Inr st
            else if z \<in> seen_z st then Inl (Die (''Duplicate atomic number '' @ int_repr z))
            else pack_fields (st\<lparr>seen_z := insert z (seen_z st)\<rparr>) d z)
      | _ \<Rightarrow> Inl TypeError)"

fun pack_loop :: "pack_state \<Rightarrow> jval list \<Rightarrow> pack_state pyres" where
  "pack_loop st [] = Inr st"
| "pack_loop st (e # es) = pybind (pack_element st e) (\<lambda>st'. pack_loop st' es)"

text \<open>\<open>main\<close> up to the emission: \<open>root["elements"]\<close>, then the loop.\<close>

definition pack_main :: "jval \<Rightarrow> pack_state pyres" where
  "pack_main root_json =
     pybind (case root_json of JObj d \<Rightarrow> py_index d ''elements'' | _ \<Rightarrow> Inl TypeError) (\<lambda>elements.
     pybind (py_iter elements) (pack_loop init_pack))"

section \<open>Invariants\<close>

text \<open>The ranges \<open>scale_or\<close> clamps the scaled fields into (\<open>u16\<close>, or \<open>i16\<close>
  for the temperatures; the spec's \<open>u32\<close> mass field contains the \<open>u16\<close> range)
  and the range of the biased oxidation states (0..127).\<close>

definition fields_ok :: "packed_element \<Rightarrow> bool" where
  "fields_ok r \<longleftrightarrow>
     0 \<le> mass_milli r \<and> mass_milli r \<le> 65535 \<and>
     -32768 \<le> mp_kx100 r \<and> mp_kx100 r \<le> 32767 \<and> -32768 \<le> bp_kx100 r \<and> bp_kx100 r \<le> 32767 \<and>
     0 \<le> density_x1000 r \<and> density_x1000 r \<le> 65535 \<and> 0 \<le> ion_eVx1000 r \<and> ion_eVx1000 r \<le> 65535 \<and>
     0 \<le> en_paulingx100 r \<and> en_paulingx100 r \<le> 65535 \<and>
     0 \<le> electron_aff_x100 r \<and> electron_aff_x100 r \<le> 65535 \<and>
     0 \<le> oxid_min_biased r \<and> oxid_min_biased r \<le> 127 \<and> 0 \<le> oxid_max_biased r \<and> oxid_max_biased r \<le> 127 \<and>
     pe_flags r = 0"

text \<open>The loop invariant: 119 slots, slot 0 unused, slot \<open>k\<close> empty or holding the
  record of element \<open>k\<close> with its fields in range and its string offsets inside the
  heaps, \<open>seen_z\<close> the set of filled slots, each heap ending in a terminator.\<close>

definition pack_inv :: "pack_state \<Rightarrow> bool" where
  "pack_inv st \<longleftrightarrow>
     length (packed st) = 119 \<and> packed st ! 0 = None \<and>
     (\<forall>k<119. case packed st ! k of
                 None \<Rightarrow> int k \<notin> seen_z st
               | Some r \<Rightarrow> pe_z r = int k \<and> int k \<in> seen_z st \<and> fields_ok r \<and>
                   sym_off r < length (sym_blob st) \<and> name_off r < length (name_blob st) \<and>
                   discoverer_off r < length (disc_blob st)) \<and>
     seen_z st \<subseteq> {1..118} \<and> heap_wf (sym_blob st) \<and> heap_wf (name_blob st) \<and> heap_wf (disc_blob st)"

text \<open>The atomic numbers in range, in the order the loop meets them.\<close>

definition valid_numbers :: "jval list \<Rightarrow> int list" where
  "valid_numbers es =
     filter (\<lambda>z. 1 \<le> z \<and> z \<le> 118)
       (concat (map (\<lambda>e. case element_number e of Inr z \<Rightarrow> [z] | Inl _ \<Rightarrow> []) es))"

text \<open>What slot \<open>z\<close> holds after element \<open>d\<close> was packed: its strings read back from
  the heaps up to the first NUL byte, and its \<open>group\<close> and \<open>period\<close> as \<open>int()\<close>
  gives them.\<close>

definition str_read :: "byte list \<Rightarrow> nat \<Rightarrow> jval \<Rightarrow> bool" where
  "str_read h off v = (case v of JStr s \<Rightarrow> read_cstr h off = takeWhile (\<lambda>b. b \<noteq> 0) (utf8 s) | _ \<Rightarrow> False)"

definition slot_holds :: "pack_state \<Rightarrow> int \<Rightarrow> jdict \<Rightarrow> bool" where
  "slot_holds st z d =
     (case packed st ! nat z of
        None \<Rightarrow> False
      | Some r \<Rightarrow>
          str_read (sym_blob st) (sym_off r) (py_get d ''symbol'' (JStr [])) \<and>
          str_read (name_blob st) (name_off r) (py_get d ''name'' (JStr [])) \<and>
          str_read (disc_blob st) (discoverer_off r) (py_or (py_get d ''discovered_by'' JNull) (JStr [])) \<and>
          py_int (py_or (py_get d ''group'' JNull) (JInt 0)) = Inr (pe_group r) \<and>
          py_int (py_or (py_get d ''period'' JNull) (JInt 0)) = Inr (pe_period r))"

section \<open>Lemmas\<close>

lemma scale_or_u16: "scale_or v s 0 False = Inr k \<Longrightarrow> 0 \<le> k \<and> k \<le> 65535"
  using scale_or_float_range [of _ s False k]
  by (auto simp: scale_or_def split: if_splits sum.splits)

lemma scale_or_i16: "scale_or v s (-1) True = Inr k \<Longrightarrow> -32768 \<le> k \<and> k \<le> 32767"
  using scale_or_float_range [of _ s True k]
  by (auto simp: scale_or_def split: if_splits sum.splits)

lemma scale_or_opt_u16: "scale_or_opt v s 0 False = Inr k \<Longrightarrow> 0 \<le> k \<and> k \<le> 65535"
  using scale_or_float_range [of _ s False k]
  by (auto simp: scale_or_opt_def split: option.splits)

lemma oxid_bias_range:
  "0 \<le> fst (oxid_bias r) \<and> fst (oxid_bias r) \<le> 127 \<and> 0 \<le> snd (oxid_bias r) \<and> snd (oxid_bias r) \<le> 127"
  by (auto simp: oxid_bias_def clamp_def split: option.splits)

lemma add_str_Inr:
  "add_str h v = Inr (h', off) \<longleftrightarrow> (\<exists>s. v = JStr s \<and> h' = h @ utf8 s @ [0] \<and> off = length h)"
  by (auto simp: add_str_def split: jval.splits)

lemma element_fields_Inr:
  "element_fields e z so no dso = Inr r \<Longrightarrow>
   pe_z r = z \<and> fields_ok r \<and> sym_off r = so \<and> name_off r = no \<and> discoverer_off r = dso \<and>
   py_int (py_or (py_get e ''group'' JNull) (JInt 0)) = Inr (pe_group r) \<and>
   py_int (py_or (py_get e ''period'' JNull) (JInt 0)) = Inr (pe_period r)"
  unfolding element_fields_def
  by (auto simp: pybind_eq_Inr fields_ok_def Let_def oxid_bias_range
      dest!: scale_or_u16 scale_or_i16 scale_or_opt_u16)

lemma pack_fields_Inr:
  assumes "pack_fields st e z = Inr st'"
  shows "\<exists>r s1 s2 s3.
           element_fields e z (length (sym_blob st)) (length (name_blob st)) (length (disc_blob st)) = Inr r \<and>
           py_get e ''symbol'' (JStr []) = JStr s1 \<and> py_get e ''name'' (JStr []) = JStr s2 \<and>
           py_or (py_get e ''discovered_by'' JNull) (JStr []) = JStr s3 \<and>
           st' = st\<lparr>sym_blob := sym_blob st @ utf8 s1 @ [0], name_blob := name_blob st @ utf8 s2 @ [0],
                    disc_blob := disc_blob st @ utf8 s3 @ [0], packed := (packed st)[nat z := Some r]\<rparr>"
  using assms unfolding pack_fields_def by (auto simp: pybind_eq_Inr add_str_Inr)

lemma pack_element_Inr:
  assumes "pack_element st e = Inr st'"
  shows "\<exists>z. element_number e = Inr z \<and>
           (if 1 \<le> z \<and> z \<le> 118
            then z \<notin> seen_z st \<and> (\<exists>d. e = JObj d \<and> pack_fields (st\<lparr>seen_z := insert z (seen_z st)\<rparr>) d z = Inr st')
            else st' = st)"
  using assms unfolding pack_element_def element_number_def
  by (auto simp: pybind_eq_Inr split: jval.splits if_splits)

lemma pack_inv_init: "pack_inv init_pack"
  by (simp add: pack_inv_def init_pack_def heap_wf_def)

lemma pack_element_inv:
  assumes "pack_element st e = Inr st'" "pack_inv st"
  shows "pack_inv st'"
proof -
  from pack_element_Inr [OF assms(1)] obtain z where
    c: "if 1 \<le> z \<and> z \<le> 118
        then z \<notin> seen_z st \<and> (\<exists>d. e = JObj d \<and> pack_fields (st\<lparr>seen_z := insert z (seen_z st)\<rparr>) d z = Inr st')
        else st' = st" by blast
  show ?thesis
  proof (cases "1 \<le> z \<and> z \<le> 118")
    case False
    with c assms(2) show ?thesis by simp
  next
    case True
    with c obtain d where fresh: "z \<notin> seen_z st"
      and f: "pack_fields (st\<lparr>seen_z := insert z (seen_z st)\<rparr>) d z = Inr st'" by auto
    from pack_fields_Inr [OF f] obtain r s1 s2 s3 where
      ef: "element_fields d z (length (sym_blob st)) (length (name_blob st)) (length (disc_blob st)) = Inr r" and
      st': "st' = st\<lparr>seen_z := insert z (seen_z st), sym_blob := sym_blob st @ utf8 s1 @ [0],
              name_blob := name_blob st @ utf8 s2 @ [0], disc_blob := disc_blob st @ utf8 s3 @ [0],
              packed := (packed st)[nat z := Some r]\<rparr>" by auto
    note r = element_fields_Inr [OF ef]
    have len: "length (packed st) = 119" and z0: "nat z \<noteq> 0" "nat z < 119"
      using assms(2) True by (auto simp: pack_inv_def)
    have slots: "case packed st' ! k of
                   None \<Rightarrow> int k \<notin> seen_z st'
                 | Some r \<Rightarrow> pe_z r = int k \<and> int k \<in> seen_z st' \<and> fields_ok r \<and>
                     sym_off r < length (sym_blob st') \<and> name_off r < length (name_blob st') \<and>
                     discoverer_off r < length (disc_blob st')" if k: "k < 119" for k
    proof (cases "k = nat z")
      case True
      with z0 len r \<open>1 \<le> z \<and> z \<le> 118\<close> show ?thesis by (simp add: st')
    next
      case False
      then have kz: "int k \<noteq> z" using \<open>1 \<le> z \<and> z \<le> 118\<close> by auto
      have old: "case packed st ! k of
                   None \<Rightarrow> int k \<notin> seen_z st
                 | Some r \<Rightarrow> pe_z r = int k \<and> int k \<in> seen_z st \<and> fields_ok r \<and>
                     sym_off r < length (sym_blob st) \<and> name_off r < length (name_blob st) \<and>
                     discoverer_off r < length (disc_blob st)"
        using assms(2) k by (simp add: pack_inv_def)
      from False have "packed st' ! k = packed st ! k" by (simp add: st')
      with old kz show ?thesis by (simp add: st' split: option.splits)
    qed
    have rest: "length (packed st') = 119" "packed st' ! 0 = None" "seen_z st' \<subseteq> {1..118}"
      "heap_wf (sym_blob st')" "heap_wf (name_blob st')" "heap_wf (disc_blob st')"
      using assms(2) len z0 True by (auto simp: pack_inv_def st')
    from slots rest show ?thesis unfolding pack_inv_def by blast
  qed
qed

lemma pack_loop_inv: "pack_loop st es = Inr st' \<Longrightarrow> pack_inv st \<Longrightarrow> pack_inv st'"
  by (induction es arbitrary: st) (auto simp: pybind_eq_Inr dest: pack_element_inv)

lemma pack_element_seen:
  assumes "pack_element st e = Inr st'"
  shows "set (valid_numbers [e]) \<inter> seen_z st = {} \<and> seen_z st' = seen_z st \<union> set (valid_numbers [e])"
proof -
  from pack_element_Inr [OF assms] obtain z where z: "element_number e = Inr z" and
    c: "if 1 \<le> z \<and> z \<le> 118
        then z \<notin> seen_z st \<and> (\<exists>d. e = JObj d \<and> pack_fields (st\<lparr>seen_z := insert z (seen_z st)\<rparr>) d z = Inr st')
        else st' = st" by blast
  show ?thesis
  proof (cases "1 \<le> z \<and> z \<le> 118")
    case False
    with c z show ?thesis by (auto simp: valid_numbers_def)
  next
    case True
    with c obtain d where "z \<notin> seen_z st" "pack_fields (st\<lparr>seen_z := insert z (seen_z st)\<rparr>) d z = Inr st'" by auto
    moreover from pack_fields_Inr [OF this(2)] have "seen_z st' = insert z (seen_z st)" by auto
    ultimately show ?thesis using True z by (auto simp: valid_numbers_def)
  qed
qed

lemma valid_numbers_Cons: "valid_numbers (e # es) = valid_numbers [e] @ valid_numbers es"
  by (simp add: valid_numbers_def)

lemma pack_loop_seen:
  "pack_loop st es = Inr st' \<Longrightarrow>
   distinct (valid_numbers es) \<and> set (valid_numbers es) \<inter> seen_z st = {} \<and>
   seen_z st' = seen_z st \<union> set (valid_numbers es)"
proof (induction es arbitrary: st)
  case Nil
  then show ?case by (simp add: valid_numbers_def)
next
  case (Cons e es)
  then obtain st1 where s1: "pack_element st e = Inr st1" and s2: "pack_loop st1 es = Inr st'"
    by (auto simp: pybind_eq_Inr)
  have one: "distinct (valid_numbers [e])" by (simp add: valid_numbers_def split: sum.splits)
  from pack_element_seen [OF s1] Cons.IH [OF s2] one show ?case
    unfolding valid_numbers_Cons [of e es] by auto
qed

lemma pack_element_stable:
  assumes "pack_element st e = Inr st'" "int k \<in> seen_z st"
  shows "packed st' ! k = packed st ! k \<and> seen_z st \<subseteq> seen_z st' \<and> (\<exists>t. sym_blob st' = sym_blob st @ t) \<and>
         (\<exists>t. name_blob st' = name_blob st @ t) \<and> (\<exists>t. disc_blob st' = disc_blob st @ t)"
proof -
  from pack_element_Inr [OF assms(1)] obtain z where
    c: "if 1 \<le> z \<and> z \<le> 118
        then z \<notin> seen_z st \<and> (\<exists>d. e = JObj d \<and> pack_fields (st\<lparr>seen_z := insert z (seen_z st)\<rparr>) d z = Inr st')
        else st' = st" by blast
  show ?thesis
  proof (cases "1 \<le> z \<and> z \<le> 118")
    case False
    with c show ?thesis by auto
  next
    case True
    with c obtain d where fresh: "z \<notin> seen_z st"
      and f: "pack_fields (st\<lparr>seen_z := insert z (seen_z st)\<rparr>) d z = Inr st'" by auto
    from fresh assms(2) True have "k \<noteq> nat z" by auto
    with pack_fields_Inr [OF f] show ?thesis by auto
  qed
qed

lemma pack_loop_stable:
  "pack_loop st es = Inr st' \<Longrightarrow> int k \<in> seen_z st \<Longrightarrow>
   packed st' ! k = packed st ! k \<and> (\<exists>t. sym_blob st' = sym_blob st @ t) \<and>
   (\<exists>t. name_blob st' = name_blob st @ t) \<and> (\<exists>t. disc_blob st' = disc_blob st @ t)"
proof (induction es arbitrary: st)
  case Nil
  then show ?case by auto
next
  case (Cons e es)
  then obtain st1 where s1: "pack_element st e = Inr st1" and s2: "pack_loop st1 es = Inr st'"
    by (auto simp: pybind_eq_Inr)
  from pack_element_stable [OF s1 Cons.prems(2)] have one:
    "packed st1 ! k = packed st ! k" "int k \<in> seen_z st1" "\<exists>t. sym_blob st1 = sym_blob st @ t"
    "\<exists>t. name_blob st1 = name_blob st @ t" "\<exists>t. disc_blob st1 = disc_blob st @ t"
    using Cons.prems(2) by auto
  from Cons.IH [OF s2 one(2)] one show ?case by auto
qed

lemma pack_inv_slot:
  "pack_inv st \<Longrightarrow> k < 119 \<Longrightarrow> packed st ! k = Some r \<Longrightarrow>
   pe_z r = int k \<and> int k \<in> seen_z st \<and> fields_ok r \<and> sym_off r < length (sym_blob st) \<and>
   name_off r < length (name_blob st) \<and> discoverer_off r < length (disc_blob st)"
  proof -
  assume inv: "pack_inv st" and k: "k < 119" and r: "packed st ! k = Some r"
  from inv k have "case packed st ! k of
                     None \<Rightarrow> int k \<notin> seen_z st
                   | Some r \<Rightarrow> pe_z r = int k \<and> int k \<in> seen_z st \<and> fields_ok r \<and>
                       sym_off r < length (sym_blob st) \<and> name_off r < length (name_blob st) \<and>
                       discoverer_off r < length (disc_blob st)"
    unfolding pack_inv_def by blast
  with r show ?thesis by simp
qed

lemma slot_holds_stable:
  assumes "pack_loop st es = Inr st'" "pack_inv st" "slot_holds st z d" "z \<le> 118"
  shows "slot_holds st' z d"
proof -
  from assms(3) obtain r where r: "packed st ! nat z = Some r"
    by (auto simp: slot_holds_def split: option.splits)
  have k: "nat z < 119" using assms(4) by simp
  note slot = pack_inv_slot [OF assms(2) k r]
  have wf: "heap_wf (sym_blob st)" "heap_wf (name_blob st)" "heap_wf (disc_blob st)"
    using assms(2) by (simp_all add: pack_inv_def)
  from pack_loop_stable [OF assms(1)] slot obtain t1 t2 t3 where
    st': "packed st' ! nat z = packed st ! nat z" "sym_blob st' = sym_blob st @ t1"
      "name_blob st' = name_blob st @ t2" "disc_blob st' = disc_blob st @ t3"
    by blast
  from assms(3) slot wf show ?thesis
    by (simp add: slot_holds_def str_read_def st' r read_cstr_extend split: jval.splits)
qed

lemma pack_element_holds:
  assumes "pack_element st (JObj d) = Inr st'" "pack_inv st" "element_number (JObj d) = Inr z" "1 \<le> z" "z \<le> 118"
  shows "slot_holds st' z d"
proof -
  from pack_element_Inr [OF assms(1)] assms(3-5) have
    f: "pack_fields (st\<lparr>seen_z := insert z (seen_z st)\<rparr>) d z = Inr st'" by auto
  from pack_fields_Inr [OF f] obtain r s1 s2 s3 where
    ef: "element_fields d z (length (sym_blob st)) (length (name_blob st)) (length (disc_blob st)) = Inr r" and
    s: "py_get d ''symbol'' (JStr []) = JStr s1" "py_get d ''name'' (JStr []) = JStr s2"
       "py_or (py_get d ''discovered_by'' JNull) (JStr []) = JStr s3" and
    st': "st' = st\<lparr>seen_z := insert z (seen_z st), sym_blob := sym_blob st @ utf8 s1 @ [0],
            name_blob := name_blob st @ utf8 s2 @ [0], disc_blob := disc_blob st @ utf8 s3 @ [0],
            packed := (packed st)[nat z := Some r]\<rparr>" by auto
  have len: "nat z < length (packed st)" using assms(2,5) by (simp add: pack_inv_def)
  from element_fields_Inr [OF ef] len s show ?thesis
    by (simp add: slot_holds_def str_read_def st' read_cstr_append_any)
qed

lemma pack_loop_holds:
  "pack_loop st es = Inr st' \<Longrightarrow> pack_inv st \<Longrightarrow> JObj d \<in> set es \<Longrightarrow>
   element_number (JObj d) = Inr z \<Longrightarrow> 1 \<le> z \<Longrightarrow> z \<le> 118 \<Longrightarrow> slot_holds st' z d"
proof (induction es arbitrary: st)
  case Nil
  then show ?case by simp
next
  case (Cons e es)
  then obtain st1 where s1: "pack_element st e = Inr st1" and s2: "pack_loop st1 es = Inr st'"
    by (auto simp: pybind_eq_Inr)
  have inv1: "pack_inv st1" using pack_element_inv [OF s1 Cons.prems(2)] .
  show ?case
  proof (cases "e = JObj d")
    case True
    with s1 Cons.prems(2,4-6) have "slot_holds st1 z d"
      using pack_element_holds [of st d st1 z] by blast
    from slot_holds_stable [OF s2 inv1 this] Cons.prems(6) show ?thesis by simp
  next
    case False
    with Cons.prems(3) have "JObj d \<in> set es" by simp
    from Cons.IH [OF s2 inv1 this] Cons.prems(4-6) show ?thesis by blast
  qed
qed

lemma pack_main_Inr: "pack_main root_json = Inr st \<Longrightarrow> \<exists>es. pack_loop init_pack es = Inr st"
  by (auto simp: pack_main_def pybind_eq_Inr)

lemmas pack_eval = pack_main_def pack_element_def pack_fields_def element_fields_def init_pack_def
  py_index_def dict_get_def py_get_def add_str_def scale_or_def scale_or_opt_def first_ionization_eV_def
  electron_affinity_eV_def py_or_def map_block_def map_category_def valence_from_shells_def
  oxid_range_def oxid_bias_def year_from_element_def Let_def

section \<open>Properties\<close>

text \<open>
  C15. Slot invariant: when \<open>main\<close> gets through the element list, \<open>packed\<close> has 119
  slots, slot 0 is unused, and every filled slot \<open>k\<close> holds the record whose \<open>z\<close>
  is \<open>k\<close>.
\<close>

theorem pack_slot_invariant:
  assumes "pack_main root_json = Inr st"
  shows "length (packed st) = 119 \<and> packed st ! 0 = None \<and>
         (\<forall>k<119. \<forall>r. packed st ! k = Some r \<longrightarrow> pe_z r = int k)"
proof -
  obtain es where "pack_loop init_pack es = Inr st" using pack_main_Inr [OF assms] by blast
  from pack_loop_inv [OF this pack_inv_init] have inv: "pack_inv st" .
  have "\<forall>k<119. \<forall>r. packed st ! k = Some r \<longrightarrow> pe_z r = int k"
    using pack_inv_slot [OF inv] by blast
  with inv show ?thesis by (simp add: pack_inv_def)
qed

theorem pack_slot_invariant_witness:
  "\<exists>st r. pack_main (JObj [(''elements'', JList [JObj [(''number'', JInt 1), (''symbol'', JStr ''H''),
            (''name'', JStr ''Hydrogen'')]])]) = Inr st \<and> packed st ! 1 = Some r \<and> pe_z r = 1"
proof -
  have "\<exists>st r. pack_main (JObj [(''elements'', JList [JObj [(''number'', JInt 1), (''symbol'', JStr ''H''),
            (''name'', JStr ''Hydrogen'')]])]) = Inr st \<and> packed st ! 1 = Some r"
    by (simp add: pack_eval)
  then obtain st r where h: "pack_main (JObj [(''elements'', JList [JObj [(''number'', JInt 1), (''symbol'', JStr ''H''),
            (''name'', JStr ''Hydrogen'')]])]) = Inr st" "packed st ! 1 = Some r" by blast
  have one: "(1::nat) < 119" by simp
  from pack_slot_invariant [OF h(1)] one h(2) have "pe_z r = int 1" by blast
  with h show ?thesis by auto
qed

text \<open>
  C16. Duplicate keys abort: an element whose atomic number is in range and already
  packed ends the run with \<open>die("Duplicate atomic number z")\<close>.
\<close>

theorem pack_duplicate_dies:
  "element_number e = Inr z \<Longrightarrow> z \<in> seen_z st \<Longrightarrow> 1 \<le> z \<Longrightarrow> z \<le> 118 \<Longrightarrow>
   pack_element st e = Inl (Die (''Duplicate atomic number '' @ int_repr z))"
  by (auto simp: pack_element_def element_number_def split: jval.splits)

theorem pack_duplicate_dies_witness:
  "pack_element (init_pack\<lparr>seen_z := {1}\<rparr>) (JObj [(''number'', JInt 1)])
     = Inl (Die (''Duplicate atomic number '' @ int_repr 1))"
proof -
  have h: "element_number (JObj [(''number'', JInt 1)]) = Inr 1" "(1::int) \<in> seen_z (init_pack\<lparr>seen_z := {1}\<rparr>)"
    "(1::int) \<le> 1" "(1::int) \<le> 118"
    by (simp_all add: element_number_def py_index_def dict_get_def)
  from pack_duplicate_dies [OF h] show ?thesis .
qed

text \<open>
  C17. Unique keys: a run of the loop that does not abort met every in-range atomic
  number at most once, \<open>seen_z\<close> ends as the set of those numbers, and each of them
  has a filled slot.
\<close>

theorem pack_keys_distinct:
  assumes "pack_loop init_pack es = Inr st"
  shows "distinct (valid_numbers es) \<and> seen_z st = set (valid_numbers es) \<and>
         (\<forall>z\<in>set (valid_numbers es). packed st ! nat z \<noteq> None)"
proof -
  from pack_loop_seen [OF assms] have d: "distinct (valid_numbers es)" "seen_z st = set (valid_numbers es)"
    by (simp_all add: init_pack_def)
  from pack_loop_inv [OF assms pack_inv_init] have inv: "pack_inv st" .
  have "packed st ! nat z \<noteq> None" if z: "z \<in> seen_z st" for z
  proof -
    from inv z have "z \<in> {1..118}" by (auto simp: pack_inv_def)
    then have k: "nat z < 119" "int (nat z) = z" by auto
    from inv k(1) have "case packed st ! nat z of None \<Rightarrow> int (nat z) \<notin> seen_z st | Some r \<Rightarrow> True"
      unfolding pack_inv_def by (auto split: option.splits)
    with z k(2) show ?thesis by (auto split: option.splits)
  qed
  with d show ?thesis by simp
qed

theorem pack_keys_distinct_witness:
  "\<exists>st. pack_loop init_pack [JObj [(''number'', JInt 1)], JObj [(''number'', JInt 200)], JObj [(''number'', JInt 2)]] = Inr st
     \<and> seen_z st = {1, 2}"
proof -
  have "\<exists>st. pack_loop init_pack [JObj [(''number'', JInt 1)], JObj [(''number'', JInt 200)], JObj [(''number'', JInt 2)]] = Inr st"
    by (simp add: pack_eval)
  then obtain st where h: "pack_loop init_pack [JObj [(''number'', JInt 1)], JObj [(''number'', JInt 200)], JObj [(''number'', JInt 2)]] = Inr st"
    by blast
  from pack_keys_distinct [OF h] h show ?thesis
    by (auto simp: valid_numbers_def element_number_def py_index_def dict_get_def)
qed

text \<open>
  Out-of-range keys are skipped: an element whose atomic number is below 1 or
  above 118 leaves the state unchanged (the spec calls an out-of-range key fatal; the
  code drops it silently with \<open>continue\<close>).
\<close>

theorem pack_out_of_range_skipped:
  "element_number e = Inr z \<Longrightarrow> z < 1 \<or> 118 < z \<Longrightarrow> pack_element st e = Inr st"
  by (auto simp: pack_element_def element_number_def split: jval.splits)

theorem pack_out_of_range_skipped_witness:
  "pack_element init_pack (JObj [(''number'', JInt 119), (''symbol'', JStr ''Uue'')]) = Inr init_pack"
proof -
  have h: "element_number (JObj [(''number'', JInt 119), (''symbol'', JStr ''Uue'')]) = Inr 119"
    "(119::int) < 1 \<or> 118 < (119::int)"
    by (simp_all add: element_number_def py_index_def dict_get_def)
  from pack_out_of_range_skipped [OF h] show ?thesis .
qed

text \<open>
  C18. Record bounds: every record of a completed run has its scaled fields inside the
  widths the spec declares (density, ionisation energy and electronegativity in
  \<open>u16\<close>, melting and boiling points in \<open>i16\<close>; mass and electron affinity in the
  \<open>u16\<close> range, inside the spec's \<open>u32\<close> for the mass), its
  biased oxidation states in 0..127, its flags 0, and its three string offsets inside
  the heaps they index.
\<close>

theorem pack_records_in_range:
  assumes "pack_loop init_pack es = Inr st" "Some r \<in> set (packed st)"
  shows "fields_ok r \<and> sym_off r < length (sym_blob st) \<and> name_off r < length (name_blob st) \<and>
         discoverer_off r < length (disc_blob st)"
proof -
  from pack_loop_inv [OF assms(1) pack_inv_init] have inv: "pack_inv st" .
  from assms(2) obtain k where k: "k < length (packed st)" "packed st ! k = Some r"
    by (auto simp: in_set_conv_nth)
  from inv k(1) have "k < 119" by (simp add: pack_inv_def)
  from pack_inv_slot [OF inv this k(2)] show ?thesis by simp
qed

theorem pack_records_in_range_witness:
  "\<exists>st r. pack_loop init_pack [JObj [(''number'', JInt 1), (''symbol'', JStr ''H''), (''melt'', JNum 1401 (-2))]] = Inr st
     \<and> packed st ! 1 = Some r \<and> mp_kx100 r = 1401 \<and> fields_ok r \<and> sym_off r < length (sym_blob st)"
proof -
  have "\<exists>st r. pack_loop init_pack [JObj [(''number'', JInt 1), (''symbol'', JStr ''H''), (''melt'', JNum 1401 (-2))]] = Inr st
     \<and> packed st ! 1 = Some r \<and> mp_kx100 r = 1401 \<and> length (packed st) = 119"
    by (simp add: pack_eval numeric_simps py_simps)
  then obtain st r where h: "pack_loop init_pack [JObj [(''number'', JInt 1), (''symbol'', JStr ''H''), (''melt'', JNum 1401 (-2))]] = Inr st"
    "packed st ! 1 = Some r" "mp_kx100 r = 1401" "length (packed st) = 119" by blast
  have "(1::nat) < length (packed st)" using h(4) by simp
  from nth_mem [OF this] h(2) have "Some r \<in> set (packed st)" by simp
  from pack_records_in_range [OF h(1) this] h show ?thesis by blast
qed

text \<open>
  C19. String round trip through the heaps: after a completed run, the record of an
  element with atomic number \<open>z\<close> in range has offsets at which the consumer's
  C-string reader finds exactly the element's symbol, name and discoverer, when none of
  them contains a NUL byte.
\<close>

theorem pack_strings_roundtrip:
  assumes "pack_loop init_pack es = Inr st" "JObj d \<in> set es" "element_number (JObj d) = Inr z"
    "1 \<le> z" "z \<le> 118"
    and "py_get d ''symbol'' (JStr []) = JStr s1" "py_get d ''name'' (JStr []) = JStr s2"
    "py_or (py_get d ''discovered_by'' JNull) (JStr []) = JStr s3"
    and "0 \<notin> set (utf8 s1)" "0 \<notin> set (utf8 s2)" "0 \<notin> set (utf8 s3)"
  shows "\<exists>r. packed st ! nat z = Some r \<and> read_cstr (sym_blob st) (sym_off r) = utf8 s1 \<and>
             read_cstr (name_blob st) (name_off r) = utf8 s2 \<and>
             read_cstr (disc_blob st) (discoverer_off r) = utf8 s3"
proof -
  from pack_loop_holds [OF assms(1) pack_inv_init assms(2-5)] have "slot_holds st z d" .
  with assms(6-11) show ?thesis
    by (auto simp: slot_holds_def str_read_def takeWhile_eq_all_conv split: option.splits)
qed

theorem pack_strings_roundtrip_witness:
  "\<exists>st r. pack_loop init_pack [JObj [(''number'', JInt 1), (''symbol'', JStr ''H''), (''name'', JStr ''Hydrogen'')],
                                 JObj [(''number'', JInt 2), (''symbol'', JStr ''He''), (''name'', JStr ''Helium'')]] = Inr st
     \<and> packed st ! 2 = Some r \<and> read_cstr (sym_blob st) (sym_off r) = utf8 ''He''
     \<and> read_cstr (name_blob st) (name_off r) = utf8 ''Helium''"
proof -
  have "\<exists>st. pack_loop init_pack [JObj [(''number'', JInt 1), (''symbol'', JStr ''H''), (''name'', JStr ''Hydrogen'')],
                                 JObj [(''number'', JInt 2), (''symbol'', JStr ''He''), (''name'', JStr ''Helium'')]] = Inr st"
    by (simp add: pack_eval)
  then obtain st where h: "pack_loop init_pack [JObj [(''number'', JInt 1), (''symbol'', JStr ''H''), (''name'', JStr ''Hydrogen'')],
                                 JObj [(''number'', JInt 2), (''symbol'', JStr ''He''), (''name'', JStr ''Helium'')]] = Inr st"
    by blast
  have hyp: "JObj [(''number'', JInt 2), (''symbol'', JStr ''He''), (''name'', JStr ''Helium'')] \<in>
               set [JObj [(''number'', JInt 1), (''symbol'', JStr ''H''), (''name'', JStr ''Hydrogen'')],
                    JObj [(''number'', JInt 2), (''symbol'', JStr ''He''), (''name'', JStr ''Helium'')]]"
    "element_number (JObj [(''number'', JInt 2), (''symbol'', JStr ''He''), (''name'', JStr ''Helium'')]) = Inr 2"
    "(1::int) \<le> 2" "(2::int) \<le> 118"
    "py_get [(''number'', JInt 2), (''symbol'', JStr ''He''), (''name'', JStr ''Helium'')] ''symbol'' (JStr []) = JStr ''He''"
    "py_get [(''number'', JInt 2), (''symbol'', JStr ''He''), (''name'', JStr ''Helium'')] ''name'' (JStr []) = JStr ''Helium''"
    "py_or (py_get [(''number'', JInt 2), (''symbol'', JStr ''He''), (''name'', JStr ''Helium'')] ''discovered_by'' JNull) (JStr []) = JStr []"
    "0 \<notin> set (utf8 ''He'')" "0 \<notin> set (utf8 ''Helium'')" "0 \<notin> set (utf8 [])"
    by (simp_all add: element_number_def py_index_def py_get_def dict_get_def py_or_def utf8_def)
  from pack_strings_roundtrip [OF h hyp] h show ?thesis by auto
qed

text \<open>
  Group and period are stored as \<open>int()\<close> returns them: nothing clamps them into
  the \<open>u8\<close> fields the spec declares, so a dataset value outside 0..255 (or a
  negative one) is packed as is.
\<close>

theorem pack_group_unclamped:
  assumes "pack_loop init_pack es = Inr st" "JObj d \<in> set es" "element_number (JObj d) = Inr z"
    "1 \<le> z" "z \<le> 118"
  shows "\<exists>r. packed st ! nat z = Some r \<and>
             py_int (py_or (py_get d ''group'' JNull) (JInt 0)) = Inr (pe_group r) \<and>
             py_int (py_or (py_get d ''period'' JNull) (JInt 0)) = Inr (pe_period r)"
proof -
  from pack_loop_holds [OF assms(1) pack_inv_init assms(2-5)] have "slot_holds st z d" .
  then show ?thesis by (auto simp: slot_holds_def split: option.splits)
qed

theorem pack_group_unclamped_witness:
  "\<exists>st r. pack_loop init_pack [JObj [(''number'', JInt 1), (''symbol'', JStr ''H''), (''group'', JInt 300)]] = Inr st
     \<and> packed st ! 1 = Some r \<and> pe_group r = 300"
proof -
  have "\<exists>st. pack_loop init_pack [JObj [(''number'', JInt 1), (''symbol'', JStr ''H''), (''group'', JInt 300)]] = Inr st"
    by (simp add: pack_eval)
  then obtain st where h: "pack_loop init_pack [JObj [(''number'', JInt 1), (''symbol'', JStr ''H''), (''group'', JInt 300)]] = Inr st"
    by blast
  have hyp: "JObj [(''number'', JInt 1), (''symbol'', JStr ''H''), (''group'', JInt 300)] \<in>
               set [JObj [(''number'', JInt 1), (''symbol'', JStr ''H''), (''group'', JInt 300)]]"
    "element_number (JObj [(''number'', JInt 1), (''symbol'', JStr ''H''), (''group'', JInt 300)]) = Inr 1"
    "(1::int) \<le> 1" "(1::int) \<le> 118"
    by (simp_all add: element_number_def py_index_def dict_get_def)
  from pack_group_unclamped [OF h hyp] h show ?thesis
    by (auto simp: py_get_def dict_get_def py_or_def)
qed

end
