(* ===== verification/Pokemon.thy ===== *)
theory Pokemon
  imports EnumMapper Bitmap
begin

text \<open>
  The binary writers of \<open>pokemon_data_converter.py\<close> after the name table:
  \<open>create_pokemon_records\<close> (lines 53--152) with the deduplicated genus and flavour
  tables, \<open>create_index_file\<close> (lines 154--168) and \<open>create_sprite_data\<close>
  (lines 200--232). Each file is the list of its \<open>f.write\<close> chunks, written by
  \<open>PyValue.write_chunks\<close>: an exception inside \<open>with open(...)\<close> leaves the chunks
  written before it. A Pokemon is the JSON value of the simplified dataset; the sprite
  loader (PIL, on the file system) is a parameter \<open>load\<close> giving the dithered pixels
  of a path or \<open>None\<close> when PIL raises.
\<close>

section \<open>Deduplicated string tables (lines 70--85)\<close>

text \<open>\<open>if s not in offsets: offsets[s] = len(strings); strings.append(s)\<close>.\<close>

definition intern :: "'k list \<times> ('k \<times> nat) list \<Rightarrow> 'k \<Rightarrow> 'k list \<times> ('k \<times> nat) list" where
  "intern tbl k =
     (case map_of (snd tbl) k of
        Some _ \<Rightarrow> tbl
      | None \<Rightarrow> (fst tbl @ [k], snd tbl @ [(k, length (fst tbl))]))"

type_synonym strtab = "pykey list \<times> (pykey \<times> nat) list"

text \<open>The first loop of \<open>create_pokemon_records\<close>: genus and flavour of every
  Pokemon, with their defaults, interned in order.\<close>

fun collect_strings :: "strtab \<times> strtab \<Rightarrow> jval list \<Rightarrow> (strtab \<times> strtab) pyres" where
  "collect_strings acc [] = Inr acc"
| "collect_strings (g, f) (p # ps) =
     pybind (jget p ''genus'' (JStr ''Unknown'')) (\<lambda>genus.
     pybind (jget p ''flavor_text'' (JStr ''No description available.'')) (\<lambda>flavor.
     pybind (py_key genus) (\<lambda>gk.
     pybind (py_key flavor) (\<lambda>fk.
       collect_strings (intern g gk, intern f fk) ps))))"

section \<open>The 32-byte record (lines 88--124)\<close>

text \<open>\<open>type_map.get(key, default)\<close>.\<close>

definition type_lookup :: "jval \<Rightarrow> nat \<Rightarrow> nat pyres" where
  "type_lookup key dflt =
     pybind (py_key key) (\<lambda>k.
       Inr (case k of KStr s \<Rightarrow> (case map_of type_map s of Some n \<Rightarrow> n | None \<Rightarrow> dflt) | _ \<Rightarrow> dflt))"

text \<open>\<open>type1\<close> and \<open>type2\<close> (lines 106--108).\<close>

definition type1_of :: "jval \<Rightarrow> nat pyres" where
  "type1_of types =
     pybind (if py_truthy types then py_item types 0 else Inr (JStr ''normal'')) (\<lambda>key. type_lookup key 1)"

definition type2_of :: "jval \<Rightarrow> nat pyres" where
  "type2_of types =
     pybind (py_len types) (\<lambda>n.
     pybind (if 1 < n then py_item types 1 else Inr (JStr [])) (\<lambda>key. type_lookup key 0))"

text \<open>\<open>min(255, stats.get(k, 0))\<close>.\<close>

definition stat_of :: "jval \<Rightarrow> string \<Rightarrow> jval pyres" where
  "stat_of stats k = pybind (jget stats k (JInt 0)) (py_min_const 255)"

text \<open>\<open>genus_offsets[genus]\<close>.\<close>

definition table_index :: "(pykey \<times> nat) list \<Rightarrow> jval \<Rightarrow> nat pyres" where
  "table_index offs v =
     pybind (py_key v) (\<lambda>k. case map_of offs k of Some n \<Rightarrow> Inr n | None \<Rightarrow> Inl KeyError)"

text \<open>\<open>struct.pack('<HHHBBBBBBBBHHLxxxxxxxxxx', ...)\<close>: every argument is checked
  against its format, then the bytes are laid out in order with ten pad bytes.\<close>

definition pack_record ::
  "jval \<Rightarrow> jval \<Rightarrow> jval \<Rightarrow> jval list \<Rightarrow> nat \<Rightarrow> nat \<Rightarrow> nat \<Rightarrow> nat \<Rightarrow> nat \<Rightarrow> byte list pyres" where
  "pack_record poke_id height weight stats t1 t2 goff foff soff =
     pybind (struct_jval 2 poke_id) (\<lambda>b_id.
     pybind (struct_jval 2 height) (\<lambda>b_h.
     pybind (struct_jval 2 weight) (\<lambda>b_w.
     pybind (py_seq (map (struct_jval 1) stats)) (\<lambda>b_st.
     pybind (struct_uint 1 (int t1)) (\<lambda>b_t1.
     pybind (struct_uint 1 (int t2)) (\<lambda>b_t2.
     pybind (struct_uint 2 (int goff)) (\<lambda>b_g.
     pybind (struct_uint 2 (int foff)) (\<lambda>b_f.
     pybind (struct_uint 4 (int soff)) (\<lambda>b_s.
       Inr (b_id @ b_h @ b_w @ concat b_st @ b_t1 @ b_t2 @ b_g @ b_f @ b_s @ replicate 10 0))))))))))"

text \<open>One iteration of the record loop (lines 89--124) for the \<open>i\<close>-th Pokemon.\<close>

definition pokemon_record :: "(pykey \<times> nat) list \<Rightarrow> (pykey \<times> nat) list \<Rightarrow> nat \<Rightarrow> jval \<Rightarrow> byte list pyres" where
  "pokemon_record goffs foffs i p =
     pybind (jindex p ''id'') (\<lambda>poke_id.
     pybind (jget p ''height'' (JInt 0)) (\<lambda>height.
     pybind (jget p ''weight'' (JInt 0)) (\<lambda>weight.
     pybind (jget p ''stats'' (JObj [])) (\<lambda>stats.
     pybind (stat_of stats ''hp'') (\<lambda>hp.
     pybind (stat_of stats ''attack'') (\<lambda>attack.
     pybind (stat_of stats ''defense'') (\<lambda>defense.
     pybind (stat_of stats ''special_attack'') (\<lambda>sp_attack.
     pybind (stat_of stats ''special_defense'') (\<lambda>sp_defense.
     pybind (stat_of stats ''speed'') (\<lambda>speed.
     pybind (jget p ''types'' (JList [])) (\<lambda>types.
     pybind (type1_of types) (\<lambda>type1.
     pybind (type2_of types) (\<lambda>type2.
     pybind (jget p ''genus'' (JStr ''Unknown'')) (\<lambda>genus.
     pybind (jget p ''flavor_text'' (JStr ''No description available.'')) (\<lambda>flavor.
     pybind (table_index goffs genus) (\<lambda>genus_offset.
     pybind (table_index foffs flavor) (\<lambda>flavor_offset.
       pack_record poke_id height weight [hp, attack, defense, sp_attack, sp_defense, speed]
         type1 type2 genus_offset flavor_offset (i * 1024))))))))))))))))))"

section \<open>String files (lines 126--146)\<close>

text \<open>The offset loop: the offset is packed, then \<open>len(s.encode('utf-8'))\<close> raises
  \<open>AttributeError\<close> on a key that is not a string.\<close>

fun key_offset_chunks :: "nat \<Rightarrow> pykey list \<Rightarrow> byte list pyres list" where
  "key_offset_chunks off [] = []"
| "key_offset_chunks off (k # ks) =
     struct_uint 2 (int off) #
       (case k of KStr s \<Rightarrow> key_offset_chunks (off + length (utf8 s) + 1) ks | _ \<Rightarrow> [Inl AttributeError])"

definition strtab_chunks :: "pykey list \<Rightarrow> byte list pyres list" where
  "strtab_chunks ks =
     struct_uint 2 (int (length ks)) # key_offset_chunks 0 ks @
       map (\<lambda>k. case k of KStr s \<Rightarrow> Inr (utf8 s @ [0]) | _ \<Rightarrow> Inl AttributeError) ks"

section \<open>The four writers and main\<close>

type_synonym files = "(string \<times> byte list) list"

text \<open>\<open>pokemon['name'].encode('utf-8')\<close> for every Pokemon (line 40).\<close>

definition names_of :: "jval list \<Rightarrow> string list pyres" where
  "names_of ps =
     py_seq (map (\<lambda>p. pybind (jindex p ''name'') (\<lambda>v. case v of JStr s \<Rightarrow> Inr s | _ \<Rightarrow> Inl AttributeError)) ps)"

definition create_string_table :: "jval list \<Rightarrow> files \<times> pyexc option" where
  "create_string_table ps =
     (case names_of ps of
        Inl e \<Rightarrow> ([], Some e)
      | Inr ns \<Rightarrow>
          (case append_strs [] ns of (data, offs) \<Rightarrow>
             (case write_chunks (table_chunks (length ps) offs data) of
                (w, err) \<Rightarrow> ([(''pokemon_names.str'', w)], err))))"

definition create_pokemon_records :: "jval list \<Rightarrow> files \<times> pyexc option" where
  "create_pokemon_records ps =
     (case collect_strings (([], []), ([], [])) ps of
        Inl e \<Rightarrow> ([], Some e)
      | Inr ((gs, goffs), (fs, foffs)) \<Rightarrow>
          (case write_chunks (map (\<lambda>(i, p). pokemon_record goffs foffs i p) (enumerate 0 ps)) of
             (w1, Some e) \<Rightarrow> ([(''pokemon_data.rec'', w1)], Some e)
           | (w1, None) \<Rightarrow>
               (case write_chunks (strtab_chunks gs) of
                  (w2, Some e) \<Rightarrow> ([(''pokemon_data.rec'', w1), (''pokemon_genus.str'', w2)], Some e)
                | (w2, None) \<Rightarrow>
                    (case write_chunks (strtab_chunks fs) of
                       (w3, err) \<Rightarrow>
                         ([(''pokemon_data.rec'', w1), (''pokemon_genus.str'', w2),
                           (''pokemon_flavor.str'', w3)], err)))))"

definition index_entry :: "nat \<Rightarrow> jval \<Rightarrow> byte list pyres" where
  "index_entry i p =
     pybind (jindex p ''id'') (\<lambda>poke_id.
     pybind (struct_jval 2 poke_id) (\<lambda>a.
     pybind (struct_uint 4 (int (i * 32))) (\<lambda>b. Inr (a @ b))))"

definition create_index_file :: "jval list \<Rightarrow> files \<times> pyexc option" where
  "create_index_file ps =
     (case write_chunks (struct_uint 2 (int (length ps)) # map (\<lambda>(i, p). index_entry i p) (enumerate 0 ps)) of
        (w, err) \<Rightarrow> ([(''pokemon_index.idx'', w)], err))"

text \<open>The file name of a sprite (lines 211--213): the default of
  \<open>pokemon.get('front_image', f"{pokemon['id']:03d}_front.png")\<close> is evaluated first,
  and \<open>images_dir / front_image\<close> needs a string.\<close>

definition front_image_of :: "jval \<Rightarrow> string pyres" where
  "front_image_of p =
     pybind (pybind (jindex p ''id'') fmt03d) (\<lambda>id3.
     pybind (jget p ''front_image'' (JStr (id3 @ ''_front.png''))) (\<lambda>front.
       case front of JStr fname \<Rightarrow> Inr fname | _ \<Rightarrow> Inl TypeError))"

text \<open>The loop of \<open>create_sprite_data\<close> (lines 208--220) on the sprite data built
  so far: record the offset, convert the sprite, append its length and its bytes.\<close>

fun sprite_loop :: "(string \<Rightarrow> nat list option) \<Rightarrow> byte list \<Rightarrow> jval list \<Rightarrow> (byte list \<times> nat list) pyres" where
  "sprite_loop load data [] = Inr (data, [])"
| "sprite_loop load data (p # ps) =
     pybind (front_image_of p) (\<lambda>fname.
       let bitmap = convert_sprite_to_bitmap (load fname) 64 64 in
       pybind (struct_uint 2 (int (length bitmap))) (\<lambda>hdr.
       pybind (sprite_loop load (data @ hdr @ bitmap) ps) (\<lambda>r.
         Inr (fst r, length data # snd r))))"

definition create_sprite_data :: "(string \<Rightarrow> nat list option) \<Rightarrow> jval list \<Rightarrow> files \<times> pyexc option" where
  "create_sprite_data load ps =
     (case sprite_loop load [] ps of
        Inl e \<Rightarrow> ([], Some e)
      | Inr (data, offs) \<Rightarrow>
          (case write_chunks (struct_uint 2 (int (length ps)) # map (\<lambda>q. struct_uint 4 (int q)) offs @ [Inr data]) of
             (w, err) \<Rightarrow> ([(''pokemon_sprites.bin'', w)], err)))"

text \<open>\<open>main\<close> (lines 234--272): the four writers in order; the first exception is
  caught, printed, and \<open>main\<close> returns 1 with the files written so far.\<close>

definition converter_main :: "(string \<Rightarrow> nat list option) \<Rightarrow> jval list \<Rightarrow> files \<times> int" where
  "converter_main load ps =
     (let steps = [create_string_table, create_pokemon_records, create_index_file, create_sprite_data load];
          run = foldl (\<lambda>(fs, err) step. if err \<noteq> None then (fs, err)
                                         else case step ps of (fs', err') \<Rightarrow> (fs @ fs', err'))
                      ([], None) steps
      in (fst run, if snd run = None then 0 else 1))"

text \<open>\<open>load_pokemon_data\<close> (lines 21--28): \<open>json.load\<close> of the data file, which must
  exist; \<open>json_load\<close> is the parse of a path (an \<open>Inl\<close> for malformed JSON).\<close>

definition pokemon_data_file :: string where
  "pokemon_data_file = ''pokemon_data/data/pokemon_simplified.json''"

definition load_pokemon_data :: "(string \<Rightarrow> bool) \<Rightarrow> (string \<Rightarrow> jval pyres) \<Rightarrow> jval pyres" where
  "load_pokemon_data exists json_load =
     (if \<not> exists pokemon_data_file then Inl FileNotFoundError else json_load pokemon_data_file)"

text \<open>The whole of \<open>main\<close> (lines 234--274): loading and \<open>len(pokemon_list)\<close> run inside
  the same \<open>try\<close> as the writers, so a missing or malformed data file, or a document
  without a length, makes \<open>main\<close> return 1 before any file is written; the writers
  iterate the document as \<open>for\<close> does.\<close>

definition pokemon_main ::
  "(string \<Rightarrow> bool) \<Rightarrow> (string \<Rightarrow> jval pyres) \<Rightarrow> (string \<Rightarrow> nat list option) \<Rightarrow> files \<times> int" where
  "pokemon_main exists json_load load =
     (case pybind (load_pokemon_data exists json_load) py_iter of
        Inl _ \<Rightarrow> ([], 1)
      | Inr ps \<Rightarrow> converter_main load ps)"

section \<open>The consumer's reading of the files\<close>

text \<open>Sprite \<open>k\<close> of a sprite file as the spec lays it out: the count, the
  \<open>u32\<close> offset table, then at \<open>base + offset\<close> a \<open>u16\<close> length and the bitmap.\<close>

definition decode_sprite :: "byte list \<Rightarrow> nat \<Rightarrow> byte list" where
  "decode_sprite f k =
     (let n = le_nat (take 2 f); base = 2 + 4 * n; off = le_nat (take 4 (drop (2 + 4 * k) f));
          len = le_nat (take 2 (drop (base + off) f))
      in take len (drop (base + off + 2) f))"

section \<open>Lemmas\<close>

lemma pack_record_Inr:
  assumes "pack_record pid h w st t1 t2 g f soff = Inr b" "length st = 6"
  shows "length b = 32 \<and> (\<exists>bid. struct_jval 2 pid = Inr bid \<and> take 2 b = bid) \<and>
         take 2 (drop 14 b) = le_bytes 2 g \<and> g < 65536 \<and> take 4 (drop 18 b) = le_bytes 4 soff \<and> soff < 2 ^ 32"
proof -
  from assms(1) obtain bid bh bw bst bt1 bt2 bg bf bs where
    c: "struct_jval 2 pid = Inr bid" "struct_jval 2 h = Inr bh" "struct_jval 2 w = Inr bw"
       "py_seq (map (struct_jval 1) st) = Inr bst" "struct_uint 1 (int t1) = Inr bt1" "struct_uint 1 (int t2) = Inr bt2"
       "struct_uint 2 (int g) = Inr bg" "struct_uint 2 (int f) = Inr bf" "struct_uint 4 (int soff) = Inr bs"
       and b: "b = bid @ bh @ bw @ concat bst @ bt1 @ bt2 @ bg @ bf @ bs @ replicate 10 0"
    unfolding pack_record_def by (auto simp: pybind_eq_Inr)
  from py_seq_Inr [OF c(4)] assms(2) have bst6: "length bst = 6"
    and each: "\<forall>i<6. struct_jval 1 (st ! i) = Inr (bst ! i)" by auto
  have "\<forall>x\<in>set bst. length x = 1"
  proof
    fix x assume "x \<in> set bst"
    then obtain i where "i < 6" "x = bst ! i" using bst6 by (auto simp: in_set_conv_nth)
    with each show "length x = 1" by (auto dest: length_struct_jval)
  qed
  note bst = bst6 this
  have "length (concat bst) = 6" using bst length_concat_fixed [of bst 1] by simp
  moreover have l: "length bid = 2" "length bh = 2" "length bw = 2" "length bt1 = 1" "length bt2 = 1"
    "length bg = 2" "length bf = 2" "length bs = 4"
    using c by (auto dest: length_struct_jval length_struct_uint)
  moreover have "bg = le_bytes 2 g" "g < 65536" "bs = le_bytes 4 soff" "soff < 2 ^ 32"
    using c(7,9) by (auto simp: struct_uint_def split: if_splits)
  ultimately show ?thesis using c(1) b by simp
qed

lemma pokemon_record_Inr:
  assumes "pokemon_record goffs foffs i p = Inr b"
  shows "length b = 32 \<and> (\<exists>pid bid. jindex p ''id'' = Inr pid \<and> struct_jval 2 pid = Inr bid \<and> take 2 b = bid) \<and>
         (\<exists>gen j. jget p ''genus'' (JStr ''Unknown'') = Inr gen \<and> table_index goffs gen = Inr j \<and>
                  take 2 (drop 14 b) = le_bytes 2 j \<and> j < 65536) \<and>
         take 4 (drop 18 b) = le_bytes 4 (i * 1024) \<and> i * 1024 < 2 ^ 32"
proof -
  from assms obtain pid h w st t1 t2 gen j fj where
    c: "jindex p ''id'' = Inr pid" "jget p ''genus'' (JStr ''Unknown'') = Inr gen" "table_index goffs gen = Inr j"
    and pr: "pack_record pid h w st t1 t2 j fj (i * 1024) = Inr b" "length st = 6"
    unfolding pokemon_record_def by (auto simp: pybind_eq_Inr)
  from pack_record_Inr [OF pr] c show ?thesis by blast
qed

lemma index_entry_Inr:
  "index_entry i p = Inr b \<Longrightarrow>
   \<exists>pid bid. jindex p ''id'' = Inr pid \<and> struct_jval 2 pid = Inr bid \<and> b = bid @ le_bytes 4 (i * 32) \<and> i * 32 < 2 ^ 32"
  unfolding index_entry_def by (auto simp: pybind_eq_Inr struct_uint_def nat_mult_distrib split: if_splits)

lemma create_pokemon_records_None:
  "create_pokemon_records ps = (fs, None) \<Longrightarrow>
   \<exists>gs goffs fls foffs rec gf ff.
     collect_strings (([], []), ([], [])) ps = Inr ((gs, goffs), (fls, foffs)) \<and>
     write_chunks (map (\<lambda>(i, p). pokemon_record goffs foffs i p) (enumerate 0 ps)) = (rec, None) \<and>
     write_chunks (strtab_chunks gs) = (gf, None) \<and> write_chunks (strtab_chunks fls) = (ff, None) \<and>
     fs = [(''pokemon_data.rec'', rec), (''pokemon_genus.str'', gf), (''pokemon_flavor.str'', ff)]"
  by (auto simp: create_pokemon_records_def split: sum.splits prod.splits option.splits)

lemma records_file:
  assumes "write_chunks (map (\<lambda>(i, p). pokemon_record goffs foffs i p) (enumerate 0 ps)) = (rec, None)"
  shows "length rec = 32 * length ps \<and>
         (\<forall>k<length ps. \<exists>b. pokemon_record goffs foffs k (ps ! k) = Inr b \<and> take 32 (drop (32 * k) rec) = b)"
proof -
  let ?cs = "map (\<lambda>(i, p). pokemon_record goffs foffs i p) (enumerate 0 ps)"
  from write_chunks_None [OF assms] have ok: "list_all (\<lambda>c. \<not> isl c) ?cs" and rec: "rec = concat (map projr ?cs)"
    by auto
  have chunk: "?cs ! k = Inr (map projr ?cs ! k)" if "k < length ps" for k
    using ok that by (auto simp: list_all_length)
  have len: "\<forall>b\<in>set (map projr ?cs). length b = 32"
  proof
    fix b assume "b \<in> set (map projr ?cs)"
    then obtain k where k: "k < length ps" "b = map projr ?cs ! k" by (auto simp: in_set_conv_nth)
    with chunk [OF k(1)] have "pokemon_record goffs foffs k (ps ! k) = Inr b" by (simp add: nth_enumerate_eq)
    from pokemon_record_Inr [OF this] show "length b = 32" by simp
  qed
  have "length rec = 32 * length ps" using length_concat_fixed [OF len] rec by simp
  moreover have "\<exists>b. pokemon_record goffs foffs k (ps ! k) = Inr b \<and> take 32 (drop (32 * k) rec) = b"
    if k: "k < length ps" for k
    using chunk [OF k] take_drop_concat_fixed [OF len, of k "[]"] k rec by (simp add: nth_enumerate_eq)
  ultimately show ?thesis by blast
qed

lemma index_file:
  assumes "create_index_file ps = (ix, None)"
  shows "\<exists>idx. ix = [(''pokemon_index.idx'', idx)] \<and> le_nat (take 2 idx) = length ps \<and> length idx = 2 + 6 * length ps \<and>
         (\<forall>k<length ps. \<exists>b. index_entry k (ps ! k) = Inr b \<and> take 6 (drop (2 + 6 * k) idx) = b)"
proof -
  let ?cs = "map (\<lambda>(i, p). index_entry i p) (enumerate 0 ps)"
  from assms obtain idx where ix: "ix = [(''pokemon_index.idx'', idx)]"
    and w: "write_chunks (struct_uint 2 (int (length ps)) # ?cs) = (idx, None)"
    by (auto simp: create_index_file_def split: prod.splits)
  from write_chunks_None [OF w] obtain c where c: "struct_uint 2 (int (length ps)) = Inr c"
    and ok: "list_all (\<lambda>c. \<not> isl c) ?cs" and idx: "idx = c @ concat (map projr ?cs)"
    by (cases "struct_uint 2 (int (length ps))") auto
  have c2: "length c = 2" "le_nat c = length ps" using c length_struct_uint le_nat_struct_uint by fastforce+
  have chunk: "?cs ! k = Inr (map projr ?cs ! k)" if "k < length ps" for k
    using ok that by (auto simp: list_all_length)
  have len: "\<forall>b\<in>set (map projr ?cs). length b = 6"
  proof
    fix b assume "b \<in> set (map projr ?cs)"
    then obtain k where k: "k < length ps" "b = map projr ?cs ! k" by (auto simp: in_set_conv_nth)
    with chunk [OF k(1)] have "index_entry k (ps ! k) = Inr b" by (simp add: nth_enumerate_eq)
    from index_entry_Inr [OF this] show "length b = 6" by (auto dest: length_struct_jval)
  qed
  have "take 6 (drop (2 + 6 * k) idx) = map projr ?cs ! k" if "k < length ps" for k
    using take_drop_concat_fixed [OF len, of k "[]"] that idx c2 by simp
  with chunk have "\<forall>k<length ps. \<exists>b. index_entry k (ps ! k) = Inr b \<and> take 6 (drop (2 + 6 * k) idx) = b"
    by (auto simp: nth_enumerate_eq)
  moreover have "length idx = 2 + 6 * length ps" using length_concat_fixed [OF len] idx c2 by simp
  ultimately show ?thesis using ix idx c2 by simp
qed

lemma length_convert_64 [simp]: "length (convert_sprite_to_bitmap img 64 64) = 512"
  by (cases img) (simp_all add: convert_sprite_to_bitmap_def row_bytes_def)

lemma sprite_loop_Inr:
  "sprite_loop load data ps = Inr (d, offs) \<Longrightarrow>
   length offs = length ps \<and> length d = length data + 514 * length ps \<and> take (length data) d = data \<and>
   (\<forall>k<length ps. offs ! k = length data + 514 * k \<and>
      (\<exists>fname. front_image_of (ps ! k) = Inr fname \<and>
         take 514 (drop (offs ! k) d) = le_bytes 2 512 @ convert_sprite_to_bitmap (load fname) 64 64))"
proof (induction ps arbitrary: data offs)
  case Nil
  then show ?case by simp
next
  case (Cons p ps)
  have hdr: "struct_uint 2 512 = Inr (le_bytes 2 512)" by (simp add: struct_uint_def)
  from Cons.prems obtain fname offs' where
    f: "front_image_of p = Inr fname" and
    r: "sprite_loop load (data @ le_bytes 2 512 @ convert_sprite_to_bitmap (load fname) 64 64) ps = Inr (d, offs')"
    and o: "offs = length data # offs'"
    by (auto simp: pybind_eq_Inr hdr Let_def)
  let ?data' = "data @ le_bytes 2 512 @ convert_sprite_to_bitmap (load fname) 64 64"
  note IH = Cons.IH [OF r]
  have ld: "length ?data' = length data + 514" by simp
  have pre: "take (length data) d = data"
  proof -
    have "take (length data) d = take (length data) (take (length ?data') d)" by (simp add: ld)
    also have "\<dots> = data" using IH by simp
    finally show ?thesis .
  qed
  have first: "take 514 (drop (length data) d) = le_bytes 2 512 @ convert_sprite_to_bitmap (load fname) 64 64"
  proof -
    have "take 514 (drop (length data) d) = drop (length data) (take (514 + length data) d)"
      by (rule take_drop)
    also have "\<dots> = drop (length data) (take (length ?data') d)" by (simp add: ld add.commute)
    also have "\<dots> = le_bytes 2 512 @ convert_sprite_to_bitmap (load fname) 64 64" using IH by simp
    finally show ?thesis .
  qed
  have rest: "offs ! k = length data + 514 * k \<and>
      (\<exists>fname. front_image_of ((p # ps) ! k) = Inr fname \<and>
         take 514 (drop (offs ! k) d) = le_bytes 2 512 @ convert_sprite_to_bitmap (load fname) 64 64)"
    if k: "k < length (p # ps)" for k
  proof (cases k)
    case 0
    have ok: "offs ! k = length data" using 0 o by simp
    show ?thesis
    proof
      show "offs ! k = length data + 514 * k" using ok 0 by simp
      show "\<exists>fname. front_image_of ((p # ps) ! k) = Inr fname \<and>
         take 514 (drop (offs ! k) d) = le_bytes 2 512 @ convert_sprite_to_bitmap (load fname) 64 64"
        using f first ok 0 by (intro exI [of _ fname]) (simp only: nth_Cons_0 conj_absorb simp_thms)
    qed
  next
    case (Suc j)
    with k have j: "j < length ps" by simp
    have e: "offs ! k = offs' ! j" using Suc o by simp
    note IHj = IH [THEN conjunct2, THEN conjunct2, THEN conjunct2, rule_format, OF j]
    have o': "offs' ! j = length data + 514 + 514 * j" using IHj [THEN conjunct1] by (simp only: ld)
    from IHj [THEN conjunct2] obtain fn where fn: "front_image_of (ps ! j) = Inr fn"
      "take 514 (drop (offs' ! j) d) = le_bytes 2 512 @ convert_sprite_to_bitmap (load fn) 64 64"
      by (elim exE conjE)
    show ?thesis
    proof
      show "offs ! k = length data + 514 * k" using e o' Suc by simp
      show "\<exists>fname. front_image_of ((p # ps) ! k) = Inr fname \<and>
         take 514 (drop (offs ! k) d) = le_bytes 2 512 @ convert_sprite_to_bitmap (load fname) 64 64"
        using fn e Suc by (intro exI [of _ fn]) (simp only: nth_Cons_Suc simp_thms)
    qed
  qed
  show ?case
  proof (intro conjI)
    show "length offs = length (p # ps)" using IH o by simp
    show "length d = length data + 514 * length (p # ps)" using IH ld by simp
    show "take (length data) d = data" by (rule pre)
    show "\<forall>k<length (p # ps). offs ! k = length data + 514 * k \<and>
      (\<exists>fname. front_image_of ((p # ps) ! k) = Inr fname \<and>
         take 514 (drop (offs ! k) d) = le_bytes 2 512 @ convert_sprite_to_bitmap (load fname) 64 64)"
      using rest by blast
  qed
qed

lemma sprite_file:
  assumes "create_sprite_data load ps = (sf, None)"
  shows "\<exists>spr data offs. sf = [(''pokemon_sprites.bin'', spr)] \<and> sprite_loop load [] ps = Inr (data, offs) \<and>
           le_nat (take 2 spr) = length ps \<and>
           (\<forall>k<length ps. le_nat (take 4 (drop (2 + 4 * k) spr)) = offs ! k) \<and>
           drop (2 + 4 * length ps) spr = data"
proof -
  from assms obtain data offs spr where
    l: "sprite_loop load [] ps = Inr (data, offs)" and sf: "sf = [(''pokemon_sprites.bin'', spr)]"
    and w: "write_chunks (struct_uint 2 (int (length ps)) # map (\<lambda>q. struct_uint 4 (int q)) offs @ [Inr data]) = (spr, None)"
    by (auto simp: create_sprite_data_def split: sum.splits prod.splits)
  from sprite_loop_Inr [OF l] have lo: "length offs = length ps" by simp
  from write_chunks_None [OF w] obtain c where c: "struct_uint 2 (int (length ps)) = Inr c"
    and ok: "list_all (\<lambda>c. \<not> isl c) (map (\<lambda>q. struct_uint 4 (int q)) offs)"
    and spr: "spr = c @ concat (map projr (map (\<lambda>q. struct_uint 4 (int q)) offs)) @ data"
    by (cases "struct_uint 2 (int (length ps))") auto
  from struct_u32_chunks [OF ok] have tab: "map projr (map (\<lambda>q. struct_uint 4 (int q)) offs) = map (le_bytes 4) offs"
    and small: "\<forall>q\<in>set offs. q < 2 ^ 32" by auto
  have c2: "length c = 2" "le_nat c = length ps" using c length_struct_uint le_nat_struct_uint by fastforce+
  from spr have spr': "spr = c @ concat (map (le_bytes 4) offs) @ data" by (simp only: tab)
  have len4: "\<forall>b\<in>set (map (le_bytes 4) offs). length b = 4" by auto
  have "le_nat (take 4 (drop (2 + 4 * k) spr)) = offs ! k" if k: "k < length ps" for k
  proof -
    have "take 4 (drop (2 + 4 * k) spr) = take 4 (drop (4 * k) (concat (map (le_bytes 4) offs) @ data))"
      using spr' c2 by simp
    also have "\<dots> = le_bytes 4 (offs ! k)" using take_drop_concat_fixed [OF len4, of k data] k lo by simp
    finally show ?thesis using small k lo by simp
  qed
  moreover have "drop (2 + 4 * length ps) spr = data"
    using spr' c2 length_concat_fixed [OF len4] lo by simp
  ultimately show ?thesis using sf l c2 spr' by auto
qed

section \<open>Properties\<close>

text \<open>
  C20. Index to record: when the record and index writers both complete, index entry
  \<open>k\<close> carries the same id bytes as record \<open>k\<close> of the record file and the
  record offset \<open>32 * k\<close>, which is where record \<open>k\<close> starts: the index is a
  faithful lookup table for the 32-byte records.
\<close>

theorem index_points_to_record:
  assumes "create_pokemon_records ps = (fs, None)" "create_index_file ps = (ix, None)" "k < length ps"
  shows "\<exists>rec idx. fs ! 0 = (''pokemon_data.rec'', rec) \<and> ix = [(''pokemon_index.idx'', idx)] \<and>
           length rec = 32 * length ps \<and> le_nat (take 2 idx) = length ps \<and>
           take 2 (drop (2 + 6 * k) idx) = take 2 (drop (32 * k) rec) \<and>
           le_nat (take 4 (drop (4 + 6 * k) idx)) = 32 * k"
proof -
  from create_pokemon_records_None [OF assms(1)] obtain goffs foffs rec where
    fs: "fs ! 0 = (''pokemon_data.rec'', rec)" and
    w: "write_chunks (map (\<lambda>(i, p). pokemon_record goffs foffs i p) (enumerate 0 ps)) = (rec, None)"
    by auto
  from records_file [OF w] assms(3) obtain b where
    lr: "length rec = 32 * length ps" and pr: "pokemon_record goffs foffs k (ps ! k) = Inr b"
    and rb: "take 32 (drop (32 * k) rec) = b" by blast
  from pokemon_record_Inr [OF pr] obtain pid bid where
    r: "jindex (ps ! k) ''id'' = Inr pid" "struct_jval 2 pid = Inr bid" "take 2 b = bid" by blast
  from index_file [OF assms(2)] assms(3) obtain idx e where
    ix: "ix = [(''pokemon_index.idx'', idx)]" "le_nat (take 2 idx) = length ps"
    and ie: "index_entry k (ps ! k) = Inr e" "take 6 (drop (2 + 6 * k) idx) = e" by blast
  from index_entry_Inr [OF ie(1)] r(1,2) have e: "e = bid @ le_bytes 4 (k * 32)" "k * 32 < 2 ^ 32" by auto
  have "take 2 (drop (2 + 6 * k) idx) = take 2 (take 6 (drop (2 + 6 * k) idx))" by simp
  also have "\<dots> = bid" using ie(2) e r(2) by (simp add: length_struct_jval)
  also have "\<dots> = take 2 (take 32 (drop (32 * k) rec))" using rb r(3) by simp
  also have "\<dots> = take 2 (drop (32 * k) rec)" by simp
  finally have id: "take 2 (drop (2 + 6 * k) idx) = take 2 (drop (32 * k) rec)" .
  have four: "(2::nat) + (2 + 6 * k) = 4 + 6 * k" by simp
  have "take 4 (drop (4 + 6 * k) idx) = take 4 (drop 2 (drop (2 + 6 * k) idx))"
    by (simp only: drop_drop four)
  also have "\<dots> = drop 2 (take 6 (drop (2 + 6 * k) idx))" by (simp only: take_drop) simp
  also have "\<dots> = le_bytes 4 (k * 32)" using ie(2) e r(2) by (simp add: length_struct_jval)
  finally have "le_nat (take 4 (drop (4 + 6 * k) idx)) = 32 * k" using e(2) by simp
  with fs lr ix id show ?thesis by blast
qed


theorem index_points_to_record_witness:
  "\<exists>rec idx. fst (create_pokemon_records [JObj [(''id'', JInt 1)], JObj [(''id'', JInt 4)]]) ! 0 = (''pokemon_data.rec'', rec) \<and>
     fst (create_index_file [JObj [(''id'', JInt 1)], JObj [(''id'', JInt 4)]]) = [(''pokemon_index.idx'', idx)] \<and>
     take 2 (drop 8 idx) = take 2 (drop 32 rec) \<and> le_nat (take 4 (drop 10 idx)) = 32"
proof -
  have "snd (create_pokemon_records [JObj [(''id'', JInt 1)], JObj [(''id'', JInt 4)]]) = None" "snd (create_index_file [JObj [(''id'', JInt 1)], JObj [(''id'', JInt 4)]]) = None" by code_simp+
  then have h: "create_pokemon_records [JObj [(''id'', JInt 1)], JObj [(''id'', JInt 4)]] = (fst (create_pokemon_records [JObj [(''id'', JInt 1)], JObj [(''id'', JInt 4)]]), None)"
    "create_index_file [JObj [(''id'', JInt 1)], JObj [(''id'', JInt 4)]] = (fst (create_index_file [JObj [(''id'', JInt 1)], JObj [(''id'', JInt 4)]]), None)" "1 < length [JObj [(''id'', JInt 1)], JObj [(''id'', JInt 4)]]"
    by (metis prod.collapse, metis prod.collapse, simp)
  from index_points_to_record [OF h] show ?thesis by auto
qed

text \<open>
  C21. Sprite offsets disagree: when the record and sprite writers both complete,
  record \<open>k\<close> stores \<open>sprite_offset = 1024 * k\<close> (the placeholder of line 116)
  while the sprite file's offset table holds \<open>514 * k\<close> for sprite \<open>k\<close> (a 2-byte
  length and a 512-byte 64 x 64 bitmap per sprite): from the second Pokemon on, the
  record points at the wrong bytes.
\<close>

theorem sprite_offset_mismatch:
  assumes "create_pokemon_records ps = (fs, None)" "create_sprite_data load ps = (sf, None)" "k < length ps"
  shows "\<exists>rec spr. fs ! 0 = (''pokemon_data.rec'', rec) \<and> sf = [(''pokemon_sprites.bin'', spr)] \<and>
           le_nat (take 4 (drop (32 * k + 18) rec)) = 1024 * k \<and>
           le_nat (take 4 (drop (2 + 4 * k) spr)) = 514 * k"
proof -
  from create_pokemon_records_None [OF assms(1)] obtain goffs foffs rec where
    fs: "fs ! 0 = (''pokemon_data.rec'', rec)" and
    w: "write_chunks (map (\<lambda>(i, p). pokemon_record goffs foffs i p) (enumerate 0 ps)) = (rec, None)"
    by auto
  from records_file [OF w] assms(3) obtain b where
    pr: "pokemon_record goffs foffs k (ps ! k) = Inr b" and rb: "take 32 (drop (32 * k) rec) = b" by blast
  from pokemon_record_Inr [OF pr] have b: "take 4 (drop 18 b) = le_bytes 4 (k * 1024)" "k * 1024 < 2 ^ 32" by auto
  have eq: "(18::nat) + 32 * k = 32 * k + 18" by simp
  have "take 4 (drop (32 * k + 18) rec) = take 4 (drop 18 (drop (32 * k) rec))" by (simp only: drop_drop eq)
  also have "\<dots> = take 4 (drop 18 (take 32 (drop (32 * k) rec)))" by (simp add: take_drop_take)
  also have "\<dots> = le_bytes 4 (k * 1024)" using rb b by simp
  finally have r: "le_nat (take 4 (drop (32 * k + 18) rec)) = 1024 * k" using b(2) by simp
  from sprite_file [OF assms(2)] obtain spr data offs where
    s: "sf = [(''pokemon_sprites.bin'', spr)]" "sprite_loop load [] ps = Inr (data, offs)"
       "le_nat (take 4 (drop (2 + 4 * k) spr)) = offs ! k" using assms(3) by blast
  from sprite_loop_Inr [OF s(2)] assms(3) have "offs ! k = 514 * k" by simp
  with fs r s show ?thesis by auto
qed


theorem sprite_offset_mismatch_witness:
  "\<exists>rec spr. fst (create_pokemon_records [JObj [(''id'', JInt 1)], JObj [(''id'', JInt 4)]]) ! 0 = (''pokemon_data.rec'', rec) \<and>
     fst (create_sprite_data (\<lambda>_. None) [JObj [(''id'', JInt 1)], JObj [(''id'', JInt 4)]]) = [(''pokemon_sprites.bin'', spr)] \<and>
     le_nat (take 4 (drop 50 rec)) = 1024 \<and> le_nat (take 4 (drop 6 spr)) = 514"
proof -
  have "snd (create_pokemon_records [JObj [(''id'', JInt 1)], JObj [(''id'', JInt 4)]]) = None" "snd (create_sprite_data (\<lambda>_. None) [JObj [(''id'', JInt 1)], JObj [(''id'', JInt 4)]]) = None" by code_simp+
  then have h: "create_pokemon_records [JObj [(''id'', JInt 1)], JObj [(''id'', JInt 4)]] = (fst (create_pokemon_records [JObj [(''id'', JInt 1)], JObj [(''id'', JInt 4)]]), None)"
    "create_sprite_data (\<lambda>_. None) [JObj [(''id'', JInt 1)], JObj [(''id'', JInt 4)]] = (fst (create_sprite_data (\<lambda>_. None) [JObj [(''id'', JInt 1)], JObj [(''id'', JInt 4)]]), None)" "1 < length [JObj [(''id'', JInt 1)], JObj [(''id'', JInt 4)]]"
    by (metis prod.collapse, metis prod.collapse, simp)
  from sprite_offset_mismatch [OF h] show ?thesis by simp
qed

text \<open>
  C22. Sprite round trip: when the sprite writer completes, the consumer's reading of
  sprite \<open>k\<close> (offset table, then length and bitmap) returns exactly the bitmap
  \<open>convert_sprite_to_bitmap\<close> produced for that Pokemon's image file.
\<close>

theorem sprite_roundtrip:
  assumes "create_sprite_data load ps = (sf, None)" "k < length ps" "front_image_of (ps ! k) = Inr fname"
  shows "\<exists>spr. sf = [(''pokemon_sprites.bin'', spr)] \<and>
               decode_sprite spr k = convert_sprite_to_bitmap (load fname) 64 64"
proof -
  from sprite_file [OF assms(1)] assms(2) obtain spr data offs where
    s: "sf = [(''pokemon_sprites.bin'', spr)]" "sprite_loop load [] ps = Inr (data, offs)"
       "le_nat (take 2 spr) = length ps" "le_nat (take 4 (drop (2 + 4 * k) spr)) = offs ! k"
       "drop (2 + 4 * length ps) spr = data" by blast
  from sprite_loop_Inr [OF s(2)] assms(2,3) have
    ent: "take 514 (drop (offs ! k) data) = le_bytes 2 512 @ convert_sprite_to_bitmap (load fname) 64 64"
    by auto
  let ?e = "drop (offs ! k) data"
  have eq: "offs ! k + (2 + 4 * length ps) = 2 + 4 * length ps + offs ! k" by simp
  have at: "drop (2 + 4 * length ps + offs ! k) spr = ?e"
    by (simp only: s(5) [symmetric] drop_drop eq)
  have "take 2 ?e = take 2 (take 514 ?e)" by simp
  also have "\<dots> = le_bytes 2 512" using ent by simp
  finally have len: "le_nat (take 2 ?e) = 512" by simp
  have "take 512 (drop 2 ?e) = drop 2 (take 514 ?e)" by (simp add: take_drop)
  also have "\<dots> = convert_sprite_to_bitmap (load fname) 64 64" using ent by simp
  finally have bm: "take 512 (drop 2 ?e) = convert_sprite_to_bitmap (load fname) 64 64" .
  have "2 + (2 + 4 * length ps + offs ! k) = 2 + 4 * length ps + offs ! k + 2" by simp
  then have dd: "drop (2 + 4 * length ps + offs ! k + 2) spr = drop 2 ?e"
    by (simp only: at [symmetric] drop_drop)
  have "decode_sprite spr k = take (le_nat (take 2 ?e)) (drop 2 ?e)"
    unfolding decode_sprite_def Let_def s(3) s(4) by (simp only: at dd)
  then have "decode_sprite spr k = take 512 (drop 2 ?e)" by (simp only: len)
  with bm s(1) show ?thesis by simp
qed

theorem sprite_roundtrip_witness:
  "\<exists>spr. fst (create_sprite_data (\<lambda>_. None) [JObj [(''id'', JInt 1)], JObj [(''id'', JInt 4)]]) = [(''pokemon_sprites.bin'', spr)] \<and>
     decode_sprite spr 1 = convert_sprite_to_bitmap None 64 64"
proof -
  have "snd (create_sprite_data (\<lambda>_. None) [JObj [(''id'', JInt 1)], JObj [(''id'', JInt 4)]]) = None" "front_image_of ([JObj [(''id'', JInt 1)], JObj [(''id'', JInt 4)]] ! 1) = Inr ''004_front.png''"
    by code_simp+
  then have h: "create_sprite_data (\<lambda>_. None) [JObj [(''id'', JInt 1)], JObj [(''id'', JInt 4)]] = (fst (create_sprite_data (\<lambda>_. None) [JObj [(''id'', JInt 1)], JObj [(''id'', JInt 4)]]), None)" "1 < length [JObj [(''id'', JInt 1)], JObj [(''id'', JInt 4)]]"
    "front_image_of ([JObj [(''id'', JInt 1)], JObj [(''id'', JInt 4)]] ! 1) = Inr ''004_front.png''"
    by (metis prod.collapse, simp, simp)
  from sprite_roundtrip [OF h] show ?thesis by simp
qed

end
