(* ===== verification/PyRegex.thy ===== *)
theory PyRegex
  imports PyValue
begin

text \<open>
  The part of Python's \<open>re\<close> module the emulator scripts use: \<open>re.search\<close> and
  \<open>re.sub\<close> on patterns made of literal characters, character classes, repetitions
  of one class (\<open>*\<close>, \<open>+\<close>, \<open>{n,}\<close>, greedy or lazy \<open>*?\<close>), \<open>\b\<close>, \<open>$\<close>
  and capturing groups, with Python's backtracking, leftmost-first semantics. A pattern
  is a list of items (\<open>ritem\<close>); every pattern of the scripts is written out item by
  item next to the function that uses it. Strings are UTF-8 byte strings: \<open>\s\<close> is
  the ASCII whitespace of \<open>str.isspace\<close> and \<open>\w\<close> is \<open>[A-Za-z0-9_]\<close> or a
  non-ASCII byte (the multi-byte Unicode spaces and non-letter symbols are not told
  apart).
\<close>

section \<open>Patterns\<close>

datatype ritem =
    RLit char
  | RCls "char \<Rightarrow> bool"
  | RRep "char \<Rightarrow> bool" nat "nat option" bool
  | RWordB
  | REnd
  | ROpen nat
  | RClose nat

text \<open>\<open>RRep P lo hi greedy\<close>: between \<open>lo\<close> and \<open>hi\<close> (unbounded for \<open>None\<close>)
  characters of class \<open>P\<close>, longest first when \<open>greedy\<close>, shortest first otherwise.\<close>

definition lits :: "string \<Rightarrow> ritem list" where
  "lits s = map RLit s"

definition is_word_char :: "char \<Rightarrow> bool" where
  "is_word_char c =
     (let n = of_char c :: nat in
      (48 \<le> n \<and> n \<le> 57) \<or> (65 \<le> n \<and> n \<le> 90) \<or> (97 \<le> n \<and> n \<le> 122) \<or> n = 95 \<or> 128 \<le> n)"

text \<open>\<open>\s*\<close>, \<open>\s+\<close>, \<open>[^c]*\<close>, \<open>c{n,}\<close>.\<close>

definition ws_star :: ritem where "ws_star = RRep is_py_space 0 None True"
definition ws_plus :: ritem where "ws_plus = RRep is_py_space 1 None True"
definition not_star :: "char \<Rightarrow> ritem" where "not_star c = RRep (\<lambda>x. x \<noteq> c) 0 None True"

section \<open>Matching\<close>

text \<open>The first alternative that succeeds.\<close>

fun first_some :: "'a option list \<Rightarrow> 'a option" where
  "first_some [] = None"
| "first_some (Some x # _) = Some x"
| "first_some (None # xs) = first_some xs"

text \<open>The longest run of class \<open>P\<close> characters from position \<open>i\<close>.\<close>

definition run_len :: "(char \<Rightarrow> bool) \<Rightarrow> string \<Rightarrow> nat \<Rightarrow> nat" where
  "run_len P s i = length (takeWhile P (drop i s))"

definition rep_counts :: "nat \<Rightarrow> nat option \<Rightarrow> bool \<Rightarrow> nat \<Rightarrow> nat list" where
  "rep_counts lo hi greedy n =
     (let m = (case hi of None \<Rightarrow> n | Some h \<Rightarrow> min h n) in
      if greedy then rev [lo..<Suc m] else [lo..<Suc m])"

definition word_boundary :: "string \<Rightarrow> nat \<Rightarrow> bool" where
  "word_boundary s i =
     ((0 < i \<and> i \<le> length s \<and> is_word_char (s ! (i - 1))) \<noteq> (i < length s \<and> is_word_char (s ! i)))"

type_synonym groups = "(nat \<rightharpoonup> nat) \<times> (nat \<rightharpoonup> nat \<times> nat)"

text \<open>\<open>rm s pat i g\<close>: match the items \<open>pat\<close> against \<open>s\<close> from position \<open>i\<close>;
  the end position and the groups of the first successful way, in backtracking order.\<close>

fun rm :: "string \<Rightarrow> ritem list \<Rightarrow> nat \<Rightarrow> groups \<Rightarrow> (nat \<times> groups) option" where
  "rm s [] i g = Some (i, g)"
| "rm s (RLit c # r) i g = (if i < length s \<and> s ! i = c then rm s r (Suc i) g else None)"
| "rm s (RCls P # r) i g = (if i < length s \<and> P (s ! i) then rm s r (Suc i) g else None)"
| "rm s (RRep P lo hi greedy # r) i g =
     first_some (map (\<lambda>k. rm s r (i + k) g) (rep_counts lo hi greedy (run_len P s i)))"
| "rm s (RWordB # r) i g = (if word_boundary s i then rm s r i g else None)"
| "rm s (REnd # r) i g =
     (if i = length s \<or> (Suc i = length s \<and> s ! i = CHR ''\<newline>'') then rm s r i g else None)"
| "rm s (ROpen k # r) i g = rm s r i ((fst g)(k \<mapsto> i), snd g)"
| "rm s (RClose k # r) i g =
     rm s r i (fst g, case fst g k of Some a \<Rightarrow> (snd g)(k \<mapsto> (a, i)) | None \<Rightarrow> snd g)"

text \<open>A match object: start, end, group spans.\<close>

type_synonym rmatch = "nat \<times> nat \<times> (nat \<rightharpoonup> nat \<times> nat)"

text \<open>\<open>pattern.search(s, p)\<close>: the leftmost start \<open>\<ge> p\<close> at which the pattern
  matches.\<close>

definition re_search_from :: "ritem list \<Rightarrow> string \<Rightarrow> nat \<Rightarrow> rmatch option" where
  "re_search_from pat s p =
     first_some (map (\<lambda>i. map_option (\<lambda>r. (i, fst r, snd (snd r))) (rm s pat i (Map.empty, Map.empty)))
                     [p..<Suc (length s)])"

definition re_search :: "ritem list \<Rightarrow> string \<Rightarrow> rmatch option" where
  "re_search pat s = re_search_from pat s 0"

definition m_start :: "rmatch \<Rightarrow> nat" where "m_start m = fst m"
definition m_end :: "rmatch \<Rightarrow> nat" where "m_end m = fst (snd m)"

text \<open>\<open>m.start(k)\<close> and \<open>m.end(k)\<close> of a group that took part in the match.\<close>

definition g_start :: "rmatch \<Rightarrow> nat \<Rightarrow> nat" where
  "g_start m k = (case snd (snd m) k of Some (a, b) \<Rightarrow> a | None \<Rightarrow> 0)"

definition g_end :: "rmatch \<Rightarrow> nat \<Rightarrow> nat" where
  "g_end m k = (case snd (snd m) k of Some (a, b) \<Rightarrow> b | None \<Rightarrow> 0)"

section \<open>Substitution\<close>

text \<open>A replacement template: text and group references \<open>\1\<close>.\<close>

datatype rpart = RText string | RGroup nat

fun expand :: "rpart list \<Rightarrow> string \<Rightarrow> rmatch \<Rightarrow> string" where
  "expand [] s m = []"
| "expand (RText t # ps) s m = t @ expand ps s m"
| "expand (RGroup k # ps) s m =
     (case snd (snd m) k of Some (a, b) \<Rightarrow> take (b - a) (drop a s) | None \<Rightarrow> []) @ expand ps s m"

text \<open>\<open>re.sub\<close> from position \<open>p\<close>: copy up to the next match, emit the
  replacement, continue after the match; after an empty match one character is copied
  before searching again.\<close>

function re_sub_from :: "ritem list \<Rightarrow> rpart list \<Rightarrow> string \<Rightarrow> nat \<Rightarrow> string" where
  "re_sub_from pat rep s p =
     (if length s < p then []
      else case re_search_from pat s p of
        None \<Rightarrow> drop p s
      | Some m \<Rightarrow>
          take (m_start m - p) (drop p s) @ expand rep s m @
          (if m_end m \<le> m_start m then take 1 (drop (m_start m) s) @ re_sub_from pat rep s (Suc (m_start m))
           else re_sub_from pat rep s (m_end m)))"
  by pat_completeness auto
termination
proof (relation "measure (\<lambda>(pat, rep, s, p). Suc (length s) - p)")
  have fs: "first_some (map f xs) = Some y \<Longrightarrow> \<exists>x\<in>set xs. f x = Some y" for f :: "nat \<Rightarrow> 'b option" and xs y
  proof (induction xs)
    case (Cons x xs)
    then show ?case by (cases "f x") auto
  qed simp
  have start: "re_search_from pat s p = Some m \<Longrightarrow> p \<le> m_start m \<and> m_start m \<le> length s" for pat s p m
    unfolding re_search_from_def m_start_def by (drule fs) auto
  show "wf (measure (\<lambda>(pat, rep, s, p). Suc (length s) - p))" by simp
  show "\<And>pat rep s p m. \<not> length s < p \<Longrightarrow> re_search_from pat s p = Some m \<Longrightarrow> m_end m \<le> m_start m \<Longrightarrow>
          ((pat, rep, s, Suc (m_start m)), pat, rep, s, p) \<in> measure (\<lambda>(pat, rep, s, p). Suc (length s) - p)"
    using start by fastforce
  show "\<And>pat rep s p m. \<not> length s < p \<Longrightarrow> re_search_from pat s p = Some m \<Longrightarrow> \<not> m_end m \<le> m_start m \<Longrightarrow>
          ((pat, rep, s, m_end m), pat, rep, s, p) \<in> measure (\<lambda>(pat, rep, s, p). Suc (length s) - p)"
    using start by fastforce
qed

definition re_sub :: "ritem list \<Rightarrow> rpart list \<Rightarrow> string \<Rightarrow> string" where
  "re_sub pat rep s = re_sub_from pat rep s 0"

text \<open>\<open>s.find(c, p)\<close> for one character.\<close>

definition str_find :: "string \<Rightarrow> char \<Rightarrow> nat \<Rightarrow> nat option" where
  "str_find s c p = (case find (\<lambda>i. s ! i = c) [p..<length s] of Some i \<Rightarrow> Some i | None \<Rightarrow> None)"

section \<open>Lemmas\<close>

declare re_sub_from.simps [simp del]

lemma first_some_map_if:
  "first_some (map (\<lambda>i. if Q i then Some (g i) else None) xs) = map_option g (find Q xs)"
  by (induction xs) auto

text \<open>A one-character class matches at the first position holding one of its characters.\<close>

lemma re_search_from_cls:
  "re_search_from [RCls P] s p = map_option (\<lambda>i. (i, Suc i, Map.empty)) (find (\<lambda>i. P (s ! i)) [p..<length s])"
proof -
  have "re_search_from [RCls P] s p =
          first_some (map (\<lambda>i. if i < length s \<and> P (s ! i) then Some (i, Suc i, Map.empty) else None) [p..<Suc (length s)])"
    unfolding re_search_from_def by (rule arg_cong [where f = first_some]) auto
  then show ?thesis by (simp only: first_some_map_if find_upt_Suc_last option.map_comp)
qed

text \<open>\<open>re.sub\<close> of a one-character class by the empty string deletes the class.\<close>

lemma re_sub_from_cls: "re_sub_from [RCls P] [] s p = filter (\<lambda>c. \<not> P c) (drop p s)"
proof (induction "Suc (length s) - p" arbitrary: p rule: less_induct)
  case less
  show ?case
  proof (cases "length s < p")
    case True
    then show ?thesis by (simp add: re_sub_from.simps)
  next
    case False
    note eq = re_sub_from.simps [of "[RCls P]" "[]" s p]
    show ?thesis
    proof (cases "find (\<lambda>i. P (s ! i)) [p..<length s]")
      case None
      then have "filter (\<lambda>c. \<not> P c) (drop p s) = drop p s"
        by (auto simp: find_None_iff filter_id_conv in_set_conv_nth)
      then show ?thesis using False None by (simp add: eq re_search_from_cls)
    next
      case (Some i)
      note f = filter_drop_find_Some [OF Some]
      have "re_sub_from [RCls P] [] s (Suc i) = filter (\<lambda>c. \<not> P c) (drop (Suc i) s)"
        using f by (intro less) auto
      then show ?thesis using False Some f by (simp add: eq re_search_from_cls m_start_def m_end_def)
    qed
  qed
qed

end
