(* ===== verification/AppInstall.thy ===== *)
theory AppInstall
  imports PyRegex "HOL-Library.While_Combinator"
begin

text \<open>
  \<open>src/desktop_emulator/install_app.py\<close>: the conversion of a standalone app's source
  into the emulator-integrated form (\<open>remove_function\<close>, \<open>convert_app_code\<close>) and
  the edits of the emulator's project files (\<open>add_to_globals_h\<close>,
  \<open>add_to_pocketmage_v3\<close>, \<open>add_to_home_commands\<close>, \<open>add_to_applauncher\<close>,
  \<open>add_to_cmake\<close>), each as a function from the file's content to the content written
  back, together with the app-name cleaning of \<open>main\<close>. The app name is
  interpolated into some patterns (\<open>rf'...{app_upper}...'\<close>); it is read literally,
  as Python does for the alphanumeric names \<open>main\<close> produces. Finding the app's
  files and \<open>main\<close> itself are in \<open>InstallMain\<close>.
\<close>

section \<open>Text helpers\<close>

definition is_ascii_alnum :: "char \<Rightarrow> bool" where
  "is_ascii_alnum c =
     (let n = of_char c :: nat in (48 \<le> n \<and> n \<le> 57) \<or> (65 \<le> n \<and> n \<le> 90) \<or> (97 \<le> n \<and> n \<le> 122))"

section \<open>remove_function (lines 72--95)\<close>

text \<open>The brace-counting loop (lines 87--92): from \<open>pos\<close> with \<open>depth\<close> open braces,
  the position after the brace that closes them, or the end of the code.\<close>

function brace_end :: "string \<Rightarrow> nat \<Rightarrow> nat \<Rightarrow> nat" where
  "brace_end code depth pos =
     (if pos < length code \<and> 0 < depth then
        brace_end code
          (if code ! pos = CHR ''{'' then Suc depth else if code ! pos = CHR ''}'' then depth - 1 else depth)
          (Suc pos)
      else pos)"
  by pat_completeness auto
termination
  by (relation "measure (\<lambda>(code, depth, pos). length code - pos)") auto

text \<open>The same loop as Python runs it: a body on the pair \<open>(depth, pos)\<close> iterated by
  \<open>while_option\<close>, which is \<open>None\<close> when the loop does not stop.\<close>

definition brace_step :: "string \<Rightarrow> nat \<times> nat \<Rightarrow> nat \<times> nat" where
  "brace_step code s =
     (let (depth, pos) = s in
      (if code ! pos = CHR ''{'' then Suc depth else if code ! pos = CHR ''}'' then depth - 1 else depth, Suc pos))"

definition brace_loop :: "string \<Rightarrow> nat \<Rightarrow> nat \<Rightarrow> (nat \<times> nat) option" where
  "brace_loop code depth pos =
     while_option (\<lambda>(depth, pos). pos < length code \<and> 0 < depth) (brace_step code) (depth, pos)"

definition removed_marker :: string where
  "removed_marker = nl @ ''// Function removed - handled by main firmware'' @ nl"

definition remove_function :: "string \<Rightarrow> ritem list \<Rightarrow> string" where
  "remove_function code pat =
     (case re_search pat code of
        None \<Rightarrow> code
      | Some m \<Rightarrow>
          (case str_find code CHR ''{'' (m_end m) of
             None \<Rightarrow> code
           | Some brace_start \<Rightarrow>
               take (m_start m) code @ removed_marker @ drop (brace_end code 1 (Suc brace_start)) code))"

section \<open>convert_app_code (lines 98--171)\<close>

text \<open>The patterns of lines 105--127, item by item.\<close>

definition pat_include :: "ritem list" where
  "pat_include = lits ''#include'' @ [ws_star] @ lits ''<pocketmage.h>''"

definition pat_void_fn :: "string \<Rightarrow> ritem list" where
  "pat_void_fn f = [RWordB] @ lits ''void'' @ [ws_plus] @ lits f @ [ws_star, RLit CHR ''('', ws_star, RLit CHR '')'']"

definition pat_reboot :: "ritem list" where
  "pat_reboot = lits ''rebootToPocketMage'' @ [ws_star, RLit CHR ''('', ws_star, RLit CHR '')'', ws_star, RLit CHR '';'']"

definition pat_setup :: "ritem list" where
  "pat_setup = lits ''void'' @ [ws_plus] @ lits ''setup'' @ [ws_star, RLit CHR ''('', ws_star, RLit CHR '')'']"

definition pat_loop :: "ritem list" where
  "pat_loop = lits ''void'' @ [ws_plus] @ lits ''loop'' @ [ws_star, RLit CHR ''('', ws_star, RLit CHR '')'']"

definition pat_eink_task :: "ritem list" where
  "pat_eink_task =
     lits ''void'' @ [ws_plus] @ lits ''einkHandler'' @ [ws_star, RLit CHR ''('', ws_star] @ lits ''void'' @
     [ws_star, RLit CHR ''*'']"

definition pat_banner :: "ritem list" where
  "pat_banner = [RRep (\<lambda>c. c = CHR ''/'') 40 None True, not_star CHR ''/'', RRep (\<lambda>c. c = CHR ''/'') 40 None True]"

definition pat_blank_lines :: "ritem list" where
  "pat_blank_lines = [RRep (\<lambda>c. c = CHR ''\<newline>'') 4 None True]"

definition pat_fn_open :: "string \<Rightarrow> ritem list" where
  "pat_fn_open f = lits ''void'' @ [ws_plus] @ lits f @ [ws_star, RLit CHR ''('']"

text \<open>The generated \<open>APP_INIT\<close> function (lines 139--158).\<close>

definition init_code :: "string \<Rightarrow> bool \<Rightarrow> string" where
  "init_code u has_app_init =
     (if has_app_init then
        nl @ lines [''// Forward declaration for app init'', ''void appInit_'' @ u @ ''();'', [],
                    ''// Auto-generated INIT function'', ''void '' @ u @ ''_INIT() {'',
                    ''    CurrentAppState = '' @ u @ '';'', ''    newState = true;'',
                    ''    appInit_'' @ u @ ''();  // Call app's init function'', ''}'', []]
      else
        nl @ lines [''// Auto-generated INIT function'', ''void '' @ u @ ''_INIT() {'',
                    ''    CurrentAppState = '' @ u @ '';'', ''    newState = true;'', ''}'', []])"

text \<open>Insert \<open>text\<close> at the start of the first match of the first pattern that
  matches (lines 161--168).\<close>

definition insert_before :: "ritem list list \<Rightarrow> string \<Rightarrow> string \<Rightarrow> string" where
  "insert_before pats text code =
     (case first_some (map (\<lambda>p. re_search p code) pats) of
        Some m \<Rightarrow> take (m_start m) code @ text @ drop (m_start m) code
      | None \<Rightarrow> code)"

definition convert_app_code :: "string \<Rightarrow> string \<Rightarrow> string" where
  "convert_app_code source_code app_name =
     (let u = py_upper app_name;
          code = re_sub pat_include [RText ''#include <globals.h>''] source_code;
          code = re_sub (pat_void_fn ''processKB'') [RText (''void processKB_'' @ u @ ''()'')] code;
          code = re_sub (pat_void_fn ''applicationEinkHandler'') [RText (''void einkHandler_'' @ u @ ''()'')] code;
          code = re_sub pat_reboot [RText ''CurrentAppState = HOME; HOME_INIT(); return;''] code;
          code = remove_function code pat_setup;
          code = remove_function code pat_loop;
          code = remove_function code pat_eink_task;
          code = re_sub pat_banner [] code;
          code = re_sub pat_blank_lines [RText (nl @ nl @ nl)] code;
          has = (py_in ''void appInit()'' code \<or> py_in ''void appInit ()'' code);
          code = (if has then py_replace ''appInit();'' (''appInit_'' @ u @ ''();'')
                                (py_replace ''void appInit()'' (''void appInit_'' @ u @ ''()'') code)
                  else code)
      in insert_before [pat_fn_open (''processKB_'' @ u), pat_fn_open (''einkHandler_'' @ u)]
           (init_code u has) code)"

section \<open>The project files\<close>

text \<open>Insert \<open>text\<close> at position \<open>k\<close>.\<close>

definition insert_at :: "nat \<Rightarrow> string \<Rightarrow> string \<Rightarrow> string" where
  "insert_at k text c = take k c @ text @ drop k c"

subsection \<open>add_to_globals_h (lines 174--216)\<close>

definition pat_enum_hello :: "ritem list" where
  "pat_enum_hello =
     [ROpen 1] @ lits ''enum'' @ [ws_plus] @ lits ''AppState'' @ [ws_star, RLit CHR ''{'', not_star CHR ''}'', RClose 1,
      ROpen 2] @ lits ''HELLO'' @ [ws_star, RLit CHR '','', RClose 2]"

definition pat_enum_close :: "ritem list" where
  "pat_enum_close =
     [ROpen 1] @ lits ''enum'' @ [ws_plus] @ lits ''AppState'' @
     [ws_star, RLit CHR ''{'', RRep (\<lambda>c. c \<noteq> CHR ''}'') 0 None False, RClose 1,
      ROpen 2, ws_star, RLit CHR ''}'', RLit CHR '';'', RClose 2]"

definition pat_decl_hello :: "ritem list" where
  "pat_decl_hello =
     [ROpen 1] @ lits ''void'' @ [ws_plus] @ lits ''einkHandler_HELLO'' @
     [ws_star, RLit CHR ''('', ws_star, RLit CHR '')'', ws_star, RLit CHR '';'', RClose 1]"

definition pat_endif :: "ritem list" where
  "pat_endif = [ROpen 1, RLit CHR ''\<newline>''] @ lits ''#endif'' @ [ws_star, RClose 1, REnd]"

definition globals_decl :: "string \<Rightarrow> string" where
  "globals_decl u =
     nl @ lines [''// '' @ u @ '' App'', ''void '' @ u @ ''_INIT();'', ''void processKB_'' @ u @ ''();'',
                 ''void einkHandler_'' @ u @ ''();'']"

definition add_to_globals_h :: "string \<Rightarrow> string \<Rightarrow> string" where
  "add_to_globals_h app_name content =
     (let u = py_upper app_name in
      if py_in (u @ '','') content \<or> py_in (u @ '' '') content then content
      else
        let content =
              (case re_search pat_enum_hello content of
                 Some m \<Rightarrow> insert_at (m_end m) (nl @ ''    '' @ u @ '','') content
               | None \<Rightarrow>
                   (case re_search pat_enum_close content of
                      Some m \<Rightarrow> insert_at (g_start m 2) ('','' @ nl @ ''    '' @ u) content
                    | None \<Rightarrow> content))
        in case re_search pat_decl_hello content of
             Some m \<Rightarrow> insert_at (m_end m) (nl @ globals_decl u) content
           | None \<Rightarrow> re_sub pat_endif [RText (globals_decl u), RGroup 1] content)"

subsection \<open>add_to_pocketmage_v3 (lines 219--254)\<close>

definition pat_case_hello :: "string \<Rightarrow> ritem list" where
  "pat_case_hello f =
     [ROpen 1] @ lits ''case'' @ [ws_plus] @ lits ''HELLO'' @
     [ws_star, RLit CHR '':'', ws_star, RLit CHR ''\<newline>'', ws_star] @ lits (f @ ''_HELLO'') @
     [ws_star, RLit CHR ''('', ws_star, RLit CHR '')'', ws_star, RLit CHR '';'', ws_star, RLit CHR ''\<newline>'', ws_star] @
     lits ''break'' @ [ws_star, RLit CHR '';'', RClose 1]"

definition switch_case :: "string \<Rightarrow> string \<Rightarrow> string" where
  "switch_case f u =
     nl @ ''        case '' @ u @ '':'' @ nl @ ''            '' @ f @ ''_'' @ u @ ''();'' @ nl @ ''            break;''"

definition insert_after_match :: "ritem list \<Rightarrow> string \<Rightarrow> string \<Rightarrow> string" where
  "insert_after_match pat text c = (case re_search pat c of Some m \<Rightarrow> insert_at (m_end m) text c | None \<Rightarrow> c)"

definition add_to_pocketmage_v3 :: "string \<Rightarrow> string \<Rightarrow> string" where
  "add_to_pocketmage_v3 app_name content =
     (let u = py_upper app_name in
      if py_in (''case '' @ u @ '':'') content then content
      else
        let content = insert_after_match (pat_case_hello ''einkHandler'') (nl @ switch_case ''einkHandler'' u) content
        in insert_after_match (pat_case_hello ''processKB'') (nl @ switch_case ''processKB'' u) content)"

subsection \<open>add_to_home_commands (lines 257--304)\<close>

definition pat_home_multi :: "ritem list" where
  "pat_home_multi =
     [ROpen 1] @ lits ''else'' @ [ws_plus] @ lits ''if'' @ [ws_star, RLit CHR ''('', not_star CHR '')''] @
     lits ''\"hello\"'' @ [not_star CHR '')'', RLit CHR '')'', ws_star, RLit CHR ''{'', ws_star, RLit CHR ''\<newline>'', ws_star] @
     lits ''HELLO_INIT'' @ [ws_star, RLit CHR ''('', ws_star, RLit CHR '')'', ws_star, RLit CHR '';'', ws_star,
     RLit CHR ''\<newline>'', ws_star, RLit CHR ''}'', RClose 1]"

definition pat_home_single :: "ritem list" where
  "pat_home_single =
     [ROpen 1] @ lits ''else'' @ [ws_plus] @ lits ''if'' @ [ws_star, RLit CHR ''(''] @ lits ''command'' @
     [ws_star] @ lits ''=='' @ [ws_star] @ lits ''\"hello\")'' @ [ws_star, RLit CHR ''{'', ws_star] @
     lits ''HELLO_INIT'' @ [ws_star, RLit CHR ''('', ws_star, RLit CHR '')'', ws_star, RLit CHR '';'', ws_star,
     RLit CHR ''}'', RClose 1]"

definition pat_home_any :: "ritem list" where
  "pat_home_any =
     lits ''HELLO_INIT'' @ [ws_star, RLit CHR ''('', ws_star, RLit CHR '')'', ws_star, RLit CHR '';'', not_star CHR ''}'',
     RLit CHR ''}'']"

definition home_cmd :: "string \<Rightarrow> string \<Rightarrow> string" where
  "home_cmd u l =
     nl @ ''  /////////////////////////////'' @ nl @ ''  else if (command == \"'' @ l @ ''\") {'' @ nl @
     ''    '' @ u @ ''_INIT();'' @ nl @ ''  }''"

definition add_to_home_commands :: "string \<Rightarrow> string \<Rightarrow> string" where
  "add_to_home_commands app_name content =
     (let u = py_upper app_name; l = py_lower app_name in
      if py_in (u @ ''_INIT()'') content then content
      else case first_some (map (\<lambda>p. re_search p content) [pat_home_multi, pat_home_single, pat_home_any]) of
             Some m \<Rightarrow> insert_at (m_end m) (home_cmd u l) content
           | None \<Rightarrow> content)"

subsection \<open>add_to_applauncher (lines 307--354)\<close>

definition pat_extern_hello :: "ritem list" where
  "pat_extern_hello = [ROpen 1] @ lits ''extern void HELLO_INIT();'' @ [RClose 1]"

definition quoted_nonempty :: "ritem list" where
  "quoted_nonempty = [RLit CHR ''\"'', RRep (\<lambda>c. c \<noteq> CHR ''\"'') 1 None True, RLit CHR ''\"'']"

definition pat_app_entry :: "ritem list" where
  "pat_app_entry =
     [ROpen 1, RLit CHR ''{''] @ quoted_nonempty @ [RLit CHR '','', ws_star] @ quoted_nonempty @
     [RLit CHR '','', ws_star] @ quoted_nonempty @ [RLit CHR '','', ws_star, RRep is_word_char 1 None True] @
     lits ''_INIT},'' @ [RClose 1, ws_star, RLit CHR ''\<newline>'', ROpen 2, ws_star] @ lits ''// Add more apps here'' @
     [RClose 2]"

definition pat_starter_entry :: "ritem list" where
  "pat_starter_entry =
     [ROpen 1] @ lits ''{\"StarterApp\",'' @ [ws_star] @ lits ''\"starterapp\",'' @ [ws_star] @
     lits ''\"/apps/starterapp_icon.bin\",'' @ [ws_star] @ lits ''STARTERAPP_INIT},'' @ [RClose 1]"

definition app_entry :: "string \<Rightarrow> string" where
  "app_entry app_name =
     nl @ ''    {\"'' @ app_name @ ''\", \"'' @ py_lower app_name @ ''\", \"/apps/'' @ py_lower app_name @
     ''_icon.bin\", '' @ py_upper app_name @ ''_INIT},''"

text \<open>The file content written back and the function's result; a missing file is
  \<open>None\<close>. When neither entry pattern matches, nothing is written.\<close>

definition add_to_applauncher :: "string \<Rightarrow> string option \<Rightarrow> bool \<times> string option" where
  "add_to_applauncher app_name file =
     (case file of
        None \<Rightarrow> (False, None)
      | Some content \<Rightarrow>
          (let u = py_upper app_name; l = py_lower app_name in
           if py_in (''\"'' @ l @ ''\"'') content \<and> py_in (u @ ''_INIT'') content then (True, Some content)
           else
             let c1 = (case re_search pat_extern_hello content of
                         Some m \<Rightarrow> if \<not> py_in (''extern void '' @ u @ ''_INIT()'') content
                                   then insert_at (m_end m) (nl @ ''extern void '' @ u @ ''_INIT();'') content
                                   else content
                       | None \<Rightarrow> content)
             in case re_search pat_app_entry c1 of
                  Some m \<Rightarrow> (True, Some (take (g_end m 1) c1 @ app_entry app_name @ nl @ drop (g_start m 2) c1))
                | None \<Rightarrow>
                    (case re_search pat_starter_entry c1 of
                       Some m \<Rightarrow> (True, Some (insert_at (m_end m) (app_entry app_name) c1))
                     | None \<Rightarrow> (False, Some content))))"

subsection \<open>add_to_cmake (lines 357--381)\<close>

definition cmake_source :: "string \<Rightarrow> string" where
  "cmake_source u = ''${POCKETMAGE_SRC}/'' @ u @ ''_APP.cpp''"

definition add_to_cmake :: "string \<Rightarrow> string \<Rightarrow> string" where
  "add_to_cmake app_name content =
     (let u = py_upper app_name in
      if py_in (cmake_source u) content \<or> py_in (u @ ''_APP.cpp'') content then content
      else insert_after_match (lits ''${POCKETMAGE_SRC}/HELLO_WORLD.cpp'') (nl @ ''    '' @ cmake_source u) content)"

section \<open>The app name (line 438)\<close>

definition clean_app_name :: "string \<Rightarrow> string" where
  "clean_app_name n = re_sub [RCls (\<lambda>c. \<not> is_ascii_alnum c)] [] n"

section \<open>The brace-matching contract\<close>

text \<open>What the loop of \<open>remove_function\<close> is meant to compute: the nesting depth
  after a stretch of code, and the first position after \<open>pos\<close> at which the depth
  started from \<open>d\<close> comes back to zero (the end of the code when it never does).\<close>

definition brace_delta :: "char \<Rightarrow> int" where
  "brace_delta c = (if c = CHR ''{'' then 1 else if c = CHR ''}'' then -1 else 0)"

definition brace_depth :: "nat \<Rightarrow> string \<Rightarrow> int" where
  "brace_depth d xs = int d + sum_list (map brace_delta xs)"

definition closing_brace :: "string \<Rightarrow> nat \<Rightarrow> nat \<Rightarrow> nat" where
  "closing_brace code d pos =
     (case find (\<lambda>q. brace_depth d (take (q - pos) (drop pos code)) = 0) [Suc pos..<Suc (length code)] of
        Some q \<Rightarrow> q
      | None \<Rightarrow> max pos (length code))"

section \<open>Lemmas\<close>

declare brace_end.simps [simp del]

lemma brace_end_step:
  "pos < length code \<Longrightarrow> 0 < d \<Longrightarrow>
   brace_end code d pos =
     brace_end code (if code ! pos = CHR ''{'' then Suc d else if code ! pos = CHR ''}'' then d - 1 else d) (Suc pos)"
  by (subst brace_end.simps) simp

lemma closing_brace_unclosed:
  assumes "\<forall>k. 0 < k \<and> k \<le> length code - pos \<longrightarrow> brace_depth d (take k (drop pos code)) \<noteq> 0"
  shows "closing_brace code d pos = max pos (length code)"
proof -
  have "find (\<lambda>q. brace_depth d (take (q - pos) (drop pos code)) = 0) [Suc pos..<Suc (length code)] = None"
    unfolding find_None_iff
  proof clarify
    fix q assume "q \<in> set [Suc pos..<Suc (length code)]" and "brace_depth d (take (q - pos) (drop pos code)) = 0"
    then have "0 < q - pos \<and> q - pos \<le> length code - pos" by (auto intro: diff_le_mono)
    then show False using assms \<open>brace_depth d _ = 0\<close> by blast
  qed
  then show ?thesis by (simp add: closing_brace_def)
qed

lemma closing_brace_step:
  assumes pos: "pos < length code" and dd: "int d' = brace_depth d [code ! pos]"
  shows "closing_brace code d pos = (if d' = 0 then Suc pos else closing_brace code d' (Suc pos))"
proof -
  have up: "[Suc pos..<Suc (length code)] = Suc pos # [Suc (Suc pos)..<Suc (length code)]"
    using pos by (simp add: upt_rec)
  have first: "(brace_depth d (take (Suc pos - pos) (drop pos code)) = 0) = (d' = 0)"
    using take_drop_Suc_nth [OF pos, of "Suc pos"] dd [symmetric] by simp
  have fc: "find (\<lambda>q. brace_depth d (take (q - pos) (drop pos code)) = 0) [Suc (Suc pos)..<Suc (length code)] =
        find (\<lambda>q. brace_depth d' (take (q - Suc pos) (drop (Suc pos) code)) = 0) [Suc (Suc pos)..<Suc (length code)]"
  proof (rule find_cong)
    fix q assume "q \<in> set [Suc (Suc pos)..<Suc (length code)]"
    then have "take (q - pos) (drop pos code) = code ! pos # take (q - Suc pos) (drop (Suc pos) code)"
      using pos by (intro take_drop_Suc_nth) auto
    then show "(brace_depth d (take (q - pos) (drop pos code)) = 0) =
               (brace_depth d' (take (q - Suc pos) (drop (Suc pos) code)) = 0)"
      using dd by (simp only: brace_depth_def) (simp add: add.assoc)
  qed simp
  have mx: "max pos (length code) = max (Suc pos) (length code)" using pos by simp
  show ?thesis
    unfolding closing_brace_def up find.simps first fc mx by simp
qed

lemma is_ascii_alnum_upper:
  assumes "is_ascii_alnum c" shows "is_ascii_alnum (py_upper_char c)"
proof (cases "map_of (zip ''abcdefghijklmnopqrstuvwxyz'' ''ABCDEFGHIJKLMNOPQRSTUVWXYZ'') c")
  case (Some u)
  then have "(c, u) \<in> set (zip ''abcdefghijklmnopqrstuvwxyz'' ''ABCDEFGHIJKLMNOPQRSTUVWXYZ'')"
    by (rule map_of_SomeD)
  then have "u \<in> set ''ABCDEFGHIJKLMNOPQRSTUVWXYZ''" by (rule set_zip_rightD)
  moreover have "\<forall>x\<in>set ''ABCDEFGHIJKLMNOPQRSTUVWXYZ''. is_ascii_alnum x"
    by (simp add: is_ascii_alnum_def)
  ultimately have "is_ascii_alnum u" by blast
  then show ?thesis using Some by (simp add: py_upper_char_def)
next
  case None
  then have "py_upper_char c = c" by (simp only: py_upper_char_def option.case)
  then show ?thesis using assms by simp
qed

text \<open>Each project-file edit inserts its text at a match or leaves the file alone; the
  inserted text carries the marker the edit's already-added test looks for.\<close>

lemma py_in_insert_at: "py_in p t \<Longrightarrow> py_in p (insert_at k t c)"
  unfolding insert_at_def by (rule py_in_around)

lemma insert_after_match_marks:
  "py_in p t \<Longrightarrow> insert_after_match pat t c = c \<or> py_in p (insert_after_match pat t c)"
  by (auto simp: insert_after_match_def py_in_insert_at split: option.split)

lemma switch_case_marks: "py_in (''case '' @ u @ '':'') (nl @ switch_case f u)"
proof -
  have "nl @ switch_case f u =
          (nl @ nl @ ''        '') @ (''case '' @ u @ '':'') @ (nl @ ''            '' @ f @ ''_'' @ u @ ''();'' @ nl @ ''            break;'')"
    by (simp add: switch_case_def)
  then show ?thesis using py_in_middle by metis
qed

lemma home_cmd_marks: "py_in (u @ ''_INIT()'') (home_cmd u l)"
proof -
  have "home_cmd u l =
          (nl @ ''  /////////////////////////////'' @ nl @ ''  else if (command == \"'' @ l @ ''\") {'' @ nl @ ''    '') @
          (u @ ''_INIT()'') @ ('';'' @ nl @ ''  }'')"
    by (simp add: home_cmd_def)
  then show ?thesis using py_in_middle by metis
qed

lemma app_entry_marks:
  "py_in (''\"'' @ py_lower n @ ''\"'') (app_entry n) \<and> py_in (py_upper n @ ''_INIT'') (app_entry n)"
proof -
  have "app_entry n = (nl @ ''    {\"'' @ n @ ''\", '') @ (''\"'' @ py_lower n @ ''\"'') @
          ('', \"/apps/'' @ py_lower n @ ''_icon.bin\", '' @ py_upper n @ ''_INIT},'')"
    by (simp add: app_entry_def)
  moreover have "app_entry n =
          (nl @ ''    {\"'' @ n @ ''\", \"'' @ py_lower n @ ''\", \"/apps/'' @ py_lower n @ ''_icon.bin\", '') @
          (py_upper n @ ''_INIT'') @ ''},''"
    by (simp add: app_entry_def)
  ultimately show ?thesis using py_in_middle by metis
qed

lemma add_to_cmake_idem: "add_to_cmake n (add_to_cmake n c) = add_to_cmake n c"
proof (rule guarded_edit_idempotent)
  let ?u = "py_upper n"
  let ?t = "nl @ ''    '' @ cmake_source ?u"
  show "add_to_cmake n x = (if py_in (cmake_source ?u) x \<or> py_in (?u @ ''_APP.cpp'') x then x
          else insert_after_match (lits ''${POCKETMAGE_SRC}/HELLO_WORLD.cpp'') ?t x)" for x
    by (simp add: add_to_cmake_def Let_def)
  have "py_in (cmake_source ?u) ?t" using py_in_middle [of _ "nl @ ''    ''" "[]"] by simp
  from insert_after_match_marks [OF this]
  show "insert_after_match (lits ''${POCKETMAGE_SRC}/HELLO_WORLD.cpp'') ?t x = x \<or>
        py_in (cmake_source ?u) (insert_after_match (lits ''${POCKETMAGE_SRC}/HELLO_WORLD.cpp'') ?t x) \<or>
        py_in (?u @ ''_APP.cpp'') (insert_after_match (lits ''${POCKETMAGE_SRC}/HELLO_WORLD.cpp'') ?t x)" for x
    by blast
qed

lemma add_to_pocketmage_v3_idem:
  "add_to_pocketmage_v3 n (add_to_pocketmage_v3 n c) = add_to_pocketmage_v3 n c"
proof (rule guarded_edit_idempotent)
  let ?u = "py_upper n"
  let ?G = "py_in (''case '' @ ?u @ '':'')"
  let ?h1 = "insert_after_match (pat_case_hello ''einkHandler'') (nl @ switch_case ''einkHandler'' ?u)"
  let ?h2 = "insert_after_match (pat_case_hello ''processKB'') (nl @ switch_case ''processKB'' ?u)"
  show "add_to_pocketmage_v3 n x = (if ?G x then x else ?h2 (?h1 x))" for x
    by (simp add: add_to_pocketmage_v3_def Let_def)
  show "?h2 (?h1 x) = x \<or> ?G (?h2 (?h1 x))" for x
    using insert_after_match_marks [OF switch_case_marks [where u = ?u and f = "''einkHandler''"],
                                    where pat = "pat_case_hello ''einkHandler''" and c = x]
      insert_after_match_marks [OF switch_case_marks [where u = ?u and f = "''processKB''"],
                                    where pat = "pat_case_hello ''processKB''" and c = "?h1 x"]
    by auto
qed

lemma add_to_home_commands_idem:
  "add_to_home_commands n (add_to_home_commands n c) = add_to_home_commands n c"
proof (rule guarded_edit_idempotent)
  let ?u = "py_upper n" and ?l = "py_lower n"
  let ?G = "py_in (?u @ ''_INIT()'')"
  let ?h = "\<lambda>x. case first_some (map (\<lambda>p. re_search p x) [pat_home_multi, pat_home_single, pat_home_any]) of
             Some m \<Rightarrow> insert_at (m_end m) (home_cmd ?u ?l) x | None \<Rightarrow> x"
  show "add_to_home_commands n x = (if ?G x then x else ?h x)" for x
    by (simp add: add_to_home_commands_def Let_def)
  show "?h x = x \<or> ?G (?h x)" for x
    using py_in_insert_at [OF home_cmd_marks] by (simp split: option.split)
qed

section \<open>Properties\<close>

text \<open>The app-name cleaning of \<open>main\<close> (\<open>re.sub(r'[^a-zA-Z0-9]', '', name)\<close>)
  keeps exactly the ASCII letters and digits of the name, in order.\<close>

theorem clean_app_name_filter: "clean_app_name n = filter is_ascii_alnum n"
  by (simp add: clean_app_name_def re_sub_def re_sub_from_cls)

text \<open>The upper-case name that the installer interpolates into C identifiers,
  file names and regular expressions consists of ASCII letters and digits only, so it
  is a valid identifier fragment and reads literally inside every pattern.\<close>

theorem clean_name_identifier: "list_all is_ascii_alnum (py_upper (clean_app_name n))"
  by (simp add: clean_app_name_filter py_upper_def list_all_iff is_ascii_alnum_upper)

text \<open>C23. From a positive depth, the brace-counting loop of \<open>remove_function\<close> stops
  exactly at the first position after which the braces scanned so far close the open
  ones, and at the end of the code when they never do.\<close>

theorem brace_end_first_zero:
  "0 < d \<Longrightarrow> brace_end code d pos = closing_brace code d pos"
proof (induction code d pos rule: brace_end.induct)
  case (1 code d pos)
  show ?case
  proof (cases "pos < length code")
    case False
    then show ?thesis by (simp add: brace_end.simps closing_brace_def)
  next
    case True
    define d' where "d' = (if code ! pos = CHR ''{'' then Suc d else if code ! pos = CHR ''}'' then d - 1 else d)"
    have dd: "int d' = brace_depth d [code ! pos]"
      using "1.prems" by (auto simp: d'_def brace_depth_def brace_delta_def)
    have step: "brace_end code d pos = brace_end code d' (Suc pos)"
      unfolding d'_def using True "1.prems" by (rule brace_end_step)
    have "d' \<noteq> 0 \<Longrightarrow> brace_end code d' (Suc pos) = closing_brace code d' (Suc pos)"
      using "1.IH" "1.prems" True unfolding d'_def by simp
    moreover have "brace_end code 0 (Suc pos) = Suc pos" by (simp add: brace_end.simps)
    ultimately show ?thesis using step closing_brace_step [OF True dd] by (cases "d' = 0") simp_all
  qed
qed

theorem brace_end_first_zero_witness:
  "0 < (1::nat) \<and> brace_end ''{a{b}c}d'' 1 1 = closing_brace ''{a{b}c}d'' 1 1 \<and> closing_brace ''{a{b}c}d'' 1 1 = 7"
proof -
  have "brace_end ''{a{b}c}d'' 1 1 = 7" by (simp add: brace_end.simps)
  then show ?thesis using brace_end_first_zero [of 1 "''{a{b}c}d''" 1] by simp
qed

text \<open>The \<open>while\<close> loop of lines 87--92, run literally, always stops, and it stops
  at the position \<open>brace_end\<close> computes.\<close>

theorem brace_loop_terminates: "\<exists>d'. brace_loop code d pos = Some (d', brace_end code d pos)"
proof (induction code d pos rule: brace_end.induct)
  case (1 code d pos)
  show ?case
  proof (cases "pos < length code \<and> 0 < d")
    case True
    then show ?thesis using 1
      by (simp add: brace_loop_def brace_step_def while_option_unfold [of _ _ "(d, pos)"] brace_end_step)
  next
    case False
    then show ?thesis
      by (auto simp: brace_loop_def while_option_unfold [of _ _ "(d, pos)"] brace_end.simps)
  qed
qed

text \<open>C24. When the body after the signature's opening brace never closes,
  \<open>remove_function\<close> deletes everything from the signature to the end of the file,
  the code that follows the unclosed function included.\<close>

theorem remove_function_unclosed:
  assumes "re_search pat code = Some m" and "str_find code CHR ''{'' (m_end m) = Some b"
    and "\<forall>k. 0 < k \<and> k \<le> length code - Suc b \<longrightarrow> brace_depth 1 (take k (drop (Suc b) code)) \<noteq> 0"
  shows "remove_function code pat = take (m_start m) code @ removed_marker"
proof -
  have "brace_end code 1 (Suc b) = max (Suc b) (length code)"
    using brace_end_first_zero [of 1] closing_brace_unclosed [OF assms(3)] by simp
  then show ?thesis using assms(1,2) by (simp add: remove_function_def)
qed

theorem remove_function_unclosed_witness:
  "remove_function ''void setup() {{}'' pat_setup = removed_marker"
proof -
  have "case re_search pat_setup ''void setup() {{}'' of Some m \<Rightarrow> m_start m = 0 \<and> m_end m = 12 | None \<Rightarrow> False"
    by code_simp
  then obtain m where m: "re_search pat_setup ''void setup() {{}'' = Some m" and se: "m_start m = 0" "m_end m = 12"
    by (auto split: option.splits)
  have b: "str_find ''void setup() {{}'' CHR ''{'' (m_end m) = Some 13" unfolding se(2) by code_simp
  have "\<forall>k. 0 < k \<and> k \<le> length ''void setup() {{}'' - Suc 13 \<longrightarrow>
          brace_depth 1 (take k (drop (Suc 13) ''void setup() {{}'')) \<noteq> 0"
    by (auto simp: le_Suc_eq brace_depth_def brace_delta_def numeral_eq_Suc)
  from remove_function_unclosed [OF m b this] show ?thesis by (simp add: se)
qed

text \<open>C25. Running the CMakeLists, PocketMageV3 and HOME edits a second time for the
  same app changes nothing: each either finds its marker or writes the text that
  carries it.\<close>

theorem install_edits_idempotent:
  "add_to_cmake n (add_to_cmake n c) = add_to_cmake n c \<and>
   add_to_pocketmage_v3 n (add_to_pocketmage_v3 n v) = add_to_pocketmage_v3 n v \<and>
   add_to_home_commands n (add_to_home_commands n h) = add_to_home_commands n h"
  using add_to_cmake_idem add_to_pocketmage_v3_idem add_to_home_commands_idem by blast

text \<open>C26. Re-running the APPLAUNCHER edit on what the first run wrote returns the same
  result and content: a missing file stays missing, a file left alone stays alone, and
  an inserted entry is recognised as already added.\<close>

theorem add_to_applauncher_idempotent:
  "add_to_applauncher n (snd (add_to_applauncher n f)) = add_to_applauncher n f"
proof -
  let ?G = "\<lambda>x. py_in (''\"'' @ py_lower n @ ''\"'') x \<and> py_in (py_upper n @ ''_INIT'') x"
  have G: "?G (xs @ app_entry n @ ys)" for xs ys
    using app_entry_marks [of n] py_in_around by blast
  have keep: "?G x \<Longrightarrow> add_to_applauncher n (Some x) = (True, Some x)" for x
    by (simp add: add_to_applauncher_def)
  show ?thesis
  proof (cases f)
    case None
    then show ?thesis by (simp add: add_to_applauncher_def)
  next
    case (Some x)
    show ?thesis
    proof (cases "?G x")
      case True
      then show ?thesis using Some keep by simp
    next
      case False
      then show ?thesis using Some keep G [of _ "nl @ _"] G [of _ "drop _ _"]
        by (auto simp: add_to_applauncher_def insert_at_def Let_def split: option.split)
    qed
  qed
qed

text \<open>The globals.h edit is not idempotent: when the enum has no \<open>HELLO,\<close> entry
  and the fallback inserts \<open>,\<newline>    DEMO\<close> before \<open>};\<close>, neither
  \<open>DEMO,\<close> nor \<open>DEMO \<close> occurs, so a second install adds the enumerator again
  and the header no longer compiles.\<close>

theorem globals_not_idempotent:
  "add_to_globals_h ''demo'' ''enum AppState {A};'' = ''enum AppState {A,'' @ nl @ ''    DEMO};'' \<and>
   add_to_globals_h ''demo'' (''enum AppState {A,'' @ nl @ ''    DEMO};'') =
     ''enum AppState {A,'' @ nl @ ''    DEMO,'' @ nl @ ''    DEMO};''"
proof
  show "add_to_globals_h ''demo'' ''enum AppState {A};'' = ''enum AppState {A,'' @ nl @ ''    DEMO};''"
    by code_simp
  show "add_to_globals_h ''demo'' (''enum AppState {A,'' @ nl @ ''    DEMO};'') =
     ''enum AppState {A,'' @ nl @ ''    DEMO,'' @ nl @ ''    DEMO};''"
    by code_simp
qed

end
