(* ===== verification/InstallMain.thy ===== *)
theory InstallMain
  imports AppInstall
begin

text \<open>
  \<open>main\<close> of \<open>src/desktop_emulator/install_app.py\<close> (lines 403--482) and the file finders
  it calls (lines 46--69). The host file system is a record of the queries the script
  makes (\<open>os.path.exists\<close>, \<open>os.path.isdir\<close>, the file list of \<open>os.walk\<close> in walk order,
  \<open>read_file\<close>); the emulator's project is a record with one field per file the
  installer edits, the app sources it writes and the icons it copies. Path arithmetic is
  Python's \<open>posixpath\<close> (\<open>join\<close>, \<open>normpath\<close>, \<open>basename\<close>). Tar extraction
  leaves its files in the temporary directory, whose listing is part of the host record;
  printing and the CMake rebuild (lines 484--496) are not modelled.
\<close>

section \<open>posixpath\<close>

text \<open>\<open>os.path.join(a, b)\<close>.\<close>

definition os_path_join :: "string \<Rightarrow> string \<Rightarrow> string" where
  "os_path_join a b =
     (if b \<noteq> [] \<and> hd b = CHR ''/'' then b
      else if a = [] \<or> last a = CHR ''/'' then a @ b
      else a @ ''/'' @ b)"

text \<open>\<open>s.split('/')\<close>.\<close>

fun split_slash :: "string \<Rightarrow> string list" where
  "split_slash [] = [[]]"
| "split_slash (c # s) =
     (let r = split_slash s in if c = CHR ''/'' then [] # r else (c # hd r) # tl r)"

text \<open>One component of the loop of \<open>posixpath.normpath\<close>; the kept components are a
  stack, most recent first.\<close>

definition norm_step :: "bool \<Rightarrow> string list \<Rightarrow> string \<Rightarrow> string list" where
  "norm_step initial_slashes st c =
     (if c = [] \<or> c = ''.'' then st
      else if c \<noteq> ''..'' \<or> (\<not> initial_slashes \<and> st = []) \<or> (st \<noteq> [] \<and> hd st = ''..'') then c # st
      else if st \<noteq> [] then tl st
      else st)"

text \<open>\<open>'/'.join(comps)\<close>.\<close>

fun join_slash :: "string list \<Rightarrow> string" where
  "join_slash [] = []"
| "join_slash [x] = x"
| "join_slash (x # xs) = x @ ''/'' @ join_slash xs"

definition py_normpath :: "string \<Rightarrow> string" where
  "py_normpath p =
     (if p = [] then ''.''
      else
        let ini = (if prefix ''//'' p \<and> \<not> prefix ''///'' p then ''//'' else if prefix ''/'' p then ''/'' else []);
            comps = rev (foldl (norm_step (ini \<noteq> [])) [] (split_slash p));
            r = ini @ join_slash comps
        in if r = [] then ''.'' else r)"

definition py_basename :: "string \<Rightarrow> string" where
  "py_basename p = rev (takeWhile (\<lambda>c. c \<noteq> CHR ''/'') (rev p))"

section \<open>The paths of the script\<close>

text \<open>\<open>os.path.join(a, b1, ..., bn)\<close>.\<close>

definition os_path_join_all :: "string \<Rightarrow> string list \<Rightarrow> string" where
  "os_path_join_all a bs = foldl os_path_join a bs"

text \<open>The module constants (lines 27--32), the launcher path of \<open>add_to_applauncher\<close>
  (line 312) and the two destinations of \<open>main\<close> (lines 465, 472), for the script
  directory \<open>sd\<close>.\<close>

definition inst_pocketmage_src :: "string \<Rightarrow> string" where
  "inst_pocketmage_src sd = os_path_join_all sd [''..'', ''Code'', ''PocketMage_V3'', ''src'']"

definition globals_h_path :: "string \<Rightarrow> string" where
  "globals_h_path sd = os_path_join_all sd [''..'', ''Code'', ''PocketMage_V3'', ''include'', ''globals.h'']"

definition v3_cpp_path :: "string \<Rightarrow> string" where
  "v3_cpp_path sd = os_path_join (inst_pocketmage_src sd) ''PocketMageV3.cpp''"

definition home_cpp_path :: "string \<Rightarrow> string" where
  "home_cpp_path sd = os_path_join_all (inst_pocketmage_src sd) [''OS_APPS'', ''HOME.cpp'']"

definition cmake_path :: "string \<Rightarrow> string" where
  "cmake_path sd = os_path_join sd ''CMakeLists.txt''"

definition data_apps_path :: "string \<Rightarrow> string" where
  "data_apps_path sd = os_path_join_all sd [''data'', ''apps'']"

definition applauncher_path :: "string \<Rightarrow> string" where
  "applauncher_path sd = os_path_join_all (inst_pocketmage_src sd) [''OS_APPS'', ''APPLAUNCHER.cpp'']"

definition app_output_path :: "string \<Rightarrow> string \<Rightarrow> string" where
  "app_output_path sd app_name = os_path_join (inst_pocketmage_src sd) (app_name @ ''_APP.cpp'')"

definition icon_dest_path :: "string \<Rightarrow> string \<Rightarrow> string" where
  "icon_dest_path sd app_name = os_path_join (data_apps_path sd) (py_lower app_name @ ''_icon.bin'')"

text \<open>The files an install edits or writes.\<close>

definition install_files :: "string \<Rightarrow> string \<Rightarrow> string list" where
  "install_files sd app_name =
     [globals_h_path sd, v3_cpp_path sd, home_cpp_path sd, applauncher_path sd, cmake_path sd,
      app_output_path sd app_name, icon_dest_path sd app_name]"

section \<open>The host and the project\<close>

record host_fs =
  fs_exists :: "string \<Rightarrow> bool"
  fs_isdir :: "string \<Rightarrow> bool"
  fs_walk :: "string \<Rightarrow> (string \<times> string) list"
  fs_read :: "string \<Rightarrow> string"

record emu_project =
  globals_h :: string
  v3_cpp :: string
  home_cpp :: string
  launcher_cpp :: "string option"
  cmake_txt :: string
  app_src :: "string \<Rightarrow> string option"
  app_icons :: "string \<Rightarrow> string option"

section \<open>Finding the app's files (lines 46--69)\<close>

definition find_source_file :: "host_fs \<Rightarrow> string \<Rightarrow> string option" where
  "find_source_file fs folder =
     (case find (fs_exists fs) [os_path_join (os_path_join folder ''src'') ''appMain.cpp'', os_path_join folder ''appMain.cpp''] of
        Some c \<Rightarrow> Some c
      | None \<Rightarrow>
          map_option (\<lambda>(root, f). os_path_join root f)
            (find (\<lambda>(root, f). suffix ''.cpp'' f \<and> py_in ''main'' (py_lower f)) (fs_walk fs folder)))"

definition find_icon_file :: "host_fs \<Rightarrow> string \<Rightarrow> string option" where
  "find_icon_file fs folder =
     map_option (\<lambda>(root, f). os_path_join root f)
       (find (\<lambda>(root, f). py_in ''icon'' (py_lower f) \<and> (suffix ''.bmp'' f \<or> suffix ''.bin'' f)) (fs_walk fs folder))"

section \<open>main (lines 403--482)\<close>

datatype install_err = Usage | FileNotFound string | FolderNotFound string | NoSource

text \<open>The app folder and the cleaned app name (lines 411--438); \<open>tmp\<close> is the
  directory \<open>tempfile.mkdtemp\<close> returns.\<close>

definition install_source :: "host_fs \<Rightarrow> string \<Rightarrow> string \<Rightarrow> install_err + string \<times> string" where
  "install_source fs tmp source_path =
     (if suffix ''.tar'' source_path \<or> suffix ''.tar.gz'' source_path then
        (if \<not> fs_exists fs source_path then Inl (FileNotFound source_path)
         else Inr (tmp, clean_app_name (py_replace ''.tar'' [] (py_replace ''.tar.gz'' [] (py_basename source_path)))))
      else if \<not> fs_isdir fs source_path then Inl (FolderNotFound source_path)
      else Inr (source_path, clean_app_name (py_basename (py_normpath source_path))))"

text \<open>Writing the converted source, copying the icon and the five project-file edits
  (lines 459--482).\<close>

definition install_project :: "string \<Rightarrow> string \<Rightarrow> string option \<Rightarrow> emu_project \<Rightarrow> emu_project" where
  "install_project app_name source_code icon_file P =
     (let P = P\<lparr>app_src := (app_src P)(app_name @ ''_APP.cpp'' \<mapsto> convert_app_code source_code app_name)\<rparr>;
          P = (case icon_file of
                 None \<Rightarrow> P
               | Some i \<Rightarrow> P\<lparr>app_icons := (app_icons P)(py_lower app_name @ ''_icon.bin'' \<mapsto> i)\<rparr>);
          P = P\<lparr>globals_h := add_to_globals_h app_name (globals_h P)\<rparr>;
          P = P\<lparr>v3_cpp := add_to_pocketmage_v3 app_name (v3_cpp P)\<rparr>;
          P = P\<lparr>home_cpp := add_to_home_commands app_name (home_cpp P)\<rparr>;
          P = P\<lparr>launcher_cpp := snd (add_to_applauncher app_name (launcher_cpp P))\<rparr>
      in P\<lparr>cmake_txt := add_to_cmake app_name (cmake_txt P)\<rparr>)"

definition install_main :: "host_fs \<Rightarrow> string \<Rightarrow> string list \<Rightarrow> emu_project \<Rightarrow> install_err + emu_project" where
  "install_main fs tmp argv P =
     (if length argv < 2 then Inl Usage
      else case install_source fs tmp (argv ! 1) of
        Inl e \<Rightarrow> Inl e
      | Inr (app_folder, app_name) \<Rightarrow>
          (case find_source_file fs app_folder of
             None \<Rightarrow> Inl NoSource
           | Some source_file \<Rightarrow>
               Inr (install_project app_name (fs_read fs source_file) (find_icon_file fs app_folder) P)))"

section \<open>Lemmas\<close>

lemma install_project_fields:
  "cmake_txt (install_project n code icon P) = add_to_cmake n (cmake_txt P) \<and>
   app_src (install_project n code icon P) = (app_src P)(n @ ''_APP.cpp'' \<mapsto> convert_app_code code n)"
  by (cases icon) (simp_all add: install_project_def Let_def)

lemma add_to_cmake_inserts:
  assumes "re_search (lits ''${POCKETMAGE_SRC}/HELLO_WORLD.cpp'') c \<noteq> None"
    and "\<not> py_in (py_upper n @ ''_APP.cpp'') c"
  shows "py_in (cmake_source (py_upper n)) (add_to_cmake n c)"
proof -
  have "py_in (py_upper n @ ''_APP.cpp'') (cmake_source (py_upper n))"
    unfolding cmake_source_def using py_in_middle [of _ "''${POCKETMAGE_SRC}/''" "[]"] by simp
  then have "\<not> py_in (cmake_source (py_upper n)) c"
    using assms(2) py_in_trans by blast
  moreover have "py_in (cmake_source (py_upper n)) (nl @ ''    '' @ cmake_source (py_upper n))"
    using py_in_middle [of _ "nl @ ''    ''" "[]"] by simp
  ultimately show ?thesis using assms
    by (auto simp: add_to_cmake_def insert_after_match_def py_in_insert_at split: option.split)
qed

lemma rev_last: "a \<noteq> [] \<Longrightarrow> rev a = last a # rev (butlast a)"
  by (induction a rule: rev_induct) auto

lemma py_basename_join:
  "b \<noteq> [] \<Longrightarrow> CHR ''/'' \<notin> set b \<Longrightarrow> py_basename (os_path_join a b) = b"
proof -
  assume b: "b \<noteq> []" "CHR ''/'' \<notin> set b"
  have tw: "takeWhile (\<lambda>c. c \<noteq> CHR ''/'') (rev b @ xs) = rev b @ takeWhile (\<lambda>c. c \<noteq> CHR ''/'') xs" for xs
    using b(2) by (intro takeWhile_append2) auto
  have hd: "hd b \<noteq> CHR ''/''" using b by (cases b) auto
  have sl: "takeWhile (\<lambda>c. c \<noteq> CHR ''/'') (rev a) = []" if "a = [] \<or> last a = CHR ''/''"
    using that by (cases "a = []") (simp_all add: rev_last)
  show ?thesis using b(1) hd tw [of "rev a"] tw [of "CHR ''/'' # rev a"] sl
    by (auto simp: os_path_join_def py_basename_def)
qed

lemma append_ne_suffix: "\<not> suffix t s \<Longrightarrow> n @ t \<noteq> s"
  by (auto simp: suffix_def)

lemma append_ne_by_suffix:
  "length t \<le> length t' \<Longrightarrow> \<not> suffix t t' \<Longrightarrow> n @ t \<noteq> m @ t'"
proof
  assume len: "length t \<le> length t'" and ns: "\<not> suffix t t'" and eq: "n @ t = m @ t'"
  have "suffix t (m @ t')" unfolding suffix_def using eq by (intro exI [of _ n]) simp
  then have "suffix t t' \<or> (\<exists>xs'. t = xs' @ t' \<and> suffix xs' m)" by (simp add: suffix_append)
  then have "suffix t t'" using len by auto
  with ns show False by simp
qed

lemma py_lower_no_slash: "CHR ''/'' \<notin> set n \<Longrightarrow> CHR ''/'' \<notin> set (py_lower n)"
  by (auto simp: py_lower_def py_lower_char_def split: if_splits)

text \<open>The files an install touches have pairwise different base names, for an app name
  without a slash (\<open>main\<close> keeps only ASCII letters and digits): no two fields of
  \<open>emu_project\<close> are the same file.\<close>

lemma install_files_distinct:
  "CHR ''/'' \<notin> set app_name \<Longrightarrow> distinct (map py_basename (install_files sd app_name))"
proof -
  assume n: "CHR ''/'' \<notin> set app_name"
  have "map py_basename (install_files sd app_name) =
      [''globals.h'', ''PocketMageV3.cpp'', ''HOME.cpp'', ''APPLAUNCHER.cpp'', ''CMakeLists.txt'',
       app_name @ ''_APP.cpp'', py_lower app_name @ ''_icon.bin'']"
    using n py_lower_no_slash [OF n]
    by (simp add: install_files_def globals_h_path_def v3_cpp_path_def home_cpp_path_def applauncher_path_def
        cmake_path_def app_output_path_def icon_dest_path_def os_path_join_all_def py_basename_join)
  moreover have "app_name @ ''_APP.cpp'' \<notin> set [''globals.h'', ''PocketMageV3.cpp'', ''HOME.cpp'', ''APPLAUNCHER.cpp'', ''CMakeLists.txt'']"
    by (auto simp: suffix_to_prefix dest!: append_ne_suffix [rotated])
  moreover have "py_lower app_name @ ''_icon.bin'' \<notin> set [''globals.h'', ''PocketMageV3.cpp'', ''HOME.cpp'', ''APPLAUNCHER.cpp'', ''CMakeLists.txt'']"
    by (auto simp: suffix_to_prefix dest!: append_ne_suffix [rotated])
  moreover have "app_name @ ''_APP.cpp'' \<noteq> py_lower app_name @ ''_icon.bin''"
    by (rule append_ne_by_suffix) (simp_all add: suffix_to_prefix)
  ultimately show ?thesis by simp
qed

section \<open>Properties\<close>

text \<open>C27. \<open>main\<close> writes the converted app to \<open>{app_name}_APP.cpp\<close>, keeping the
  name's case, while \<open>add_to_cmake\<close> registers \<open>{APP_UPPER}_APP.cpp\<close>: for every name
  with a lower-case letter, the CMakeLists entry the install adds names a source file the
  install never wrote.\<close>

theorem cmake_names_unwritten_file:
  assumes "re_search (lits ''${POCKETMAGE_SRC}/HELLO_WORLD.cpp'') (cmake_txt P) \<noteq> None"
    and "\<not> py_in (py_upper n @ ''_APP.cpp'') (cmake_txt P)"
    and "py_upper n \<noteq> n"
    and "app_src P (py_upper n @ ''_APP.cpp'') = None"
  shows "py_in (cmake_source (py_upper n)) (cmake_txt (install_project n code icon P)) \<and>
         app_src (install_project n code icon P) (py_upper n @ ''_APP.cpp'') = None \<and>
         app_src (install_project n code icon P) (n @ ''_APP.cpp'') = Some (convert_app_code code n)"
  using add_to_cmake_inserts [OF assms(1,2)] assms(3,4) by (simp add: install_project_fields)

theorem cmake_names_unwritten_file_witness:
  "py_in (cmake_source ''DEMO'')
     (cmake_txt (install_project ''Demo'' [] None
        \<lparr>globals_h = [], v3_cpp = [], home_cpp = [], launcher_cpp = None,
         cmake_txt = ''${POCKETMAGE_SRC}/HELLO_WORLD.cpp'', app_src = Map.empty, app_icons = Map.empty\<rparr>)) \<and>
   app_src (install_project ''Demo'' [] None
        \<lparr>globals_h = [], v3_cpp = [], home_cpp = [], launcher_cpp = None,
         cmake_txt = ''${POCKETMAGE_SRC}/HELLO_WORLD.cpp'', app_src = Map.empty, app_icons = Map.empty\<rparr>)
     ''DEMO_APP.cpp'' = None"
proof -
  let ?P = "\<lparr>globals_h = [], v3_cpp = [], home_cpp = [], launcher_cpp = None,
         cmake_txt = ''${POCKETMAGE_SRC}/HELLO_WORLD.cpp'', app_src = Map.empty, app_icons = Map.empty\<rparr>
         :: emu_project"
  have up: "py_upper ''Demo'' = ''DEMO''" by (simp add: py_upper_def py_upper_char_def)
  have h1: "re_search (lits ''${POCKETMAGE_SRC}/HELLO_WORLD.cpp'') (cmake_txt ?P) \<noteq> None" by code_simp
  have h2: "\<not> py_in (py_upper ''Demo'' @ ''_APP.cpp'') (cmake_txt ?P)" unfolding up by code_simp
  have h3: "py_upper ''Demo'' \<noteq> ''Demo''" unfolding up by simp
  have h4: "app_src ?P (py_upper ''Demo'' @ ''_APP.cpp'') = None" by simp
  from cmake_names_unwritten_file [OF h1 h2 h3 h4, of "[]" None] show ?thesis unfolding up by simp
qed

end
