(* ===== verification/AppExport.thy ===== *)
theory AppExport
  imports InstallMain
begin

text \<open>
  \<open>src/desktop_emulator/export_app.py\<close>, the inverse direction of the installer: finding
  the integrated app's source (\<open>find_integrated_app\<close>), turning it back into a
  standalone app (\<open>convert_to_standalone\<close>), the files of the standalone project
  (\<open>create_standalone_project\<close>, as the sequence of \<open>(path, content)\<close> writes) and
  \<open>main\<close>, which composes them. Paths are computed with the \<open>posixpath\<close> model of
  \<open>InstallMain\<close>; \<open>os.path.abspath\<close> is \<open>normpath(join(cwd, p))\<close>. Directory
  creation and printing are not modelled.
\<close>

section \<open>find_integrated_app (lines 40--56)\<close>

definition pocketmage_src :: "string \<Rightarrow> string" where
  "pocketmage_src script_dir = os_path_join (os_path_join (os_path_join (os_path_join script_dir ''..'') ''Code'') ''PocketMage_V3'') ''src''"

definition integrated_candidates :: "string \<Rightarrow> string \<Rightarrow> string list" where
  "integrated_candidates src app_name =
     [os_path_join src (py_upper app_name @ ''_APP.cpp''), os_path_join src (app_name @ ''_APP.cpp''),
      os_path_join src (app_name @ ''.cpp''), os_path_join (os_path_join src ''OS_APPS'') (py_upper app_name @ ''.cpp'')]"

definition find_integrated_app :: "host_fs \<Rightarrow> string \<Rightarrow> string \<Rightarrow> string option" where
  "find_integrated_app fs src app_name = find (fs_exists fs) (integrated_candidates src app_name)"

section \<open>convert_to_standalone (lines 59--126)\<close>

definition pat_globals_include :: "ritem list" where
  "pat_globals_include = lits ''#include'' @ [ws_star] @ lits ''<globals.h>''"

definition pat_home_return :: "ritem list" where
  "pat_home_return =
     lits ''CurrentAppState'' @ [ws_star, RLit CHR ''='', ws_star] @ lits ''HOME'' @ [ws_star, RLit CHR '';'', ws_star] @
     lits ''HOME_INIT'' @ [ws_star, RLit CHR ''('', ws_star, RLit CHR '')'', ws_star, RLit CHR '';'', ws_star] @
     lits ''return'' @ [ws_star, RLit CHR '';'']"

definition pat_home_state :: "ritem list" where
  "pat_home_state = lits ''CurrentAppState'' @ [ws_star, RLit CHR ''='', ws_star] @ lits ''HOME'' @ [ws_star, RLit CHR '';'']"

definition pat_init_fn :: "string \<Rightarrow> ritem list" where
  "pat_init_fn u =
     lits ''// Auto-generated INIT function'' @ [ws_star, RLit CHR ''\<newline>''] @ lits ''void'' @ [ws_plus] @
     lits (u @ ''_INIT'') @ [ws_star, RLit CHR ''('', ws_star, RLit CHR '')'', ws_star, RLit CHR ''{'', not_star CHR ''}'',
     RLit CHR ''}'', ws_star, RLit CHR ''\<newline>'']"

definition standalone_functions :: string where
  "standalone_functions =
     nl @ lines
       [''// ============================================================================'',
        ''// MAIN FUNCTIONS (required for standalone app)'',
        ''// ============================================================================'', [],
        ''void setup() {'', ''    // Initialize hardware'', ''    initPocketMage();'', ''    '',
        ''    // Initialize app state'', ''    currentScreen = SCREEN_MAIN;'', ''    needsRedraw = true;'', ''}'', [],
        ''void loop() {'', ''    // Main loop - handled by PocketMage library'', ''    delay(10);'', ''}'', [],
        ''void einkHandler(void* parameter) {'', ''    // E-ink refresh task'', ''    while (true) {'',
        ''        if (needsRedraw) {'', ''            applicationEinkHandler();'', ''            needsRedraw = false;'',
        ''        }'', ''        vTaskDelay(pdMS_TO_TICKS(100));'', ''        yield();'', ''    }'', ''}'']"

text \<open>\<open>s.rstrip()\<close>.\<close>

definition py_rstrip :: "string \<Rightarrow> string" where
  "py_rstrip s = rev (dropWhile is_py_space (rev s))"

text \<open>The substitutions of lines 61--88.\<close>

definition standalone_body :: "string \<Rightarrow> string \<Rightarrow> string" where
  "standalone_body source_code app_name =
     (let u = py_upper app_name;
          code = re_sub pat_globals_include [RText ''#include <pocketmage.h>''] source_code;
          code = re_sub (pat_void_fn (''processKB_'' @ u)) [RText ''void processKB()''] code;
          code = re_sub (pat_void_fn (''einkHandler_'' @ u)) [RText ''void applicationEinkHandler()''] code;
          code = re_sub pat_home_return [RText ''rebootToPocketMage();''] code;
          code = re_sub pat_home_state [RText ''rebootToPocketMage();''] code
      in re_sub (pat_init_fn u) [] code)"

definition convert_to_standalone :: "string \<Rightarrow> string \<Rightarrow> string" where
  "convert_to_standalone source_code app_name =
     py_rstrip (standalone_body source_code app_name) @ nl @ standalone_functions"

section \<open>create_standalone_project (lines 129--196)\<close>

definition platformio_ini :: "string \<Rightarrow> string" where
  "platformio_ini app_name =
     lines [''[env:'' @ py_lower app_name @ '']'', ''platform = espressif32'', ''board = esp32dev'',
            ''framework = arduino'', ''monitor_speed = 115200'', ''upload_speed = 921600'', [], ''lib_deps ='',
            ''    adafruit/Adafruit GFX Library'', ''    adafruit/Adafruit BusIO'', ''    zinggjm/GxEPD2'',
            ''    adafruit/RTClib'', [], ''board_build.partitions = appPartition.csv'']"

definition partition_csv :: string where
  "partition_csv =
     lines [''# Name,   Type, SubType, Offset,  Size, Flags'', ''nvs,      data, nvs,     0x9000,  0x5000,'',
            ''otadata,  data, ota,     0xe000,  0x2000,'', ''app0,     app,  ota_0,   0x10000, 0x1E0000,'',
            ''spiffs,   data, spiffs,  0x1F0000,0x10000,'']"

definition readme :: "string \<Rightarrow> string" where
  "readme app_name =
     (let l = py_lower app_name in
      lines [''# '' @ app_name, [], ''Standalone PocketMage app exported from desktop emulator.'', [],
             ''## Building'', [], ''```bash'', ''pio run'', ''```'', [], ''## Flashing'', [], ''```bash'',
             ''pio run -t upload'', ''```'', [], ''## Creating App Package'', [],
             ''After building, create a tar file for the App Loader:'', [], ''```bash'',
             ''cp .pio/build/'' @ l @ ''/firmware.bin '' @ l @ ''.bin'',
             ''tar -cvf '' @ l @ ''.tar '' @ l @ ''.bin '' @ l @ ''_ICON.bin'', ''```'', [],
             ''Copy the tar file to the SD card `/apps/` folder.''])"

definition create_standalone_project :: "string \<Rightarrow> string \<Rightarrow> string \<Rightarrow> (string \<times> string) list" where
  "create_standalone_project app_name source_code output_dir =
     [(os_path_join (os_path_join output_dir ''src'') ''appMain.cpp'', source_code),
      (os_path_join output_dir ''platformio.ini'', platformio_ini app_name),
      (os_path_join output_dir ''appPartition.csv'', partition_csv),
      (os_path_join output_dir ''README.md'', readme app_name)]"

section \<open>main (lines 199--245)\<close>

datatype export_err = ExUsage | ExNotFound

definition py_abspath :: "string \<Rightarrow> string \<Rightarrow> string" where
  "py_abspath cwd p = py_normpath (os_path_join cwd p)"

definition export_main ::
  "host_fs \<Rightarrow> string \<Rightarrow> string \<Rightarrow> string list \<Rightarrow> export_err + (string \<times> string) list" where
  "export_main fs script_dir cwd argv =
     (if length argv < 2 then Inl ExUsage
      else
        let app_name = argv ! 1;
            output_dir = (if 3 \<le> length argv then argv ! 2
                          else os_path_join (os_path_join (os_path_join script_dir ''..'') ''Code'') (app_name @ ''_Standalone''));
            output_dir = py_abspath cwd output_dir
        in case find_integrated_app fs (pocketmage_src script_dir) app_name of
             None \<Rightarrow> Inl ExNotFound
           | Some source_path \<Rightarrow>
               Inr (create_standalone_project app_name
                      (convert_to_standalone (fs_read fs source_path) app_name) output_dir))"

section \<open>Lemmas\<close>

text \<open>Both scripts compute \<open>POCKETMAGE_SRC\<close> the same way, and the exporter finds the
  file the installer wrote unless \<open>{APP_UPPER}_APP.cpp\<close>, its first candidate, also
  exists.\<close>

lemma pocketmage_src_shared: "pocketmage_src sd = inst_pocketmage_src sd"
  by (simp add: pocketmage_src_def inst_pocketmage_src_def os_path_join_all_def)

lemma export_finds_installed:
  "fs_exists fs (app_output_path sd n) \<Longrightarrow>
   \<not> fs_exists fs (os_path_join (pocketmage_src sd) (py_upper n @ ''_APP.cpp'')) \<Longrightarrow>
   find_integrated_app fs (pocketmage_src sd) n = Some (app_output_path sd n)"
  by (simp add: find_integrated_app_def integrated_candidates_def app_output_path_def pocketmage_src_shared)

section \<open>Properties\<close>

text \<open>The exporter stops with the usage message exactly when no app name is given,
  and with "could not find" exactly when none of the four candidate paths exists;
  otherwise it writes the project.\<close>

theorem export_main_errors:
  "(export_main fs sd cwd argv = Inl ExUsage \<longleftrightarrow> length argv < 2) \<and>
   (export_main fs sd cwd argv = Inl ExNotFound \<longleftrightarrow>
      2 \<le> length argv \<and> list_all (\<lambda>p. \<not> fs_exists fs p) (integrated_candidates (pocketmage_src sd) (argv ! 1)))"
  by (auto simp: export_main_def find_integrated_app_def find_None_iff list_all_iff Let_def
           dest: find_SomeD split: option.split)

text \<open>Installing and then exporting an app does not give the app back: the
  installer deletes \<open>setup()\<close> and renames \<open>appInit\<close> to \<open>appInit_DEMO\<close>, the
  exporter neither restores the name nor the call, and the generic \<open>setup()\<close> it
  appends does not call the app's init function.\<close>

theorem install_export_loses_setup:
  "convert_to_standalone (convert_app_code (''void appInit() {}'' @ nl @ ''void setup() { appInit(); }'' @ nl) ''Demo'') ''Demo'' =
   ''void appInit_DEMO() {}'' @ nl @ nl @ ''// Function removed - handled by main firmware'' @ nl @ standalone_functions"
proof -
  have inst: "convert_app_code (''void appInit() {}'' @ nl @ ''void setup() { appInit(); }'' @ nl) ''Demo'' =
      ''void appInit_DEMO() {}'' @ nl @ removed_marker @ nl"
    by code_simp
  have exp: "py_rstrip (standalone_body (''void appInit_DEMO() {}'' @ nl @ removed_marker @ nl) ''Demo'') =
      ''void appInit_DEMO() {}'' @ nl @ nl @ ''// Function removed - handled by main firmware''"
    by code_simp
  show ?thesis unfolding convert_to_standalone_def inst exp by simp
qed

end
