(* ===== verification/PeriodicHeader.thy ===== *)
theory PeriodicHeader
  imports PeriodicPack
begin

text \<open>
  The header writer of \<open>src/tools/utils/Periodic Table/pack_periodic.py\<close> (lines
  228--275) and the script's entry point (lines 277--280): the three string heaps as
  \<open>uint8_t\<close> initializers with their sizes, then the 119-entry \<open>PT_ELEMENTS\<close> table,
  one initializer per slot of the packer's state. The file is opened only after the
  loop of \<open>main\<close> has finished, so an exception in the loop leaves no header. The
  consumer reads an initializer back as the comma-separated decimal literals
  (\<open>read_decimals\<close>).
\<close>

section \<open>Enumerator spellings (lines 35--54)\<close>

definition category_text :: "elem_category \<Rightarrow> string" where
  "category_text c = ''ElemCategory::'' @
     (case c of AlkaliMetal \<Rightarrow> ''AlkaliMetal'' | AlkalineEarth \<Rightarrow> ''AlkalineEarth''
      | Transition \<Rightarrow> ''Transition'' | PostTransition \<Rightarrow> ''PostTransition'' | Metalloid \<Rightarrow> ''Metalloid''
      | NobleGas \<Rightarrow> ''NobleGas'' | Lanthanoid \<Rightarrow> ''Lanthanoid'' | Actinoid \<Rightarrow> ''Actinoid''
      | ReactiveNonmetal \<Rightarrow> ''ReactiveNonmetal'' | CatUnknown \<Rightarrow> ''Unknown'')"

definition block_text :: "elem_block \<Rightarrow> string" where
  "block_text b = ''ElemBlock::'' @
     (case b of BlockS \<Rightarrow> ''s'' | BlockP \<Rightarrow> ''p'' | BlockD \<Rightarrow> ''d'' | BlockF \<Rightarrow> ''f'' | BlockUnknown \<Rightarrow> ''Unknown'')"

section \<open>The header (lines 228--275)\<close>

text \<open>\<open>','.join(map(str, blob))\<close>.\<close>

definition byte_list_text :: "byte list \<Rightarrow> string" where
  "byte_list_text bs = py_join '','' (map (\<lambda>b. nat_digits (unat b)) bs)"

definition blob_decl :: "string \<Rightarrow> string \<Rightarrow> byte list \<Rightarrow> string" where
  "blob_decl arr size_name bs =
     ''const uint8_t '' @ arr @ ''[] = {'' @ byte_list_text bs @ ''};'' @ nl @
     ''const uint32_t '' @ size_name @ '' = '' @ nat_digits (length bs) @ '';'' @ nl"

text \<open>One record (lines 253--274): the twenty fields in the order of the dict.\<close>

definition element_row :: "packed_element \<Rightarrow> string" where
  "element_row r =
     ''  {'' @
     py_join '',''
       [int_repr (pe_z r), int_repr (mass_milli r), int_repr (mp_kx100 r), int_repr (bp_kx100 r),
        int_repr (density_x1000 r), int_repr (ion_eVx1000 r), int_repr (en_paulingx100 r),
        int_repr (electron_aff_x100 r), int_repr (pe_group r), int_repr (pe_period r),
        int_repr (valence_e r), int_repr (oxid_min_biased r), int_repr (oxid_max_biased r),
        int_repr (pe_flags r), category_text (pe_category r), block_text (pe_block r),
        nat_digits (sym_off r), nat_digits (name_off r), nat_digits (discoverer_off r),
        int_repr (discovery_year r)] @
     ''},'' @ nl"

definition slot_row :: "packed_element option \<Rightarrow> string" where
  "slot_row s = (case s of None \<Rightarrow> ''  {0},'' @ nl | Some r \<Rightarrow> element_row r)"

text \<open>The initializers of \<open>PT_ELEMENTS\<close>, index 0 first (lines 246--274).\<close>

definition element_rows :: "pack_state \<Rightarrow> string list" where
  "element_rows st = (''  {0}, // index 0 unused'' @ nl) # map (\<lambda>z. slot_row (packed st ! z)) [1..<119]"

definition emit_header :: "pack_state \<Rightarrow> string" where
  "emit_header st =
     ''// AUTO-GENERATED by pack_periodic.py '' @ em_dash @ '' do not edit.'' @ nl @
     ''#pragma once'' @ nl @ ''#include \"periodic_data.h\"'' @ nl @ nl @
     blob_decl ''PT_SYM_BYTES'' ''PT_SYM_SIZE'' (sym_blob st) @ nl @
     blob_decl ''PT_NAME_BYTES'' ''PT_NAME_SIZE'' (name_blob st) @ nl @
     blob_decl ''PT_DISC_BYTES'' ''PT_DISC_SIZE'' (disc_blob st) @
     ''const PackedElement PT_ELEMENTS[119] = {'' @ nl @ concat (element_rows st) @ ''};'' @ nl"

section \<open>The script (lines 277--280)\<close>

text \<open>\<open>pack_periodic.py IN OUT\<close>: the usage check, then \<open>main\<close>; \<open>read\<close> is
  \<open>rd\<close>, the JSON document of a path. The result is the path and content of the one
  file written.\<close>

definition pack_periodic_script :: "(string \<Rightarrow> jval pyres) \<Rightarrow> string list \<Rightarrow> (string \<times> string) pyres" where
  "pack_periodic_script read argv =
     (if length argv \<noteq> 3 then Inl (Die ''Usage: pack_periodic.py PeriodicTableJSON.json src/periodic_data_pack.h'')
      else pybind (read (argv ! 1)) (\<lambda>root.
           pybind (pack_main root) (\<lambda>st. Inr (argv ! 2, emit_header st))))"

section \<open>The consumer's reading\<close>

definition read_decimals :: "string \<Rightarrow> nat list" where
  "read_decimals t = map digits_val (split_on CHR '','' t)"

text \<open>The initializers of one table row \<open>  {v1,...,vn},\<close> as the compiler reads them,
  one per comma-separated item.\<close>

definition c_initializers :: "string \<Rightarrow> string list" where
  "c_initializers row = split_on CHR '','' (take (length row - 6) (drop 3 row))"


section \<open>Lemmas\<close>

lemma pack_main_inv: "pack_main root_json = Inr st \<Longrightarrow> pack_inv st"
  using pack_main_Inr pack_loop_inv pack_inv_init by blast

lemma element_row_prefix: "prefix (''  {'' @ int_repr (pe_z r) @ '','') (element_row r)"
  unfolding element_row_def by (simp del: nat_digits.simps)

lemma element_rows_nth:
  "length (element_rows st) = 119 \<and> element_rows st ! 0 = ''  {0}, // index 0 unused'' @ nl \<and>
   (0 < k \<longrightarrow> k < 119 \<longrightarrow> element_rows st ! k = slot_row (packed st ! k))"
  unfolding element_rows_def by (cases k) (simp_all add: nth_Cons' del: upt_Suc)

lemma c_initializers_row:
  "vs \<noteq> [] \<Longrightarrow> \<forall>v\<in>set vs. CHR '','' \<notin> set v \<Longrightarrow>
   c_initializers (''  {'' @ py_join '','' vs @ ''},'' @ nl) = vs"
  by (simp add: c_initializers_def nl_def split_on_py_join)

lemma comma_notin_int_repr: "CHR '','' \<notin> set (int_repr i)"
  by (simp add: int_repr_def comma_notin_nat_digits del: nat_digits.simps)

lemma category_block_comma_free: "CHR '','' \<notin> set (category_text x)" "CHR '','' \<notin> set (block_text y)"
  by (cases x; simp add: category_text_def) (cases y; simp add: block_text_def)

text \<open>Every record row of the header has twenty initializers, in the order of the dict.\<close>

lemma element_row_initializers:
  "c_initializers (element_row p) =
      [int_repr (pe_z p), int_repr (mass_milli p), int_repr (mp_kx100 p), int_repr (bp_kx100 p),
        int_repr (density_x1000 p), int_repr (ion_eVx1000 p), int_repr (en_paulingx100 p),
        int_repr (electron_aff_x100 p), int_repr (pe_group p), int_repr (pe_period p),
        int_repr (valence_e p), int_repr (oxid_min_biased p), int_repr (oxid_max_biased p),
        int_repr (pe_flags p), category_text (pe_category p), block_text (pe_block p),
        nat_digits (sym_off p), nat_digits (name_off p), nat_digits (discoverer_off p),
        int_repr (discovery_year p)]"
  unfolding element_row_def
  by (rule c_initializers_row)
     (simp_all only: list.simps set_simps insert_iff empty_iff ball_simps comma_notin_int_repr
        comma_notin_nat_digits category_block_comma_free simp_thms)

section \<open>Properties\<close>

text \<open>C28. The heap initializers round-trip: reading a non-empty \<open>','.join(map(str, blob))\<close>
  back as comma-separated decimal literals gives the bytes of the heap, in order.\<close>

theorem byte_list_roundtrip:
  "bs \<noteq> [] \<Longrightarrow> read_decimals (byte_list_text bs) = map unat bs"
proof -
  assume "bs \<noteq> []"
  moreover have "\<forall>x\<in>set (map (\<lambda>b. nat_digits (unat b)) bs). CHR '','' \<notin> set x"
    using comma_notin_nat_digits by (auto simp del: nat_digits.simps)
  ultimately show ?thesis
    unfolding read_decimals_def byte_list_text_def
    by (simp add: split_on_py_join digits_val_nat_digits del: nat_digits.simps)
qed

theorem byte_list_roundtrip_witness:
  "read_decimals (byte_list_text [72, 0, 255]) = [72, 0, 255]"
proof -
  have "map unat [72, 0, 255 :: byte] = [72, 0, 255]" by simp
  moreover have "read_decimals (byte_list_text [72, 0, 255]) = map unat [72, 0, 255 :: byte]"
    by (rule byte_list_roundtrip) simp
  ultimately show ?thesis by (simp only:)
qed

text \<open>C29. After a completed run of \<open>main\<close>'s loop the table the header writes has 119
  initializers, and the one at index \<open>k\<close> of a filled slot is that slot's record and
  begins with \<open>{k,\<close>: the C array index and the record's \<open>z\<close> field agree; slot 0 is
  never filled.\<close>

theorem header_row_of_slot:
  assumes "pack_main root_json = Inr st" and "k < 119" and "packed st ! k = Some r"
  shows "0 < k \<and> length (element_rows st) = 119 \<and> element_rows st ! k = element_row r \<and>
         prefix (''  {'' @ int_repr (int k) @ '','') (element_rows st ! k)"
proof -
  have inv: "pack_inv st" using pack_main_inv [OF assms(1)] .
  then have "packed st ! 0 = None" by (simp add: pack_inv_def)
  with assms(3) have k: "0 < k" by (cases k) auto
  have z: "pe_z r = int k" using pack_inv_slot [OF inv assms(2,3)] by simp
  have "element_rows st ! k = element_row r"
    using element_rows_nth [of st k] k assms(2,3) by (simp add: slot_row_def)
  then show ?thesis using k element_rows_nth [of st k] element_row_prefix [of r] z by simp
qed

theorem header_row_of_slot_witness:
  "\<exists>st r. pack_main (JObj [(''elements'', JList [JObj [(''number'', JInt 1), (''symbol'', JStr ''H''),
            (''name'', JStr ''Hydrogen'')]])]) = Inr st \<and> packed st ! 1 = Some r \<and>
          prefix (''  {1,'') (element_rows st ! 1)"
proof -
  obtain st r where h: "pack_main (JObj [(''elements'', JList [JObj [(''number'', JInt 1), (''symbol'', JStr ''H''),
            (''name'', JStr ''Hydrogen'')]])]) = Inr st" "packed st ! 1 = Some r"
    by (auto simp: pack_eval)
  have one: "(1::nat) < 119" by simp
  from header_row_of_slot [OF h(1) one h(2)]
  have "prefix (''  {'' @ int_repr (int 1) @ '','') (element_rows st ! 1)" by blast
  then have "prefix (''  {1,'') (element_rows st ! 1)" by (simp add: int_repr_def digit_char_def)
  with h show ?thesis by blast
qed

end
