(* ===== verification/GenElements.thy ===== *)
theory GenElements
  imports PeriodicHeader
begin

text \<open>
  \<open>src/tools/utils/Periodic Table/gen_elements.py\<close>, the second generator of the
  periodic-table header: \<open>emit_tables\<close> (lines 80--166), its loop over the elements
  (one iteration is \<open>gen_step\<close>, the loop \<open>gen_loop\<close>, and the same loop as a
  small-step relation \<open>gen_small\<close> on configurations), the text it writes
  (\<open>emit_tables_text\<close>), the sample data set (lines 50--78) and \<open>main\<close>
  (lines 168--184). The record of an element is the source's \<open>OrderedDict\<close>, a list of
  key/value pairs whose values are what \<open>str()\<close> later prints. \<open>scale_value\<close>,
  the two mappers and \<open>add_string_to_table\<close> are those of \<open>NumericEncoder\<close>,
  \<open>EnumMapper\<close> and \<open>StringHeap\<close>. The well-formed elements \<open>gen_elem_ok\<close>
  are the input on which an iteration cannot raise; progress (\<open>gen_step_ok\<close>) and
  the preserved length of the slot list give the liveness of the loop.
\<close>

unbundle bit_operations_syntax

section \<open>Python list assignment\<close>

text \<open>\<open>xs[i] = v\<close>: an int (or bool) index in \<open>[-len, len)\<close>, a negative one counted
  from the end; \<open>IndexError\<close> outside, \<open>TypeError\<close> for a non-integer index.\<close>

definition py_setitem :: "'a list \<Rightarrow> jval \<Rightarrow> 'a \<Rightarrow> 'a list pyres" where
  "py_setitem xs i v =
     (case (case i of JInt k \<Rightarrow> Some k | JBool b \<Rightarrow> Some (of_bool b) | _ \<Rightarrow> None) of
        None \<Rightarrow> Inl TypeError
      | Some k \<Rightarrow>
          if - int (length xs) \<le> k \<and> k < int (length xs)
          then Inr (xs[nat (if k < 0 then k + int (length xs) else k) := v])
          else Inl IndexError)"

section \<open>The record of one element (lines 100--123)\<close>

type_synonym gen_record = "(string \<times> jval) list"

record gen_state =
  g_sym :: "byte list"
  g_name :: "byte list"
  g_disc :: "byte list"
  g_packed :: "gen_record option list"

text \<open>\<open>(v + 64) & 0xFF\<close>: an int or a bool; a float, string or \<open>None\<close> operand makes
  \<open>+\<close> or \<open>&\<close> raise \<open>TypeError\<close>.\<close>

definition oxid_mask :: "jval \<Rightarrow> int pyres" where
  "oxid_mask v =
     (case v of
        JInt i \<Rightarrow> Inr ((i + 64) AND 255)
      | JBool b \<Rightarrow> Inr ((of_bool b + 64) AND 255)
      | _ \<Rightarrow> Inl TypeError)"

text \<open>\<open>f'static_cast<T>({k})'\<close>.\<close>

definition cast_text :: "string \<Rightarrow> nat \<Rightarrow> jval" where
  "cast_text ty k = JStr (''static_cast<'' @ ty @ ''>('' @ nat_digits k @ '')'')"

definition gen_record_of :: "jdict \<Rightarrow> jval \<Rightarrow> nat \<Rightarrow> nat \<Rightarrow> nat \<Rightarrow> gen_record pyres" where
  "gen_record_of elem z s_off n_off d_off =
     pybind (scale_value (py_get elem ''mass'' JNull) 1000 (-1)) (\<lambda>mass.
     pybind (scale_value (py_get elem ''mp_k'' JNull) 100 (-1)) (\<lambda>mp.
     pybind (scale_value (py_get elem ''bp_k'' JNull) 100 (-1)) (\<lambda>bp.
     pybind (scale_value (py_get elem ''density'' JNull) 1000 0) (\<lambda>density.
     pybind (scale_value (py_get elem ''ionization_ev'' JNull) 1000 0) (\<lambda>ion.
     pybind (scale_value (py_get elem ''en'' JNull) 100 0) (\<lambda>en.
     pybind (oxid_mask (py_get elem ''oxid_min'' (JInt 0))) (\<lambda>omin.
     pybind (oxid_mask (py_get elem ''oxid_max'' (JInt 0))) (\<lambda>omax.
     pybind (gen_map_category (py_get elem ''category'' (JStr ''unknown''))) (\<lambda>cat.
     pybind (gen_map_block (py_get elem ''block'' (JStr ''s''))) (\<lambda>blk.
     Inr [(''z'', z), (''mass_milli'', JInt mass),
          (''mp_kx100'', JInt (clamp (-32768) 32767 mp)), (''bp_kx100'', JInt (clamp (-32768) 32767 bp)),
          (''density_mgx1000'', JInt (clamp 0 65535 density)), (''ion_eVx1000'', JInt (clamp 0 65535 ion)),
          (''en_paulingx100'', JInt (clamp 0 65535 en)),
          (''group'', py_get elem ''group'' (JInt 0)), (''period'', py_get elem ''period'' (JInt 0)),
          (''valence_e'', py_get elem ''valence_e'' (JInt 0)),
          (''oxidation_min'', JInt omin), (''oxidation_max'', JInt omax),
          (''flags'', py_get elem ''flags'' (JInt 0)),
          (''category'', cast_text ''ElemCategory'' cat), (''block'', cast_text ''ElemBlock'' blk),
          (''sym_off'', JInt (int s_off)), (''name_off'', JInt (int n_off)),
          (''discoverer_off'', JInt (int d_off)),
          (''discovery_year'', py_get elem ''discovery_year'' (JInt 0))]))))))))))"

section \<open>The loop of emit_tables (lines 92--125)\<close>

text \<open>One iteration: \<open>elem['z']\<close>, the three strings interned in the order of the
  source, the record, then \<open>packed[z] = rec\<close> with no check of the slot.\<close>

definition gen_step :: "gen_state \<Rightarrow> jval \<Rightarrow> gen_state pyres" where
  "gen_step st e =
     (case e of
        JObj elem \<Rightarrow>
          pybind (py_index elem ''z'') (\<lambda>z.
          pybind (pybind (py_index elem ''symbol'') (add_string_to_table (g_sym st))) (\<lambda>(sym, s_off).
          pybind (pybind (py_index elem ''name'') (add_string_to_table (g_name st))) (\<lambda>(name, n_off).
          pybind (add_string_to_table (g_disc st) (py_get elem ''discoverer'' (JStr []))) (\<lambda>(disc, d_off).
          pybind (gen_record_of elem z s_off n_off d_off) (\<lambda>rec.
          pybind (py_setitem (g_packed st) z (Some rec)) (\<lambda>packed.
          Inr \<lparr>g_sym = sym, g_name = name, g_disc = disc, g_packed = packed\<rparr>))))))
      | _ \<Rightarrow> Inl TypeError)"

fun gen_loop :: "gen_state \<Rightarrow> jval list \<Rightarrow> gen_state pyres" where
  "gen_loop st [] = Inr st"
| "gen_loop st (e # es) = pybind (gen_step st e) (\<lambda>st'. gen_loop st' es)"

definition init_gen :: gen_state where
  "init_gen = \<lparr>g_sym = [], g_name = [], g_disc = [], g_packed = replicate 119 None\<rparr>"

text \<open>The same loop as a transition system: a configuration is running with the
  elements still to visit, finished, or stopped by an exception.\<close>

datatype gen_conf = Running gen_state "jval list" | Finished gen_state | Raised pyexc

inductive gen_small :: "gen_conf \<Rightarrow> gen_conf \<Rightarrow> bool" where
  gen_next: "gen_step st e = Inr st' \<Longrightarrow> gen_small (Running st (e # es)) (Running st' es)"
| gen_raise: "gen_step st e = Inl x \<Longrightarrow> gen_small (Running st (e # es)) (Raised x)"
| gen_done: "gen_small (Running st []) (Finished st)"

code_pred gen_small .

section \<open>The header (lines 128--166)\<close>

definition write_blob :: "string \<Rightarrow> byte list \<Rightarrow> string" where
  "write_blob name blob =
     ''const uint8_t '' @ name @ ''[] = {'' @ (if blob \<noteq> [] then byte_list_text blob else []) @ ''};'' @ nl @
     ''const uint32_t '' @ name @ ''_SIZE'' @ '' = '' @ nat_digits (length blob) @ '';'' @ nl @ nl"

text \<open>Lines 156--160: an enum cast is written as it is, anything else through
  \<open>str()\<close>.\<close>

definition value_text :: "jval \<Rightarrow> string" where
  "value_text v = (case v of JStr s \<Rightarrow> if py_in ''static_cast'' s then s else py_str v | _ \<Rightarrow> py_str v)"

definition gen_row :: "gen_record \<Rightarrow> string" where
  "gen_row r = ''  {'' @ py_join '','' (map (\<lambda>kv. value_text (snd kv)) r) @ ''},'' @ nl"

definition gen_slot_row :: "gen_record option \<Rightarrow> string" where
  "gen_slot_row s =
     (case s of Some r \<Rightarrow> if r \<noteq> [] then gen_row r else ''  {0}, // element not defined'' @ nl
      | None \<Rightarrow> ''  {0}, // element not defined'' @ nl)"

definition emit_tables_text :: "gen_state \<Rightarrow> string" where
  "emit_tables_text st =
     ''#pragma once'' @ nl @ ''#include \"periodic_data.h\"'' @ nl @ nl @
     write_blob ''PT_SYM_BYTES'' (g_sym st) @ write_blob ''PT_NAME_BYTES'' (g_name st) @
     write_blob ''PT_DISC_BYTES'' (g_disc st) @
     ''const PackedElement PT_ELEMENTS[119] = {'' @ nl @ ''  {0}, // index 0 unused'' @ nl @
     concat (map (\<lambda>z. gen_slot_row (g_packed st ! z)) [1..<119]) @ ''};'' @ nl"

text \<open>\<open>emit_tables(elements_data, out_h)\<close>: the text of the one file written; the file
  is opened after the loop, so an exception leaves no file.\<close>

definition emit_tables :: "jval \<Rightarrow> string pyres" where
  "emit_tables elements_data =
     pybind (case elements_data of JObj d \<Rightarrow> py_index d ''elements'' | _ \<Rightarrow> Inl TypeError) (\<lambda>elements.
     pybind (py_iter elements) (\<lambda>es.
     pybind (gen_loop init_gen es) (\<lambda>st. Inr (emit_tables_text st))))"


section \<open>Sample data and main (lines 50--78, 168--184)\<close>

text \<open>The twenty elements of \<open>generate_sample_data\<close>; a float literal is the decimal
  \<open>JNum m e\<close> of its \<open>repr\<close>.\<close>

definition sample_elements :: "jval list" where
  "sample_elements =
     [JObj [(''z'', JInt 1), (''symbol'', JStr ''H''), (''name'', JStr ''Hydrogen''),
           (''mass'', JNum 1008 (-3)), (''group'', JInt 1), (''period'', JInt 1), (''block'', JStr ''s''),
           (''category'', JStr ''reactive nonmetal''), (''mp_k'', JNum 1401 (-2)), (''bp_k'', JNum 2028 (-2)),
           (''density'', JNum 8988 (-8)), (''en'', JNum 22 (-1))],
      JObj [(''z'', JInt 2), (''symbol'', JStr ''He''), (''name'', JStr ''Helium''),
            (''mass'', JNum 4003 (-3)), (''group'', JInt 18), (''period'', JInt 1), (''block'', JStr ''s''),
            (''category'', JStr ''noble gas''), (''mp_k'', JNum 95 (-2)), (''bp_k'', JNum 422 (-2)),
            (''density'', JNum 1785 (-7)), (''en'', JNull)],
      JObj [(''z'', JInt 3), (''symbol'', JStr ''Li''), (''name'', JStr ''Lithium''),
            (''mass'', JNum 6941 (-3)), (''group'', JInt 1), (''period'', JInt 2), (''block'', JStr ''s''),
            (''category'', JStr ''alkali metal''), (''mp_k'', JNum 45369 (-2)), (''bp_k'', JInt 1615),
            (''density'', JNum 534 (-3)), (''en'', JNum 98 (-2))],
      JObj [(''z'', JInt 4), (''symbol'', JStr ''Be''), (''name'', JStr ''Beryllium''),
            (''mass'', JNum 9012 (-3)), (''group'', JInt 2), (''period'', JInt 2), (''block'', JStr ''s''),
            (''category'', JStr ''alkaline earth metal''), (''mp_k'', JInt 1560), (''bp_k'', JInt 2742),
            (''density'', JNum 185 (-2)), (''en'', JNum 157 (-2))],
      JObj [(''z'', JInt 5), (''symbol'', JStr ''B''), (''name'', JStr ''Boron''), (''mass'', JNum 10811 (-3)),
            (''group'', JInt 13), (''period'', JInt 2), (''block'', JStr ''p''),
            (''category'', JStr ''metalloid''), (''mp_k'', JInt 2349), (''bp_k'', JInt 4200),
            (''density'', JNum 234 (-2)), (''en'', JNum 204 (-2))],
      JObj [(''z'', JInt 6), (''symbol'', JStr ''C''), (''name'', JStr ''Carbon''),
            (''mass'', JNum 12011 (-3)), (''group'', JInt 14), (''period'', JInt 2), (''block'', JStr ''p''),
            (''category'', JStr ''reactive nonmetal''), (''mp_k'', JInt 3915), (''bp_k'', JInt 4098),
            (''density'', JNum 2267 (-3)), (''en'', JNum 255 (-2))],
      JObj [(''z'', JInt 7), (''symbol'', JStr ''N''), (''name'', JStr ''Nitrogen''),
            (''mass'', JNum 14007 (-3)), (''group'', JInt 15), (''period'', JInt 2), (''block'', JStr ''p''),
            (''category'', JStr ''reactive nonmetal''), (''mp_k'', JNum 6315 (-2)), (''bp_k'', JNum 7736 (-2)),
            (''density'', JNum 12506 (-7)), (''en'', JNum 304 (-2))],
      JObj [(''z'', JInt 8), (''symbol'', JStr ''O''), (''name'', JStr ''Oxygen''),
            (''mass'', JNum 15999 (-3)), (''group'', JInt 16), (''period'', JInt 2), (''block'', JStr ''p''),
            (''category'', JStr ''reactive nonmetal''), (''mp_k'', JNum 5436 (-2)), (''bp_k'', JNum 902 (-1)),
            (''density'', JNum 1429 (-6)), (''en'', JNum 344 (-2))],
      JObj [(''z'', JInt 9), (''symbol'', JStr ''F''), (''name'', JStr ''Fluorine''),
            (''mass'', JNum 18998 (-3)), (''group'', JInt 17), (''period'', JInt 2), (''block'', JStr ''p''),
            (''category'', JStr ''reactive nonmetal''), (''mp_k'', JNum 5353 (-2)), (''bp_k'', JNum 8503 (-2)),
            (''density'', JNum 1696 (-6)), (''en'', JNum 398 (-2))],
      JObj [(''z'', JInt 10), (''symbol'', JStr ''Ne''), (''name'', JStr ''Neon''), (''mass'', JNum 2018 (-2)),
            (''group'', JInt 18), (''period'', JInt 2), (''block'', JStr ''p''),
            (''category'', JStr ''noble gas''), (''mp_k'', JNum 2456 (-2)), (''bp_k'', JNum 2707 (-2)),
            (''density'', JNum 8999 (-7)), (''en'', JNull)],
      JObj [(''z'', JInt 11), (''symbol'', JStr ''Na''), (''name'', JStr ''Sodium''),
            (''mass'', JNum 2299 (-2)), (''group'', JInt 1), (''period'', JInt 3), (''block'', JStr ''s''),
            (''category'', JStr ''alkali metal''), (''mp_k'', JNum 37087 (-2)), (''bp_k'', JInt 1156),
            (''density'', JNum 971 (-3)), (''en'', JNum 93 (-2))],
      JObj [(''z'', JInt 12), (''symbol'', JStr ''Mg''), (''name'', JStr ''Magnesium''),
            (''mass'', JNum 24305 (-3)), (''group'', JInt 2), (''period'', JInt 3), (''block'', JStr ''s''),
            (''category'', JStr ''alkaline earth metal''), (''mp_k'', JInt 923), (''bp_k'', JInt 1363),
            (''density'', JNum 1738 (-3)), (''en'', JNum 131 (-2))],
      JObj [(''z'', JInt 13), (''symbol'', JStr ''Al''), (''name'', JStr ''Aluminum''),
            (''mass'', JNum 26982 (-3)), (''group'', JInt 13), (''period'', JInt 3), (''block'', JStr ''p''),
            (''category'', JStr ''post-transition metal''), (''mp_k'', JNum 93347 (-2)), (''bp_k'', JInt 2792),
            (''density'', JNum 2698 (-3)), (''en'', JNum 161 (-2))],
      JObj [(''z'', JInt 14), (''symbol'', JStr ''Si''), (''name'', JStr ''Silicon''),
            (''mass'', JNum 28086 (-3)), (''group'', JInt 14), (''period'', JInt 3), (''block'', JStr ''p''),
            (''category'', JStr ''metalloid''), (''mp_k'', JInt 1687), (''bp_k'', JInt 3538),
            (''density'', JNum 23296 (-4)), (''en'', JNum 19 (-1))],
      JObj [(''z'', JInt 15), (''symbol'', JStr ''P''), (''name'', JStr ''Phosphorus''),
            (''mass'', JNum 30974 (-3)), (''group'', JInt 15), (''period'', JInt 3), (''block'', JStr ''p''),
            (''category'', JStr ''reactive nonmetal''), (''mp_k'', JNum 3173 (-1)), (''bp_k'', JInt 550),
            (''density'', JNum 182 (-2)), (''en'', JNum 219 (-2))],
      JObj [(''z'', JInt 16), (''symbol'', JStr ''S''), (''name'', JStr ''Sulfur''),
            (''mass'', JNum 32065 (-3)), (''group'', JInt 16), (''period'', JInt 3), (''block'', JStr ''p''),
            (''category'', JStr ''reactive nonmetal''), (''mp_k'', JNum 38836 (-2)),
            (''bp_k'', JNum 71787 (-2)), (''density'', JNum 2067 (-3)), (''en'', JNum 258 (-2))],
      JObj [(''z'', JInt 17), (''symbol'', JStr ''Cl''), (''name'', JStr ''Chlorine''),
            (''mass'', JNum 35453 (-3)), (''group'', JInt 17), (''period'', JInt 3), (''block'', JStr ''p''),
            (''category'', JStr ''reactive nonmetal''), (''mp_k'', JNum 1716 (-1)),
            (''bp_k'', JNum 23911 (-2)), (''density'', JNum 3214 (-6)), (''en'', JNum 316 (-2))],
      JObj [(''z'', JInt 18), (''symbol'', JStr ''Ar''), (''name'', JStr ''Argon''),
            (''mass'', JNum 39948 (-3)), (''group'', JInt 18), (''period'', JInt 3), (''block'', JStr ''p''),
            (''category'', JStr ''noble gas''), (''mp_k'', JNum 838 (-1)), (''bp_k'', JNum 873 (-1)),
            (''density'', JNum 17837 (-7)), (''en'', JNull)],
      JObj [(''z'', JInt 19), (''symbol'', JStr ''K''), (''name'', JStr ''Potassium''),
            (''mass'', JNum 39098 (-3)), (''group'', JInt 1), (''period'', JInt 4), (''block'', JStr ''s''),
            (''category'', JStr ''alkali metal''), (''mp_k'', JNum 33653 (-2)), (''bp_k'', JInt 1032),
            (''density'', JNum 862 (-3)), (''en'', JNum 82 (-2))],
      JObj [(''z'', JInt 20), (''symbol'', JStr ''Ca''), (''name'', JStr ''Calcium''),
            (''mass'', JNum 40078 (-3)), (''group'', JInt 2), (''period'', JInt 4), (''block'', JStr ''s''),
            (''category'', JStr ''alkaline earth metal''), (''mp_k'', JInt 1115), (''bp_k'', JInt 1757),
            (''density'', JNum 154 (-2)), (''en'', JNum 10 (-1))]]"


definition generate_sample_data :: jval where
  "generate_sample_data = JObj [(''elements'', JList sample_elements)]"

text \<open>\<open>gen_elements.py ARG OUT\<close>; \<open>read\<close> is \<open>json.load\<close> of a path. The usage
  text goes to stdout before \<open>sys.exit(1)\<close>; the result is the path and content of the
  one file written.\<close>

definition gen_main :: "(string \<Rightarrow> jval pyres) \<Rightarrow> string list \<Rightarrow> (string \<times> string) pyres" where
  "gen_main read argv =
     (if length argv < 3
      then Inl (Die (''Usage: gen_elements.py <input.json> <output.h>'' @ nl @
                     ''       gen_elements.py --sample <output.h>  (generate sample data)''))
      else if argv ! 1 = ''--sample''
      then pybind (emit_tables generate_sample_data) (\<lambda>h. Inr (argv ! 2, h))
      else pybind (read (argv ! 1)) (\<lambda>elements_data.
           pybind (emit_tables elements_data) (\<lambda>h. Inr (argv ! 2, h))))"


section \<open>Well-formed elements\<close>

text \<open>A value \<open>scale_value\<close> scales without an uncaught exception: \<open>float()\<close> fails
  with an exception it catches, or gives a float whose scaled value is finite or NaN.\<close>

definition num_ok :: "real \<Rightarrow> jval \<Rightarrow> bool" where
  "num_ok s v =
     (case py_float v of
        Inl e \<Rightarrow> e \<noteq> OverflowError
      | Inr (Fin r) \<Rightarrow> \<bar>r * s\<bar> < float_limit
      | Inr NaN \<Rightarrow> True
      | Inr _ \<Rightarrow> False)"

text \<open>A value \<open>add_string_to_table\<close> interns: a string or a falsy value.\<close>

definition str_ok :: "jval \<Rightarrow> bool" where
  "str_ok v = (case v of JStr _ \<Rightarrow> True | _ \<Rightarrow> \<not> py_truthy v)"

definition int_ok :: "jval \<Rightarrow> bool" where
  "int_ok v = (case v of JInt _ \<Rightarrow> True | JBool _ \<Rightarrow> True | _ \<Rightarrow> False)"

definition is_jstr :: "jval \<Rightarrow> bool" where
  "is_jstr v = (case v of JStr _ \<Rightarrow> True | _ \<Rightarrow> False)"

text \<open>A well-formed element: an int \<open>z\<close> in \<open>[-119, 118]\<close>, \<open>symbol\<close> and \<open>name\<close>
  present and internable, and every other field the record reads of a type its
  expression accepts.\<close>

definition gen_elem_ok :: "jval \<Rightarrow> bool" where
  "gen_elem_ok e =
     (case e of
        JObj d \<Rightarrow>
          (case py_index d ''z'' of Inr (JInt k) \<Rightarrow> - 119 \<le> k \<and> k < 119 | _ \<Rightarrow> False) \<and>
          (case py_index d ''symbol'' of Inr v \<Rightarrow> str_ok v | Inl _ \<Rightarrow> False) \<and>
          (case py_index d ''name'' of Inr v \<Rightarrow> str_ok v | Inl _ \<Rightarrow> False) \<and>
          str_ok (py_get d ''discoverer'' (JStr [])) \<and>
          list_all (\<lambda>(k, s). num_ok s (py_get d k JNull))
            [(''mass'', 1000), (''mp_k'', 100), (''bp_k'', 100), (''density'', 1000), (''ionization_ev'', 1000), (''en'', 100)] \<and>
          int_ok (py_get d ''oxid_min'' (JInt 0)) \<and> int_ok (py_get d ''oxid_max'' (JInt 0)) \<and>
          is_jstr (py_get d ''category'' (JStr ''unknown'')) \<and> is_jstr (py_get d ''block'' (JStr ''s''))
      | _ \<Rightarrow> False)"

section \<open>Lemmas\<close>

lemma neg_mod_wrap: "- n \<le> k \<Longrightarrow> k < 0 \<Longrightarrow> k mod n = k + (n::int)"
proof -
  assume "- n \<le> k" "k < 0"
  then have "(k + n) mod n = k + n" by (intro mod_pos_pos_trivial) auto
  then show ?thesis by simp
qed

lemma py_setitem_JInt:
  "py_setitem xs (JInt k) v =
     (if - int (length xs) \<le> k \<and> k < int (length xs) then Inr (xs[nat (k mod int (length xs)) := v])
      else Inl IndexError)"
  by (auto simp: py_setitem_def neg_mod_wrap)

lemma gen_record_of_Inr:
  "gen_record_of elem z a b c = Inr r \<Longrightarrow> length r = 19 \<and> hd r = (''z'', z)"
  unfolding gen_record_of_def by (auto simp: pybind_eq_Inr)

lemma gen_record_of_values:
  assumes "gen_record_of elem z a b c = Inr r"
  shows "\<forall>v\<in>set (map snd r). v \<in> {z, py_get elem ''group'' (JInt 0), py_get elem ''period'' (JInt 0),
           py_get elem ''valence_e'' (JInt 0), py_get elem ''flags'' (JInt 0), py_get elem ''discovery_year'' (JInt 0)} \<or>
         (\<exists>i. v = JInt i) \<or> (\<exists>k. v = cast_text ''ElemCategory'' k \<or> v = cast_text ''ElemBlock'' k)"
  using assms unfolding gen_record_of_def by (auto simp: pybind_eq_Inr)

inductive_cases gen_small_RunningE: "gen_small (Running st es) c"
inductive_cases gen_small_FinishedE: "gen_small (Finished st) c"
inductive_cases gen_small_RaisedE: "gen_small (Raised x) c"

lemma gen_small_final: "\<not> gen_small (Finished st) c" "\<not> gen_small (Raised x) c"
  by (auto elim: gen_small_FinishedE gen_small_RaisedE)

text \<open>The transition system is deterministic: a configuration has one run.\<close>

lemma gen_small_det: "gen_small c c1 \<Longrightarrow> gen_small c c2 \<Longrightarrow> c1 = c2"
  by (induction rule: gen_small.induct) (auto elim: gen_small_RunningE)

lemma value_text_comma_free:
  "(\<exists>i. v = JInt i) \<or> (\<exists>k. v = cast_text ''ElemCategory'' k \<or> v = cast_text ''ElemBlock'' k) \<Longrightarrow>
   CHR '','' \<notin> set (value_text v)"
  by (auto simp: value_text_def py_str_def cast_text_def py_in_sublist comma_notin_nat_digits comma_notin_int_repr
           simp del: nat_digits.simps)

text \<open>A row of \<open>emit_tables\<close> has one initializer per key of the record when the
  values read from the element as they are (\<open>z\<close>, \<open>group\<close>, \<open>period\<close>,
  \<open>valence_e\<close>, \<open>flags\<close>, \<open>discovery_year\<close>) are ints.\<close>

lemma gen_row_initializers:
  assumes "gen_record_of elem z a b c = Inr r"
    and "\<forall>v\<in>{z, py_get elem ''group'' (JInt 0), py_get elem ''period'' (JInt 0), py_get elem ''valence_e'' (JInt 0),
            py_get elem ''flags'' (JInt 0), py_get elem ''discovery_year'' (JInt 0)}. \<exists>i. v = JInt i"
  shows "c_initializers (gen_row r) = map (\<lambda>kv. value_text (snd kv)) r"
proof -
  have "CHR '','' \<notin> set (value_text v)" if "v \<in> set (map snd r)" for v
  proof (rule value_text_comma_free)
    from gen_record_of_values [OF assms(1)] that
    have "v \<in> {z, py_get elem ''group'' (JInt 0), py_get elem ''period'' (JInt 0), py_get elem ''valence_e'' (JInt 0),
            py_get elem ''flags'' (JInt 0), py_get elem ''discovery_year'' (JInt 0)} \<or>
         (\<exists>i. v = JInt i) \<or> (\<exists>k. v = cast_text ''ElemCategory'' k \<or> v = cast_text ''ElemBlock'' k)" by blast
    then show "(\<exists>i. v = JInt i) \<or> (\<exists>k. v = cast_text ''ElemCategory'' k \<or> v = cast_text ''ElemBlock'' k)"
      using assms(2) by blast
  qed
  moreover have "r \<noteq> []" using gen_record_of_Inr [OF assms(1)] by auto
  ultimately show ?thesis unfolding gen_row_def by (intro c_initializers_row) auto
qed

lemmas gen_eval = gen_step_def gen_record_of_def scale_value_def py_index_def dict_get_def py_get_def
  add_string_to_table_def utf8_def oxid_mask_def gen_map_category_def gen_map_block_def py_setitem_def
  init_gen_def cast_text_def Let_def

text \<open>A string value is written by \<open>str()\<close> as it is: a \<open>group\<close> of \<open>"1,2"\<close>
  gives the row a twentieth initializer and shifts every later field.\<close>

lemma gen_row_string_field_splits:
  "\<exists>r. gen_record_of [(''group'', JStr ''1,2'')] (JInt 1) 0 0 0 = Inr r \<and> length (c_initializers (gen_row r)) = 20"
proof -
  obtain r where r: "gen_record_of [(''group'', JStr ''1,2'')] (JInt 1) 0 0 0 = Inr r"
    by (simp add: gen_eval)
  have "case gen_record_of [(''group'', JStr ''1,2'')] (JInt 1) 0 0 0 of
          Inr r \<Rightarrow> length (c_initializers (gen_row r)) = 20 | Inl _ \<Rightarrow> False" by code_simp
  with r show ?thesis by auto
qed

lemma py_float_raises: "py_float v = Inl e \<Longrightarrow> e = TypeError \<or> e = OverflowError \<or> e = ValueError"
  by (cases v) (auto split: option.splits if_splits)

lemma scale_value_ok: "num_ok s v \<Longrightarrow> \<exists>k. scale_value v s m = Inr k"
  by (cases "py_float v")
     (auto simp: num_ok_def scale_value_def caught_value_type_def dest: py_float_raises
           split: pyfloat.splits if_splits)

lemma add_string_ok: "str_ok v \<Longrightarrow> \<exists>b. add_string_to_table blob v = Inr (b, length blob)"
  by (cases v) (auto simp: str_ok_def add_string_to_table_def)

lemma oxid_mask_ok: "int_ok v \<Longrightarrow> \<exists>k. oxid_mask v = Inr k"
  by (cases v) (auto simp: int_ok_def oxid_mask_def)

lemma mappers_ok: "is_jstr v \<Longrightarrow> \<exists>k. gen_map_category v = Inr k" "is_jstr v \<Longrightarrow> \<exists>k. gen_map_block v = Inr k"
  by (cases v; simp add: is_jstr_def gen_map_category_def gen_map_block_def)+

lemma gen_record_of_ok:
  assumes "gen_elem_ok (JObj d)"
  shows "\<exists>r. gen_record_of d z a b c = Inr r"
proof -
  from assms have n: "num_ok 1000 (py_get d ''mass'' JNull)" "num_ok 100 (py_get d ''mp_k'' JNull)"
    "num_ok 100 (py_get d ''bp_k'' JNull)" "num_ok 1000 (py_get d ''density'' JNull)"
    "num_ok 1000 (py_get d ''ionization_ev'' JNull)" "num_ok 100 (py_get d ''en'' JNull)"
    and o: "int_ok (py_get d ''oxid_min'' (JInt 0))" "int_ok (py_get d ''oxid_max'' (JInt 0))"
    and s: "is_jstr (py_get d ''category'' (JStr ''unknown''))" "is_jstr (py_get d ''block'' (JStr ''s''))"
    by (simp_all add: gen_elem_ok_def)
  obtain k1 k2 k3 k4 k5 k6 where
    "scale_value (py_get d ''mass'' JNull) 1000 (-1) = Inr k1" "scale_value (py_get d ''mp_k'' JNull) 100 (-1) = Inr k2"
    "scale_value (py_get d ''bp_k'' JNull) 100 (-1) = Inr k3" "scale_value (py_get d ''density'' JNull) 1000 0 = Inr k4"
    "scale_value (py_get d ''ionization_ev'' JNull) 1000 0 = Inr k5" "scale_value (py_get d ''en'' JNull) 100 0 = Inr k6"
    using scale_value_ok [OF n(1)] scale_value_ok [OF n(2)] scale_value_ok [OF n(3)]
      scale_value_ok [OF n(4)] scale_value_ok [OF n(5)] scale_value_ok [OF n(6)] by metis
  moreover obtain o1 o2 c1 c2 where "oxid_mask (py_get d ''oxid_min'' (JInt 0)) = Inr o1"
    "oxid_mask (py_get d ''oxid_max'' (JInt 0)) = Inr o2"
    "gen_map_category (py_get d ''category'' (JStr ''unknown'')) = Inr c1"
    "gen_map_block (py_get d ''block'' (JStr ''s'')) = Inr c2"
    using oxid_mask_ok [OF o(1)] oxid_mask_ok [OF o(2)] mappers_ok(1) [OF s(1)] mappers_ok(2) [OF s(2)] by metis
  ultimately show ?thesis unfolding gen_record_of_def by simp
qed

text \<open>Progress: a well-formed element in a 119-slot table makes one iteration succeed.\<close>

lemma gen_step_ok:
  assumes ok: "gen_elem_ok (JObj d)" and len: "length (g_packed st) = 119"
    and z: "py_index d ''z'' = Inr (JInt k)"
  shows "\<exists>st' r. gen_step st (JObj d) = Inr st' \<and> g_packed st' = (g_packed st)[nat (k mod 119) := Some r] \<and>
           hd r = (''z'', JInt k)"
proof -
  from ok z have k: "- 119 \<le> k" "k < 119" by (simp_all add: gen_elem_ok_def)
  from ok obtain sv nv where sv: "py_index d ''symbol'' = Inr sv" "str_ok sv"
    and nv: "py_index d ''name'' = Inr nv" "str_ok nv"
    and dv: "str_ok (py_get d ''discoverer'' (JStr []))"
    by (auto simp: gen_elem_ok_def split: sum.splits)
  obtain b1 where b1: "add_string_to_table (g_sym st) sv = Inr (b1, length (g_sym st))" using add_string_ok [OF sv(2)] by blast
  obtain b2 where b2: "add_string_to_table (g_name st) nv = Inr (b2, length (g_name st))" using add_string_ok [OF nv(2)] by blast
  obtain b3 where b3: "add_string_to_table (g_disc st) (py_get d ''discoverer'' (JStr [])) = Inr (b3, length (g_disc st))"
    using add_string_ok [OF dv] by blast
  obtain r where r: "gen_record_of d (JInt k) (length (g_sym st)) (length (g_name st)) (length (g_disc st)) = Inr r"
    using gen_record_of_ok [OF ok] by blast
  have hd: "hd r = (''z'', JInt k)" using gen_record_of_Inr [OF r] by simp
  have set: "py_setitem (g_packed st) (JInt k) (Some r) = Inr ((g_packed st)[nat (k mod 119) := Some r])"
    using k len by (simp add: py_setitem_JInt)
  show ?thesis using z sv(1) nv(1) b1 b2 b3 r set hd by (auto simp: gen_step_def)
qed

section \<open>Properties\<close>

text \<open>C30. Liveness of the loop of \<open>emit_tables\<close>: on a list of well-formed elements
  the run reaches a final configuration, \<open>Finished\<close> with the state \<open>gen_loop\<close>
  computes, whatever the elements' \<open>z\<close>: duplicates and negative keys do not stop it.\<close>

theorem gen_loop_live:
  assumes "list_all gen_elem_ok es" and "length (g_packed st) = 119"
  shows "\<exists>st'. gen_small\<^sup>*\<^sup>* (Running st es) (Finished st') \<and> (\<forall>c. \<not> gen_small (Finished st') c) \<and>
           gen_loop st es = Inr st' \<and> length (g_packed st') = 119"
  using assms
proof (induction es arbitrary: st)
  case Nil
  then show ?case using gen_done [of st] gen_small_final(1) by (auto intro: r_into_rtranclp)
next
  case (Cons e es)
  then obtain d k where e: "e = JObj d" "py_index d ''z'' = Inr (JInt k)" and ok: "gen_elem_ok (JObj d)"
    by (auto simp: gen_elem_ok_def split: jval.splits sum.splits)
  from gen_step_ok [OF ok Cons.prems(2) e(2)] obtain st' r where
    st': "gen_step st e = Inr st'" "g_packed st' = (g_packed st)[nat (k mod 119) := Some r]"
    using e(1) by blast
  with Cons.prems have "length (g_packed st') = 119" by simp
  with Cons.IH [of st'] Cons.prems obtain st'' where
    IH: "gen_small\<^sup>*\<^sup>* (Running st' es) (Finished st'')" "\<forall>c. \<not> gen_small (Finished st'') c"
        "gen_loop st' es = Inr st''" "length (g_packed st'') = 119" by auto
  have "gen_small\<^sup>*\<^sup>* (Running st (e # es)) (Finished st'')"
    using converse_rtranclp_into_rtranclp [OF gen_next [OF st'(1)] IH(1)] .
  with IH st'(1) show ?case by (simp add: pybind_def)
qed

theorem gen_loop_live_witness:
  "\<exists>st'. gen_small\<^sup>*\<^sup>* (Running init_gen [JObj [(''z'', JInt (-1)), (''symbol'', JStr ''X''), (''name'', JStr ''A'')],
                                        JObj [(''z'', JInt 118), (''symbol'', JStr ''Y''), (''name'', JStr ''B'')]])
          (Finished st') \<and> (\<forall>c. \<not> gen_small (Finished st') c) \<and>
          gen_loop init_gen [JObj [(''z'', JInt (-1)), (''symbol'', JStr ''X''), (''name'', JStr ''A'')],
                             JObj [(''z'', JInt 118), (''symbol'', JStr ''Y''), (''name'', JStr ''B'')]] = Inr st' \<and>
          length (g_packed st') = 119"
proof (rule gen_loop_live)
  show "list_all gen_elem_ok [JObj [(''z'', JInt (-1)), (''symbol'', JStr ''X''), (''name'', JStr ''A'')],
                              JObj [(''z'', JInt 118), (''symbol'', JStr ''Y''), (''name'', JStr ''B'')]]"
    by (simp add: gen_elem_ok_def py_index_def py_get_def dict_get_def str_ok_def num_ok_def int_ok_def is_jstr_def)
qed (simp add: init_gen_def)

text \<open>C31. \<open>packed[z] = rec\<close> stores without a check: a well-formed element with
  int \<open>z\<close> is stored whatever slot \<open>z\<close> held before (no duplicate check), a negative
  \<open>z\<close> in slot \<open>119 + z\<close> (\<open>-1\<close> is written as element 118, \<open>-119\<close> into the unused
  slot 0).\<close>

theorem gen_step_overwrites_slot:
  assumes "gen_elem_ok (JObj d)" and "length (g_packed st) = 119" and "py_index d ''z'' = Inr (JInt k)"
  shows "\<exists>st' r. gen_step st (JObj d) = Inr st' \<and>
           g_packed st' = (g_packed st)[nat (if k < 0 then 119 + k else k) := Some r] \<and> hd r = (''z'', JInt k)"
proof -
  have k: "- 119 \<le> k" "k < 119" using assms(1,3) by (simp_all add: gen_elem_ok_def)
  then have "k mod 119 = (if k < 0 then 119 + k else k)" by (auto simp: neg_mod_wrap)
  with gen_step_ok [OF assms] show ?thesis by simp
qed

theorem gen_step_overwrites_slot_witness:
  "\<exists>st' r. gen_step (init_gen\<lparr>g_packed := (replicate 119 None)[118 := Some []]\<rparr>)
             (JObj [(''z'', JInt (-1)), (''symbol'', JStr ''X''), (''name'', JStr ''Neg'')]) = Inr st' \<and>
           g_packed st' = (replicate 119 None)[118 := Some r] \<and> hd r = (''z'', JInt (-1))"
proof -
  have ok: "gen_elem_ok (JObj [(''z'', JInt (-1)), (''symbol'', JStr ''X''), (''name'', JStr ''Neg'')])"
    by (simp add: gen_elem_ok_def py_index_def py_get_def dict_get_def str_ok_def num_ok_def int_ok_def is_jstr_def)
  have len: "length (g_packed (init_gen\<lparr>g_packed := (replicate 119 None)[118 := Some []]\<rparr>)) = 119" by simp
  have z: "py_index [(''z'', JInt (-1)), (''symbol'', JStr ''X''), (''name'', JStr ''Neg'')] ''z'' = Inr (JInt (-1))"
    by (simp add: py_index_def dict_get_def)
  from gen_step_overwrites_slot [OF ok len z] show ?thesis by simp
qed

end
