(* ===== verification/InstallRun.thy ===== *)
theory InstallRun
  imports InstallMain
begin

text \<open>
  The effects of \<open>main\<close> in \<open>src/desktop_emulator/install_app.py\<close> around the project
  update of \<open>InstallMain\<close>: the temporary directory of a tar install (lines 420--424),
  the file operations of the install (lines 461--482), \<open>rebuild_emulator\<close> (lines
  384--400), which runs \<open>cmake\<close> and \<open>make\<close> as subprocesses, and the removal of the
  temporary directory (lines 448--449, 495--496). A run is the trace of the
  process-level actions, the project as the script leaves it, and how \<open>main\<close> ends.
  The build host is a record: whether \<open>build/\<close> exists, the exit statuses of the two
  tools, and which I/O calls raise (an \<open>OSError\<close> of a corrupt archive, a missing
  or unreadable file or a tool not installed, a \<open>UnicodeDecodeError\<close> of a source
  that is not UTF-8). \<open>cmake\<close> runs with \<open>check=True\<close>, so a
  non-zero status is \<open>CalledProcessError\<close>; a failed \<open>make\<close> only makes
  \<open>rebuild_emulator\<close> return \<open>False\<close>. No call is wrapped in \<open>try\<close>, so every
  exception ends \<open>main\<close>. Printing is not part of the trace.
\<close>

section \<open>The build host and the actions\<close>

text \<open>\<open>BUILD_DIR\<close> (line 33).\<close>

definition build_path :: "string \<Rightarrow> string" where
  "build_path sd = os_path_join sd ''build''"

text \<open>The I/O calls of \<open>main\<close> that can raise: \<open>tarfile.open\<close>/\<open>extractall\<close>, the
  \<open>read_file\<close> of the source, the \<open>write_file\<close> of the converted app, the icon copy,
  the read-modify-write of each project file, and the two \<open>subprocess.run\<close>.\<close>

datatype io_call =
    ExtractTar | ReadSource | WriteApp | CopyIcon
  | EditGlobals | EditV3 | EditHome | EditLauncher | EditCmake
  | RunCmake | RunMake

record build_env =
  build_exists :: bool            \<comment> \<open>\<open>os.path.exists(BUILD_DIR)\<close>\<close>
  cmake_rc :: int                 \<comment> \<open>exit status of \<open>cmake ..\<close>\<close>
  make_rc :: int                  \<comment> \<open>exit status of \<open>make -j4\<close>\<close>
  io_raises :: "io_call \<Rightarrow> bool"  \<comment> \<open>the call raises\<close>

datatype io_action =
    MkTemp string            \<comment> \<open>\<open>tempfile.mkdtemp()\<close> returning the path\<close>
  | Extract string string    \<comment> \<open>\<open>tar.extractall\<close> of an archive into a directory\<close>
  | Makedirs string
  | Run "string list" string \<comment> \<open>\<open>subprocess.run(cmd, cwd=dir)\<close>\<close>
  | Rmtree string

text \<open>How \<open>main\<close> ends: one of its \<open>sys.exit(1)\<close> branches, the
  \<open>CalledProcessError\<close> of \<open>cmake\<close>, the exception of an I/O call, or normally with
  the value \<open>rebuild_emulator\<close> returned.\<close>

datatype run_err = Exit install_err | CalledProcessError | IOError io_call

section \<open>rebuild_emulator (lines 384--400)\<close>

definition rebuild_emulator :: "string \<Rightarrow> build_env \<Rightarrow> io_action list \<times> (run_err + bool)" where
  "rebuild_emulator sd env =
     (let bd = build_path sd;
          make = Run [''make'', ''-j4''] bd
      in if \<not> build_exists env then
           (let configure = [Makedirs bd, Run [''cmake'', ''..''] bd] in
            if io_raises env RunCmake then (configure, Inl (IOError RunCmake))
            else if cmake_rc env \<noteq> 0 then (configure, Inl CalledProcessError)
            else if io_raises env RunMake then (configure @ [make], Inl (IOError RunMake))
            else (configure @ [make], Inr (make_rc env = 0)))
         else if io_raises env RunMake then ([make], Inl (IOError RunMake))
         else ([make], Inr (make_rc env = 0)))"

section \<open>The file operations of the install (lines 461--482)\<close>

text \<open>The writes of \<open>main\<close> in order, each the call that may raise and its update of
  the project; \<open>add_to_applauncher\<close> opens its file only when it exists.\<close>

definition install_steps ::
  "string \<Rightarrow> string \<Rightarrow> string option \<Rightarrow> (io_call \<times> (emu_project \<Rightarrow> emu_project)) list" where
  "install_steps app_name source_code icon_file =
     [(WriteApp, \<lambda>P. P\<lparr>app_src := (app_src P)(app_name @ ''_APP.cpp'' \<mapsto> convert_app_code source_code app_name)\<rparr>)] @
     (case icon_file of
        None \<Rightarrow> []
      | Some i \<Rightarrow> [(CopyIcon, \<lambda>P. P\<lparr>app_icons := (app_icons P)(py_lower app_name @ ''_icon.bin'' \<mapsto> i)\<rparr>)]) @
     [(EditGlobals, \<lambda>P. P\<lparr>globals_h := add_to_globals_h app_name (globals_h P)\<rparr>),
      (EditV3, \<lambda>P. P\<lparr>v3_cpp := add_to_pocketmage_v3 app_name (v3_cpp P)\<rparr>),
      (EditHome, \<lambda>P. P\<lparr>home_cpp := add_to_home_commands app_name (home_cpp P)\<rparr>),
      (EditLauncher, \<lambda>P. P\<lparr>launcher_cpp := snd (add_to_applauncher app_name (launcher_cpp P))\<rparr>),
      (EditCmake, \<lambda>P. P\<lparr>cmake_txt := add_to_cmake app_name (cmake_txt P)\<rparr>)]"

definition opens_file :: "io_call \<Rightarrow> emu_project \<Rightarrow> bool" where
  "opens_file c P = (c \<noteq> EditLauncher \<or> launcher_cpp P \<noteq> None)"

fun run_steps ::
  "build_env \<Rightarrow> (io_call \<times> (emu_project \<Rightarrow> emu_project)) list \<Rightarrow> emu_project \<Rightarrow> emu_project \<times> io_call option" where
  "run_steps env [] P = (P, None)"
| "run_steps env ((c, f) # cs) P =
     (if io_raises env c \<and> opens_file c P then (P, Some c) else run_steps env cs (f P))"

section \<open>main with its effects (lines 403--496)\<close>

text \<open>The trace, the project as the script leaves it and the outcome. The temporary
  directory exists from \<open>mkdtemp\<close> on; it is removed on the no-source exit and after
  the rebuild, and on no other path.\<close>

definition install_run ::
  "host_fs \<Rightarrow> build_env \<Rightarrow> string \<Rightarrow> string \<Rightarrow> string list \<Rightarrow> emu_project \<Rightarrow>
   io_action list \<times> emu_project \<times> (run_err + bool)" where
  "install_run fs env sd tmp argv P =
     (if length argv < 2 then ([], P, Inl (Exit Usage))
      else
        let source_path = argv ! 1;
            is_tar = suffix ''.tar'' source_path \<or> suffix ''.tar.gz'' source_path;
            temp = (if is_tar then [MkTemp tmp, Extract source_path tmp] else []);
            cleanup = (if is_tar then [Rmtree tmp] else [])
        in case install_source fs tmp source_path of
             Inl e \<Rightarrow> ([], P, Inl (Exit e))
           | Inr (app_folder, app_name) \<Rightarrow>
               if is_tar \<and> io_raises env ExtractTar then (temp, P, Inl (IOError ExtractTar))
               else case find_source_file fs app_folder of
                  None \<Rightarrow> (temp @ cleanup, P, Inl (Exit NoSource))
                | Some source_file \<Rightarrow>
                    if io_raises env ReadSource then (temp, P, Inl (IOError ReadSource))
                    else case run_steps env (install_steps app_name (fs_read fs source_file)
                                                (find_icon_file fs app_folder)) P of
                      (P', Some c) \<Rightarrow> (temp, P', Inl (IOError c))
                    | (P', None) \<Rightarrow>
                        (case rebuild_emulator sd env of
                           (tr, Inl e) \<Rightarrow> (temp @ tr, P', Inl e)
                         | (tr, Inr ok) \<Rightarrow> (temp @ tr @ cleanup, P', Inr ok)))"

section \<open>Lemmas\<close>

lemma rebuild_emulator_actions:
  "rebuild_emulator sd env = (tr, r) \<Longrightarrow> \<forall>a\<in>set tr. \<exists>d cmd. a = Makedirs d \<or> a = Run cmd d"
  by (auto simp: rebuild_emulator_def Let_def split: if_splits)

lemma install_source_tar:
  "suffix ''.tar'' s \<or> suffix ''.tar.gz'' s \<Longrightarrow> fs_exists fs s \<Longrightarrow> \<exists>n. install_source fs tmp s = Inr (tmp, n)"
  by (simp add: install_source_def)

text \<open>Without a failing call, the steps are the update of \<open>install_project\<close>.\<close>

lemma run_steps_install_project:
  "(\<forall>c. \<not> io_raises env c) \<Longrightarrow>
   run_steps env (install_steps n code icon) P = (install_project n code icon P, None)"
  by (cases icon) (simp_all add: install_steps_def install_project_def Let_def)

lemma rebuild_emulator_no_temp:
  "rebuild_emulator sd env = (tr, r) \<Longrightarrow> MkTemp d \<notin> set tr \<and> Rmtree d \<notin> set tr \<and> r \<noteq> Inl (Exit e)"
  using rebuild_emulator_actions [of sd env tr r]
  by (fastforce simp: rebuild_emulator_def Let_def split: if_splits)

text \<open>Where no I/O call fails, \<open>main\<close> leaves the project \<open>install_main\<close> computes.\<close>

lemma install_run_no_failure:
  assumes "\<forall>c. \<not> io_raises env c" and "install_main fs tmp argv P = Inr P''"
  shows "\<exists>tr. install_run fs env sd tmp argv P = (tr, P'', Inr (make_rc env = 0)) \<or>
              install_run fs env sd tmp argv P = (tr, P'', Inl CalledProcessError)"
  using assms
  by (auto simp: install_run_def install_main_def Let_def run_steps_install_project rebuild_emulator_def
           split: if_splits sum.splits option.splits prod.splits)

section \<open>Properties\<close>

text \<open>C33. Once \<open>main\<close> has created the temporary directory of a tar install, it removes
  it exactly when it ends normally or by the no-source exit: a corrupt archive, an
  unreadable source, a failed write or project edit, a missing build tool or a failing
  \<open>cmake\<close> all end \<open>main\<close> with the directory left behind.\<close>

theorem install_run_temp_cleanup:
  assumes run: "install_run fs env sd tmp argv P = (tr, P', r)"
    and tmp: "MkTemp tmp \<in> set tr"
  shows "Rmtree tmp \<in> set tr \<longleftrightarrow> r = Inl (Exit NoSource) \<or> (\<exists>ok. r = Inr ok)"
  using run tmp
  by (auto simp: install_run_def Let_def dest: rebuild_emulator_no_temp
           split: if_splits sum.splits option.splits prod.splits)

theorem install_run_temp_cleanup_witness:
  "\<exists>tr P'. install_run \<lparr>fs_exists = (\<lambda>p. p = ''a.tar'' \<or> p = ''/t/src/appMain.cpp''), fs_isdir = (\<lambda>_. False),
       fs_walk = (\<lambda>_. []), fs_read = (\<lambda>_. [])\<rparr>
     \<lparr>build_exists = True, cmake_rc = 0, make_rc = 0, io_raises = (\<lambda>c. c = ExtractTar)\<rparr> ''/e'' ''/t'' [''i'', ''a.tar'']
     \<lparr>globals_h = [], v3_cpp = [], home_cpp = [], launcher_cpp = None, cmake_txt = [],
       app_src = Map.empty, app_icons = Map.empty\<rparr> =
       (tr, P', Inl (IOError ExtractTar)) \<and> MkTemp ''/t'' \<in> set tr \<and> Rmtree ''/t'' \<notin> set tr"
proof -
  let ?fs = "\<lparr>fs_exists = (\<lambda>p. p = ''a.tar'' \<or> p = ''/t/src/appMain.cpp''), fs_isdir = (\<lambda>_. False),
       fs_walk = (\<lambda>_. []), fs_read = (\<lambda>_. [])\<rparr> :: host_fs"
  let ?P = "\<lparr>globals_h = [], v3_cpp = [], home_cpp = [], launcher_cpp = None, cmake_txt = [],
       app_src = Map.empty, app_icons = Map.empty\<rparr> :: emu_project"
  let ?env = "\<lparr>build_exists = True, cmake_rc = 0, make_rc = 0, io_raises = (\<lambda>c. c = ExtractTar)\<rparr> :: build_env"
  obtain tr P' r where run: "install_run ?fs ?env ''/e'' ''/t'' [''i'', ''a.tar''] ?P = (tr, P', r)"
    by (cases "install_run ?fs ?env ''/e'' ''/t'' [''i'', ''a.tar''] ?P") blast
  have tar: "suffix ''.tar'' ''a.tar''" "fs_exists ?fs ''a.tar''" by (simp_all add: suffix_to_prefix)
  obtain n where src: "install_source ?fs ''/t'' ''a.tar'' = Inr (''/t'', n)"
    using install_source_tar tar by blast
  have "r = Inl (IOError ExtractTar) \<and> MkTemp ''/t'' \<in> set tr"
    using run tar src by (auto simp: install_run_def Let_def)
  with install_run_temp_cleanup [OF run] run show ?thesis by blast
qed

end
