(* ===== verification/Spec2Isabelle.thy ===== *)
theory Spec2Isabelle
  imports NumericEncoder EnumMapper StringHeap Bitmap PeriodicPack Pokemon AppExport GenElements InstallRun
begin

text \<open>
  \<^bold>\<open>PocketMage data converters: a verification development.\<close>

  The repository's offline data compilers turn loosely typed JSON datasets into
  fixed-layout resources for the PocketMage handheld:
  \<^item> \<open>src/tools/utils/Periodic Table/pack_periodic.py\<close> reads the element table of
    Bowserinator's PeriodicTableJSON and writes \<open>periodic_data_pack.h\<close>: three string
    heaps (symbols, names, discoverers) and a 119-slot array of packed element records
    indexed by atomic number;
  \<^item> \<open>src/tools/utils/Periodic Table/gen_elements.py\<close> writes the same header from a
    simpler element list (or a built-in sample of 20 elements);
  \<^item> \<open>src/tools/utils/Pokemon/pokemon_data_converter.py\<close> writes binary files: a name
    string table, 32-byte stat records, deduplicated genus and flavour tables, an index
    and a sprite file of 1-bit bitmaps;
  \<^item> \<open>src/desktop_emulator/install_app.py\<close> and \<open>export_app.py\<close> rewrite the C++
    source of an app between its standalone and its emulator-integrated form.

  \<^bold>\<open>Library.\<close>
  \<^item> \<open>Prelude\<close>: bytes, the little-endian layout of \<open>struct.pack\<close>, Python's
    \<open>round\<close> (half to even) with its bounds and monotonicity.
  \<^item> \<open>PyValue\<close>: the Python runtime the scripts rely on: JSON values as
    \<open>json.load\<close> returns them (duplicate keys, \<open>Infinity\<close> and \<open>NaN\<close>
    included), exceptions as the \<open>Inl\<close> side of \<open>pyexc + 'a\<close>, floats with their
    overflow to infinity, and the builtins \<open>float()\<close>, \<open>int()\<close>, \<open>round()\<close>,
    \<open>str()\<close>, \<open>dict.get\<close>, truthiness, \<open>strip\<close>, \<open>lower\<close>, \<open>split\<close>,
    \<open>replace\<close>, \<open>in\<close>.
  \<^item> \<open>NumericEncoder\<close>: \<open>scale_or\<close> (pack_periodic.py) and \<open>scale_value\<close>
    (gen_elements.py), the spec's abstract \<open>encode\<close> and the refinement between them,
    the error paths on infinite and NaN input, range bounds, the precision of the
    fixed-point encoding and its saturation (C1--C5).
  \<^item> \<open>EnumMapper\<close>: \<open>map_category\<close>, \<open>map_block\<close>, \<open>map_phase\<close> of
    pack_periodic.py, the dictionaries of gen_elements.py and the Pokemon type table; the
    spec's ordered first-match table (\<open>map_enum\<close>) is the abstract mapper. The lemmas
    show that the category chain is that table, that \<open>PostTransition\<close> is unreachable
    and where the mappers fail (C6--C7); the lemma \<open>gen_category_agree_all\<close> gives
    the names on which the two generators agree, and the lemmas
    \<open>map_block_unknown_iff\<close> and \<open>gen_map_block_zero_iff\<close> give the defaults.
  \<^item> \<open>StringHeap\<close>: \<open>add_str\<close>, \<open>add_string_to_table\<close>, the string tables of
    the Pokemon converter (\<open>append_strs\<close>, \<open>running_offsets\<close>, \<open>table_chunks\<close>)
    and the consumer's C-string reader \<open>read_cstr\<close> and table decoder
    \<open>decode_table\<close>; interning, offset and file-layout round trips, the NUL
    truncation (\<open>embedded_nul_truncates\<close>) and the partial write when
    \<open>struct.pack\<close> fails (C8--C11).
  \<^item> \<open>Bitmap\<close>: the packing loop of \<open>convert_sprite_to_bitmap\<close> and its fallback;
    pixel round trip, zero padding and the fallback's length (C12--C14).
  \<^item> \<open>PeriodicPack\<close>: the loop of \<open>main\<close> in pack_periodic.py with its field
    helpers, as a state record \<open>pack_state\<close> (three heaps, the 119 slots, the seen
    set) threaded through \<open>pack_element\<close>; the loop invariant \<open>pack_inv\<close> and the
    slot, duplicate-abort, key, bound and string round-trip properties (C15--C19); the
    skip of out-of-range keys and the unclamped \<open>group\<close>/\<open>period\<close> are the lemmas
    \<open>pack_out_of_range_skipped\<close> and \<open>pack_group_unclamped\<close>.

  \<^item> \<open>Pokemon\<close>: \<open>pokemon_data_converter.py\<close> end to end:
    \<open>create_string_table\<close>, \<open>create_pokemon_records\<close> (the
    \<open>'<HHHBBBBBBBBHHLxxxxxxxxxx'\<close> record, the genus and flavour tables),
    \<open>create_index_file\<close>, \<open>create_sprite_data\<close>, \<open>load_pokemon_data\<close> and
    \<open>main\<close> (\<open>pokemon_main\<close>), each file as its
    sequence of writes so that an exception leaves the partial file; the consumer-side
    sprite reader \<open>decode_sprite\<close>. The index points at the record of each Pokemon, the
    record's sprite offset disagrees with the sprite file, and every sprite reads back
    (C20--C22).
  \<^item> \<open>PyRegex\<close>: the part of Python's \<open>re\<close> the emulator scripts use, as a
    backtracking, leftmost-first matcher (\<open>rm\<close>, \<open>re_search\<close>) over patterns
    written item by item, with capturing groups and \<open>re.sub\<close> (\<open>re_sub\<close>, including
    the step over an empty match); \<open>re.sub\<close> of one character class by the empty
    string is \<open>filter\<close>. It is checked against CPython on the scripts' patterns.
  \<^item> \<open>AppInstall\<close>: install_app.py's \<open>remove_function\<close> (its brace loop both as
    the terminating function \<open>brace_end\<close> and, literally, as \<open>while_option\<close> in
    \<open>brace_loop\<close>), \<open>convert_app_code\<close> and the five project-file edits
    (\<open>add_to_globals_h\<close>, \<open>add_to_pocketmage_v3\<close>, \<open>add_to_home_commands\<close>,
    \<open>add_to_applauncher\<close>, \<open>add_to_cmake\<close>), each a function from the content read
    to the content written back. The brace loop against the contract
    \<open>closing_brace\<close> (first return of the depth to zero), the unclosed-body
    deletion, and idempotence of four edits through the shared lemma
    \<open>Prelude.guarded_edit_idempotent\<close> (C23--C26); the lemmas give the name
    cleaning as a filter (\<open>clean_app_name_filter\<close>, \<open>clean_name_identifier\<close>),
    termination of the literal loop (\<open>brace_loop_terminates\<close>) and the
    non-idempotent globals.h fallback (\<open>globals_not_idempotent\<close>).
  \<^item> \<open>InstallMain\<close>: install_app.py's \<open>main\<close> over a host file-system record
    (\<open>host_fs\<close>) and a project record (\<open>emu_project\<close>, one field per file the
    installer edits), with \<open>posixpath\<close> \<open>join\<close>/\<open>normpath\<close>/\<open>basename\<close>, and
    the script's path constants; the files an install touches have distinct base names
    (\<open>install_files_distinct\<close>), which is what makes one record field per file
    sound. The CMakeLists entry names a file the install does not write (C27).
  \<^item> \<open>AppExport\<close>: export_app.py's \<open>find_integrated_app\<close>,
    \<open>convert_to_standalone\<close>, \<open>create_standalone_project\<close> (the four files as
    \<open>(path, content)\<close> writes) and \<open>main\<close>; the lemma
    \<open>install_export_loses_setup\<close> evaluates an install/export round trip that
    loses the app's \<open>setup\<close>, the exits of
    \<open>main\<close> are the lemma \<open>export_main_errors\<close>, and \<open>export_finds_installed\<close>
    shows the exporter reading the file the installer wrote.
  \<^item> \<open>PeriodicHeader\<close>: the header writer of pack_periodic.py (\<open>emit_header\<close>: the
    three heaps as \<open>uint8_t\<close> initializers, the 119 rows of \<open>PT_ELEMENTS\<close>) and its
    entry point \<open>pack_periodic_script\<close>; \<open>read_decimals\<close> and
    \<open>c_initializers\<close> are the compiler's reading of an initializer list. The heap
    initializers read back to the heap bytes, and row \<open>k\<close> is slot \<open>k\<close>'s record
    beginning with \<open>{k,\<close> (C28--C29).
  \<^item> \<open>GenElements\<close>: gen_elements.py's \<open>emit_tables\<close>: one iteration
    \<open>gen_step\<close> on the state record \<open>gen_state\<close>, the loop \<open>gen_loop\<close>, the
    same loop as the transition system \<open>gen_small\<close> (deterministic,
    \<open>gen_small_det\<close>), the record as the source's \<open>OrderedDict\<close>, Python's list
    assignment \<open>py_setitem\<close> with its negative-index wrap, the header text, the
    sample data set and \<open>main\<close>. The well-formed elements (\<open>gen_elem_ok\<close>:
    an int \<open>z\<close> in range, string or falsy strings, numbers that scale without
    overflow, int oxidation bounds, string enums) are those on which an iteration
    cannot raise (\<open>gen_step_ok\<close>, progress), and the 119 slots are preserved; on
    them the loop reaches a final configuration, the state \<open>gen_loop\<close> returns,
    and each iteration overwrites its slot with no duplicate check and wraps a negative
    \<open>z\<close> (C30--C31).
  \<^item> This theory: the two generators of the same header disagree on the arity of
    the record row, 19 initializers against 20 (C32).
  \<^item> \<open>InstallRun\<close>: install_app.py's \<open>main\<close> with its process-level effects as a
    trace (\<open>io_action\<close>: \<open>mkdtemp\<close>, extraction, \<open>makedirs\<close>, subprocess runs,
    \<open>rmtree\<close>), threading the project record through the file operations in
    source order (\<open>install_steps\<close>, \<open>run_steps\<close>, stopping at the first call
    that raises), and \<open>rebuild_emulator\<close>. The build host (\<open>build_env\<close>) gives the
    exit statuses of \<open>cmake\<close> and \<open>make\<close> and which I/O calls raise. With no failing call \<open>main\<close> leaves the project
    \<open>install_main\<close> computes (\<open>install_run_no_failure\<close>); the temporary
    directory is removed exactly on a normal end and on the no-source exit (C33).

  \<^bold>\<open>Interaction.\<close> The Pokemon writers share the string-table builders of
  \<open>StringHeap\<close> and the bitmap packer of \<open>Bitmap\<close>; \<open>PeriodicPack\<close> calls the
  encoders of \<open>NumericEncoder\<close> and the mappers of \<open>EnumMapper\<close>; the installer's
  \<open>main\<close> composes the conversion and the edits of \<open>AppInstall\<close> into one update of
  the project record, \<open>InstallRun\<close> wraps that update in the script's effects, and
  the exporter reads what the installer wrote. pack_periodic.py
  and gen_elements.py write the same header \<open>periodic_data_pack.h\<close> for the same
  C struct; they share the heap builder, the encoders and the mappers of the library
  and are compared on their rows in this theory.

  \<^bold>\<open>Modelling choices.\<close> Python floats are real numbers with IEEE overflow to
  infinity (\<open>PyValue.to_float\<close>); the rounding of finite values to 53 bits is not
  modelled, so a statement about \<open>round(x * scale)\<close> is about the exact product.
  Python strings are their UTF-8 bytes; \<open>\s\<close> is ASCII whitespace. Every exception a
  script raises and does not catch is a value \<open>Inl e\<close>; an uncaught exception ends the
  script before it writes its output. Loops are structural recursion or
  \<open>function\<close>s with a measure (\<open>brace_end\<close>: the characters left;
  \<open>re_sub_from\<close>: the positions left, an empty match advancing by one); the only
  loop modelled as possibly non-terminating, \<open>brace_loop\<close>, is proved to stop. No
  fuel bounds are used. The element loop of gen_elements.py is also an inductive step
  relation, whose runs are bounded by the number of elements. The two header writers
  were checked against the scripts byte for byte: \<open>emit_header\<close> on a two-element
  document, \<open>emit_tables\<close> on \<open>--sample\<close> and on twelve edge inputs (negative
  and duplicate \<open>z\<close>, string and bool fields, each exception), by evaluating the
  definitions. Witnesses evaluate the definitions by \<open>simp\<close> or
  \<open>code_simp\<close> on inputs short enough for the kernel.

  \<^bold>\<open>Not modelled.\<close> PIL's image
  loading, resampling and dithering (the bitmap packer starts from the dithered pixel
  list), which is library code whose resampling is floating-point LANCZOS and
  whose dithering is PIL's own error diffusion: neither can be stated from the
  repository, and PIL is not available to check a model against. Also not modelled:
  the content of files written by \<open>shutil.copy\<close> and tar extraction (their listings
  are inputs of the installer model), the effects of \<open>cmake\<close> and \<open>make\<close>
  themselves (only their exit statuses are inputs), why an I/O call fails (the host
  record says which calls raise), and printing. The library code the scripts call (\<open>re\<close>, \<open>posixpath\<close>,
  \<open>struct\<close>, \<open>json\<close>) is modelled from its documented behaviour and not mapped.
\<close>


section \<open>Properties spanning components\<close>

text \<open>C32. The two generators of \<open>periodic_data_pack.h\<close> disagree on the record they
  initialize \<open>PackedElement\<close> with: a row of gen_elements.py has the spec's nineteen
  initializers (when the values it copies from the element are ints), a row of
  pack_periodic.py has twenty, with \<open>electron_aff_x100\<close> after \<open>en_paulingx100\<close>, so
  one of the two headers shifts every field from \<open>group\<close> on.\<close>

theorem record_arity_differs:
  assumes "gen_record_of elem z a b c = Inr r"
    and "\<forall>v\<in>{z, py_get elem ''group'' (JInt 0), py_get elem ''period'' (JInt 0), py_get elem ''valence_e'' (JInt 0),
            py_get elem ''flags'' (JInt 0), py_get elem ''discovery_year'' (JInt 0)}. \<exists>i. v = JInt i"
  shows "length (c_initializers (gen_row r)) = 19 \<and> length (c_initializers (element_row p)) = 20"
  using gen_row_initializers [OF assms] gen_record_of_Inr [OF assms(1)] element_row_initializers [of p]
  by simp

theorem record_arity_differs_witness:
  "\<exists>r. gen_record_of [(''z'', JInt 1)] (JInt 1) 0 0 0 = Inr r \<and> length (c_initializers (gen_row r)) = 19 \<and>
       (\<forall>p. length (c_initializers (element_row p)) = 20)"
proof -
  obtain r where r: "gen_record_of [(''z'', JInt 1)] (JInt 1) 0 0 0 = Inr r"
    by (simp add: gen_eval)
  have h: "\<forall>v\<in>{JInt 1, py_get [(''z'', JInt 1)] ''group'' (JInt 0), py_get [(''z'', JInt 1)] ''period'' (JInt 0),
      py_get [(''z'', JInt 1)] ''valence_e'' (JInt 0), py_get [(''z'', JInt 1)] ''flags'' (JInt 0),
      py_get [(''z'', JInt 1)] ''discovery_year'' (JInt 0)}. \<exists>i. v = JInt i"
    by (simp add: py_get_def dict_get_def)
  show ?thesis using record_arity_differs [OF r h] r by blast
qed

end
